theory Spec2Isabelle
  imports Complex_Main "HOL-Library.Multiset"
begin

section \<open>Numbers and colours\<close>

text \<open>
  The viewer computes with JavaScript numbers. They are modelled as real numbers: rounding
  error, NaN and the infinities are outside the model. Where the source starts a reduction
  from \<open>-Infinity\<close> the accumulator is an option, \<open>None\<close> standing for \<open>-Infinity\<close>.
\<close>

definition TAU :: real where
  "TAU = pi * 2"

text \<open>The \<open>%\<close> operator of JavaScript: the remainder has the sign of the dividend.\<close>

definition js_trunc :: "real \<Rightarrow> int" where
  "js_trunc x = (if x < 0 then \<lceil>x\<rceil> else \<lfloor>x\<rfloor>)"

definition js_mod :: "real \<Rightarrow> real \<Rightarrow> real" where
  "js_mod a n = a - n * of_int (js_trunc (a / n))"

text \<open>\<open>Math.round\<close>: to the nearest integer, halves upwards.\<close>

definition js_round :: "real \<Rightarrow> int" where
  "js_round x = \<lfloor>x + 1 / 2\<rfloor>"

text \<open>\<open>THREE.MathUtils.euclideanModulo\<close> and \<open>THREE.MathUtils.clamp\<close>.\<close>

definition euclideanModulo :: "real \<Rightarrow> real \<Rightarrow> real" where
  "euclideanModulo n m = js_mod (js_mod n m + m) m"

definition clamp :: "real \<Rightarrow> real \<Rightarrow> real \<Rightarrow> real" where
  "clamp v lo hi = max lo (min hi v)"

text \<open>
  A \<open>THREE.Color\<close> is kept as the call that wrote it: \<open>set(hex)\<close> stores the hexadecimal
  code, \<open>setHSL(h, s, l)\<close> stores the triple after the normalisation three.js applies
  before converting it (hue taken modulo 1, saturation and lightness clamped to [0, 1]).
\<close>

datatype Color = Hex nat | HSL real real real

definition setHex :: "nat \<Rightarrow> Color" where
  "setHex h = Hex h"

definition setHSL :: "real \<Rightarrow> real \<Rightarrow> real \<Rightarrow> Color" where
  "setHSL h s l = HSL (euclideanModulo h 1) (clamp s 0 1) (clamp l 0 1)"

section \<open>Effect library\<close>

datatype LightEffect =
    Off
  | PinkGlow | PinkPulse | PinkWave | PinkRipple
  | BlueGlow | BluePulse | BlueWave | BlueRipple
  | RainbowWave | RainbowRipple
  | Fire | Ocean | Aurora

record EffectVisual =
  baseColor :: Color
  effectType :: nat

text \<open>
  \<open>getEffectVisual\<close>. The source's \<open>default\<close> branch is the one that answers \<open>'off'\<close>.
\<close>

fun getEffectVisual :: "LightEffect \<Rightarrow> EffectVisual" where
  "getEffectVisual PinkGlow = \<lparr>baseColor = Hex 0xF7B5CD, effectType = 0\<rparr>"
| "getEffectVisual PinkPulse = \<lparr>baseColor = Hex 0xF7B5CD, effectType = 1\<rparr>"
| "getEffectVisual PinkWave = \<lparr>baseColor = Hex 0xF7B5CD, effectType = 2\<rparr>"
| "getEffectVisual PinkRipple = \<lparr>baseColor = Hex 0xF7B5CD, effectType = 3\<rparr>"
| "getEffectVisual BlueGlow = \<lparr>baseColor = Hex 0x5CA8FF, effectType = 0\<rparr>"
| "getEffectVisual BluePulse = \<lparr>baseColor = Hex 0x5CA8FF, effectType = 1\<rparr>"
| "getEffectVisual BlueWave = \<lparr>baseColor = Hex 0x5CA8FF, effectType = 2\<rparr>"
| "getEffectVisual BlueRipple = \<lparr>baseColor = Hex 0x5CA8FF, effectType = 3\<rparr>"
| "getEffectVisual RainbowWave = \<lparr>baseColor = Hex 0xFFFFFF, effectType = 4\<rparr>"
| "getEffectVisual RainbowRipple = \<lparr>baseColor = Hex 0xFFFFFF, effectType = 5\<rparr>"
| "getEffectVisual Fire = \<lparr>baseColor = Hex 0xFF6B35, effectType = 6\<rparr>"
| "getEffectVisual Ocean = \<lparr>baseColor = Hex 0x00CED1, effectType = 7\<rparr>"
| "getEffectVisual Aurora = \<lparr>baseColor = Hex 0x7FFF00, effectType = 8\<rparr>"
| "getEffectVisual Off = \<lparr>baseColor = Hex 0xF7B5CD, effectType = 0\<rparr>"

text \<open>
  \<open>evaluateEmitterEffect(effect, time, phase, outColor, speed)\<close> writes \<open>outColor\<close> and
  returns the intensity multiplier; the model returns the pair (colour written, multiplier).
\<close>

fun evaluateEmitterEffect :: "LightEffect \<Rightarrow> real \<Rightarrow> real \<Rightarrow> real \<Rightarrow> Color \<times> real" where
  "evaluateEmitterEffect Off time phase speed = (setHex 0x000000, 0)"
| "evaluateEmitterEffect PinkGlow time phase speed = (setHex 0xF7B5CD, 1)"
| "evaluateEmitterEffect PinkPulse time phase speed =
     (let t = time * speed;
          pulse = 0.5 + 0.5 * sin (t * 2.0)
      in (setHex 0xF7B5CD, 0.3 + 0.7 * pulse))"
| "evaluateEmitterEffect PinkWave time phase speed =
     (let t = time * speed;
          wave = 0.5 + 0.5 * sin (t * 3.0 + phase * TAU)
      in (setHex 0xF7B5CD, 0.2 + 0.8 * wave))"
| "evaluateEmitterEffect PinkRipple time phase speed =
     (let t = time * speed;
          ripple = 0.5 + 0.5 * sin (t * 4.0 - phase * TAU * 2.0)
      in (setHex 0xF7B5CD, 0.1 + 0.9 * ripple))"
| "evaluateEmitterEffect BlueGlow time phase speed = (setHex 0x5CA8FF, 1)"
| "evaluateEmitterEffect BluePulse time phase speed =
     (let t = time * speed;
          pulse = 0.5 + 0.5 * sin (t * 2.0)
      in (setHex 0x5CA8FF, 0.3 + 0.7 * pulse))"
| "evaluateEmitterEffect BlueWave time phase speed =
     (let t = time * speed;
          wave = 0.5 + 0.5 * sin (t * 3.0 + phase * TAU)
      in (setHex 0x5CA8FF, 0.2 + 0.8 * wave))"
| "evaluateEmitterEffect BlueRipple time phase speed =
     (let t = time * speed;
          ripple = 0.5 + 0.5 * sin (t * 4.0 - phase * TAU * 2.0)
      in (setHex 0x5CA8FF, 0.1 + 0.9 * ripple))"
| "evaluateEmitterEffect RainbowWave time phase speed =
     (let t = time * speed;
          hue = js_mod (t * 0.3 + phase) 1;
          wave = 0.5 + 0.5 * sin (t * 2.5 + phase * TAU)
      in (setHSL hue 0.85 0.55, 0.4 + 0.6 * wave))"
| "evaluateEmitterEffect RainbowRipple time phase speed =
     (let t = time * speed;
          hue = js_mod (t * 0.2 - phase * 0.5) 1;
          ripple = 0.5 + 0.5 * sin (t * 3.5 - phase * TAU * 2.0)
      in (setHSL (if hue < 0 then hue + 1 else hue) 0.9 0.55, 0.2 + 0.8 * ripple))"
| "evaluateEmitterEffect Fire time phase speed =
     (let t = time * speed;
          flicker = sin (t * 8.0 + phase * 5.0) * sin (t * 12.0 + phase * 7.0);
          hue = 0.05 + 0.05 * flicker
      in (setHSL hue 1.0 (0.5 + 0.15 * flicker), 0.5 + 0.5 * (0.5 + 0.5 * flicker)))"
| "evaluateEmitterEffect Ocean time phase speed =
     (let t = time * speed;
          wave1 = sin (t * 1.5 + phase * TAU);
          wave2 = sin (t * 2.3 + phase * TAU * 1.5);
          combined = (wave1 + wave2) * 0.5;
          hue = 0.52 + 0.03 * combined
      in (setHSL hue 0.7 (0.45 + 0.1 * combined), 0.4 + 0.6 * (0.5 + 0.5 * combined)))"
| "evaluateEmitterEffect Aurora time phase speed =
     (let t = time * speed;
          shift = sin (t * 0.8 + phase * TAU);
          shimmer = sin (t * 4.0 + phase * 3.0) * 0.3;
          hue = 0.35 + 0.15 * shift + 0.05 * shimmer
      in (setHSL hue 0.75 (0.5 + 0.15 * shimmer), 0.5 + 0.5 * (0.5 + 0.5 * shift + 0.2 * shimmer)))"

section \<open>Geometry sampler\<close>

datatype Vector3 = Vector3 (vx: real) (vy: real) (vz: real)

definition distanceToSquared :: "Vector3 \<Rightarrow> Vector3 \<Rightarrow> real" where
  "distanceToSquared a b =
     (vx a - vx b) * (vx a - vx b) + (vy a - vy b) * (vy a - vy b) + (vz a - vz b) * (vz a - vz b)"

definition distanceTo :: "Vector3 \<Rightarrow> Vector3 \<Rightarrow> real" where
  "distanceTo a b = sqrt (distanceToSquared a b)"

definition lengthSq :: "Vector3 \<Rightarrow> real" where
  "lengthSq v = vx v * vx v + vy v * vy v + vz v * vz v"

text \<open>\<open>Vector3.normalize\<close> divides by the length, or by 1 when the length is 0.\<close>

definition normalize :: "Vector3 \<Rightarrow> Vector3" where
  "normalize v =
     (let l = sqrt (lengthSq v); d = (if l = 0 then 1 else l)
      in Vector3 (vx v / d) (vy v / d) (vz v / d))"

definition lerp :: "Vector3 \<Rightarrow> Vector3 \<Rightarrow> real \<Rightarrow> Vector3" where
  "lerp a b alpha =
     Vector3 (vx a + (vx b - vx a) * alpha) (vy a + (vy b - vy a) * alpha) (vz a + (vz b - vz a) * alpha)"

definition addScaledVector :: "Vector3 \<Rightarrow> Vector3 \<Rightarrow> real \<Rightarrow> Vector3" where
  "addScaledVector a v s = Vector3 (vx a + vx v * s) (vy a + vy v * s) (vz a + vz v * s)"

definition sub :: "Vector3 \<Rightarrow> Vector3 \<Rightarrow> Vector3" where
  "sub a b = Vector3 (vx a - vx b) (vy a - vy b) (vz a - vz b)"

definition setY :: "Vector3 \<Rightarrow> real \<Rightarrow> Vector3" where
  "setY v y = Vector3 (vx v) y (vz v)"

text \<open>
  A mesh of the loaded model. \<open>geometry\<close> is \<open>None\<close> when the geometry is not a
  \<open>BufferGeometry\<close>; an attribute that the geometry lacks is \<open>None\<close>. The world matrix of
  the object is not opened up: \<open>localToWorld\<close> and \<open>transformDirection\<close> are what three.js
  computes from it, and \<open>worldSize\<close> is the size of \<open>Box3.setFromObject\<close>. \<open>objectId\<close>
  stands for the identity of the JavaScript object.
\<close>

record BufferGeometry =
  positionAttribute :: "Vector3 list option"
  uvAttribute :: "(real \<times> real) list option"

record Mesh =
  objectId :: nat
  geometry :: "BufferGeometry option"
  localToWorld :: "Vector3 \<Rightarrow> Vector3"
  transformDirection :: "Vector3 \<Rightarrow> Vector3"
  worldSize :: Vector3

definition getWorldPosition :: "Mesh \<Rightarrow> Vector3" where
  "getWorldPosition mesh = localToWorld mesh (Vector3 0 0 0)"

text \<open>
  \<open>geometry.computeBoundingBox()\<close> followed by \<open>boundingBox.getSize\<close>: the extent of the
  vertices on each axis, and the zero vector for the empty box.
\<close>

definition boundingBoxSize :: "Vector3 list \<Rightarrow> Vector3" where
  "boundingBoxSize ps =
     (if ps = [] then Vector3 0 0 0
      else Vector3 (Max (set (map vx ps)) - Min (set (map vx ps)))
                   (Max (set (map vy ps)) - Min (set (map vy ps)))
                   (Max (set (map vz ps)) - Min (set (map vz ps))))"

datatype AxisName = AxisX | AxisY | AxisZ

definition getLargestAxisName :: "Vector3 \<Rightarrow> AxisName" where
  "getLargestAxisName boxSize =
     (if vy boxSize \<ge> vx boxSize \<and> vy boxSize \<ge> vz boxSize then AxisY
      else if vz boxSize \<ge> vx boxSize \<and> vz boxSize \<ge> vy boxSize then AxisZ
      else AxisX)"

fun axisValue :: "AxisName \<Rightarrow> Vector3 \<Rightarrow> real" where
  "axisValue AxisX p = vx p"
| "axisValue AxisY p = vy p"
| "axisValue AxisZ p = vz p"

text \<open>The loop \<open>for (i = 0; i < count; i += step)\<close> over an attribute: every \<open>step\<close>-th entry.\<close>

fun strideFrom :: "nat \<Rightarrow> 'a list \<Rightarrow> 'a list" where
  "strideFrom step [] = []"
| "strideFrom step (x # xs) = x # strideFrom step (drop (step - 1) xs)"

text \<open>
  The rank picked for the \<open>i\<close>-th of \<open>cnt\<close> evenly spaced samples out of \<open>len\<close> items:
  \<open>Math.round((len - 1) * t)\<close> with \<open>t = cnt === 1 ? 0.5 : i / (cnt - 1)\<close>.
\<close>

definition evenRank :: "nat \<Rightarrow> nat \<Rightarrow> nat \<Rightarrow> nat" where
  "evenRank len cnt i =
     (let t = (if cnt = 1 then 0.5 else real i / real (cnt - 1))
      in nat (js_round (real (len - 1) * t)))"

text \<open>
  \<open>sampleMeshWorldPoints\<close>. \<open>Array.prototype.sort\<close> with the comparator
  \<open>a.axisValue - b.axisValue\<close> is a stable sort on the axis value.
\<close>

definition sampleMeshWorldPoints :: "Mesh \<Rightarrow> int \<Rightarrow> Vector3 list" where
  "sampleMeshWorldPoints mesh sampleCount =
     (if sampleCount \<le> 0 then []
      else case geometry mesh of
        None \<Rightarrow> [getWorldPosition mesh]
      | Some g \<Rightarrow>
          (case positionAttribute g of
             None \<Rightarrow> [getWorldPosition mesh]
           | Some ps \<Rightarrow>
               (let boxSize = boundingBoxSize ps;
                    axis = getLargestAxisName boxSize;
                    step = max 1 (length ps div 2048);
                    sampledVertices = strideFrom step ps
                in if sampledVertices = [] then [getWorldPosition mesh]
                   else
                     (let sorted = sort_key (axisValue axis) sampledVertices;
                          count = min (nat sampleCount) (length sorted)
                      in map (\<lambda>i. localToWorld mesh (sorted ! evenRank (length sorted) count i))
                           [0..<count]))))"

record EdgeUvSample =
  position :: Vector3
  u :: real

definition sampleMeshUvWorldPoints :: "Mesh \<Rightarrow> int \<Rightarrow> EdgeUvSample list" where
  "sampleMeshUvWorldPoints mesh maxSamples =
     (if maxSamples \<le> 0 then []
      else case geometry mesh of
        None \<Rightarrow> []
      | Some g \<Rightarrow>
          (case (positionAttribute g, uvAttribute g) of
             (Some ps, Some uvs) \<Rightarrow>
               (let count = min (length ps) (length uvs)
                in if count = 0 then []
                   else
                     (let step = max 1 (count div nat maxSamples)
                      in map (\<lambda>(localPoint, localUv).
                                \<lparr>position = localToWorld mesh localPoint,
                                 u = js_mod (js_mod (fst localUv) 1 + 1) 1\<rparr>)
                           (strideFrom step (take count (zip ps uvs)))))
           | _ \<Rightarrow> []))"

fun nearestSampleLoop :: "Vector3 \<Rightarrow> EdgeUvSample \<Rightarrow> real \<Rightarrow> EdgeUvSample list \<Rightarrow> EdgeUvSample" where
  "nearestSampleLoop worldPoint nearestSample nearestDistanceSq [] = nearestSample"
| "nearestSampleLoop worldPoint nearestSample nearestDistanceSq (s # rest) =
     (let distanceSq = distanceToSquared worldPoint (position s)
      in if distanceSq < nearestDistanceSq
         then nearestSampleLoop worldPoint s distanceSq rest
         else nearestSampleLoop worldPoint nearestSample nearestDistanceSq rest)"

text \<open>\<open>getNearestUvPhase\<close>: \<open>None\<close> is the source's \<open>null\<close>.\<close>

definition getNearestUvPhase :: "Vector3 \<Rightarrow> EdgeUvSample list \<Rightarrow> real option" where
  "getNearestUvPhase worldPoint uvSamples =
     (case uvSamples of
        [] \<Rightarrow> None
      | s0 # rest \<Rightarrow>
          Some (u (nearestSampleLoop worldPoint s0 (distanceToSquared worldPoint (position s0)) rest)))"

definition invertUvPhase :: "real \<Rightarrow> real" where
  "invertUvPhase uvPhase = js_mod (js_mod (1 - uvPhase) 1 + 1) 1"

definition downsampleEvenly :: "'a list \<Rightarrow> int \<Rightarrow> 'a list" where
  "downsampleEvenly items maxCount =
     (if maxCount \<le> 0 then []
      else if int (length items) \<le> maxCount then items
      else map (\<lambda>i. items ! evenRank (length items) (nat maxCount) i) [0..<nat maxCount])"

section \<open>Light rig synthesizer\<close>

datatype EmissiveLayerType = EdgeLed | BaseLights | WashLights

datatype LightType = SpotLight | PointLight

text \<open>
  The source object of an emitter is referred to by its identity: an object of the loaded
  model, or the detached \<open>Object3D\<close> that a wash emitter made from a bare point is given.
\<close>

datatype ObjectRef = ModelObject nat | DummySource

record Light =
  lightType :: LightType
  lightColor :: Color
  intensity :: real
  distance :: real
  lightPosition :: Vector3
  lightVisible :: bool
  castShadow :: bool

record Object3D =
  targetPosition :: Vector3
  targetVisible :: bool

record EmissiveEmitterLight =
  light :: Light
  target :: "Object3D option"
  sourceObject :: ObjectRef
  followSourceVisibility :: bool
  layerType :: EmissiveLayerType
  phase :: real
  baseIntensity :: real

record RigState =
  emissiveEmitterLights :: "EmissiveEmitterLight list"
  edgeShadowCasterCount :: nat
  baseShadowCasterCount :: nat
  edgeRigCount :: nat

subsection \<open>Tuning constants of the load callback\<close>

definition maxEdgeEmitters :: int where "maxEdgeEmitters = 4"
definition maxBaseEmitters :: int where "maxBaseEmitters = 0"
definition maxShadowCastingEdgeEmitters :: nat where "maxShadowCastingEdgeEmitters = 3"
definition maxShadowCastingBaseEmitters :: nat where "maxShadowCastingBaseEmitters = 0"

definition groundY :: "real \<Rightarrow> real" where
  "groundY boxMinY = boxMinY + 0.1"

definition edgeEmitterDistance :: "real \<Rightarrow> real" where
  "edgeEmitterDistance maxDim = max (maxDim * 0.175) 24"

definition baseEmitterDistance :: "real \<Rightarrow> real" where
  "baseEmitterDistance maxDim = max (maxDim * 0.0875) 12"

definition edgeMinIntensity :: "real \<Rightarrow> real" where
  "edgeMinIntensity maxDim = max (maxDim * 3) 2500"

definition baseMinIntensity :: "real \<Rightarrow> real" where
  "baseMinIntensity maxDim = max (maxDim * 4) 3500"

definition edgeTargetGroundLux :: real where "edgeTargetGroundLux = 8"
definition baseTargetGroundLux :: real where "baseTargetGroundLux = 11"
definition edgeThrowPadding :: real where "edgeThrowPadding = 4.0"
definition baseThrowPadding :: real where "baseThrowPadding = 4.0"
definition throwExtensionScale :: real where "throwExtensionScale = 1.1"
definition fallbackEdgeLineSegmentCount :: real where "fallbackEdgeLineSegmentCount = 3"
definition guideEdgeLightFractions :: "real list" where "guideEdgeLightFractions = [1 / 3, 2 / 3]"

definition guideEdgeLineSegmentCount :: real where
  "guideEdgeLineSegmentCount = real (length guideEdgeLightFractions)"

definition edgeLineLength :: "real \<Rightarrow> real" where
  "edgeLineLength maxDim = max (maxDim * 0.16) 24"

definition washEmitterDistance :: "real \<Rightarrow> real" where
  "washEmitterDistance maxDim = max (maxDim * 0.32) 40"

definition washBaseIntensity :: real where "washBaseIntensity = 100"

subsection \<open>Edge rigs\<close>

text \<open>The body of the loop over the segments of \<open>addEdgeEmitterRig\<close>.\<close>

definition addEdgeSegment ::
  "real \<Rightarrow> real \<Rightarrow> ObjectRef \<Rightarrow> real \<Rightarrow> bool \<Rightarrow> nat \<Rightarrow> nat \<Rightarrow> Vector3 list \<Rightarrow> nat \<Rightarrow> RigState \<Rightarrow> RigState"
where
  "addEdgeSegment maxDim gY srcObject ph follow normalizedSegmentCount shadowSegmentIndex
       segmentPositions segmentIndex st =
     (let segmentPosition = segmentPositions ! segmentIndex;
          spotPosition = Vector3 (vx segmentPosition)
                           (vy segmentPosition + max (maxDim * 0.015) 0.8) (vz segmentPosition);
          tgtPosition = Vector3 (vx segmentPosition) gY (vz segmentPosition);
          throwToGround = distanceTo spotPosition tgtPosition;
          effectiveDistance = (throwToGround + edgeThrowPadding) * throwExtensionScale;
          photometricIntensity = edgeTargetGroundLux * effectiveDistance * effectiveDistance;
          emitterRigIntensity = max (edgeMinIntensity maxDim) photometricIntensity;
          emitterBaseIntensity = emitterRigIntensity / real normalizedSegmentCount;
          isShadowSegment = (segmentIndex = shadowSegmentIndex);
          shadow = (isShadowSegment \<and> edgeShadowCasterCount st < maxShadowCastingEdgeEmitters);
          spotLight = \<lparr>lightType = SpotLight, lightColor = Hex 0xF7B5CD,
                       intensity = emitterBaseIntensity, distance = effectiveDistance,
                       lightPosition = spotPosition, lightVisible = True, castShadow = shadow\<rparr>
      in st\<lparr>emissiveEmitterLights := emissiveEmitterLights st @
               [\<lparr>light = spotLight,
                 target = Some \<lparr>targetPosition = tgtPosition, targetVisible = True\<rparr>,
                 sourceObject = srcObject,
                 followSourceVisibility = follow,
                 layerType = EdgeLed,
                 phase = js_mod (ph + real segmentIndex / max (real normalizedSegmentCount * 6) 1) 1,
                 baseIntensity = emitterBaseIntensity\<rparr>],
             edgeShadowCasterCount :=
               (if shadow then edgeShadowCasterCount st + 1 else edgeShadowCasterCount st)\<rparr>)"

text \<open>
  \<open>addEdgeEmitterRig\<close>. The optional \<open>segmentFractions\<close> is \<open>None\<close> when the argument is
  left out. The constants \<open>normalizedFractions\<close>, \<open>normalizedSegmentCount\<close> and
  \<open>segmentPositions\<close> of the source are definitions of their own.
\<close>

definition normalizedFractionsOf :: "real list option \<Rightarrow> real list option" where
  "normalizedFractionsOf segmentFractions =
     (case segmentFractions of
        None \<Rightarrow> None
      | Some fs \<Rightarrow> if fs = [] then None else Some (map (\<lambda>fraction. clamp fraction 0 1) fs))"

definition normalizedSegmentCountOf :: "real \<Rightarrow> real list option \<Rightarrow> nat" where
  "normalizedSegmentCountOf segmentCount segmentFractions =
     (case normalizedFractionsOf segmentFractions of
        Some fs \<Rightarrow> length fs
      | None \<Rightarrow> nat (max 1 (js_round segmentCount)))"

definition segmentPositionsOf ::
  "real \<Rightarrow> Vector3 \<Rightarrow> Vector3 \<Rightarrow> real \<Rightarrow> real list option \<Rightarrow> Vector3 list" where
  "segmentPositionsOf maxDim rigStart rigEnd segmentCount segmentFractions =
     (let flatDirection = setY (sub rigEnd rigStart) 0;
          rigDirection = normalize
            (if lengthSq flatDirection \<le> 1 / 1000000 then Vector3 1 0 0 else flatDirection);
          normalizedSegmentCount = normalizedSegmentCountOf segmentCount segmentFractions
      in case normalizedFractionsOf segmentFractions of
           Some fs \<Rightarrow> map (\<lambda>fraction. lerp rigStart rigEnd fraction) fs
         | None \<Rightarrow>
             (let horizontalSpan = distanceTo (setY rigStart 0) (setY rigEnd 0);
                  rigLength = max horizontalSpan (edgeLineLength maxDim);
                  segmentSpacing = (if normalizedSegmentCount > 1
                                    then rigLength / real (normalizedSegmentCount - 1) else 0);
                  segmentCenter = real (normalizedSegmentCount - 1) * 0.5;
                  rigCenter = lerp rigStart rigEnd 0.5
              in map (\<lambda>segmentIndex.
                        addScaledVector rigCenter rigDirection
                          ((real segmentIndex - segmentCenter) * segmentSpacing))
                   [0..<normalizedSegmentCount]))"

definition addEdgeEmitterRig ::
  "real \<Rightarrow> real \<Rightarrow> Vector3 \<Rightarrow> Vector3 \<Rightarrow> ObjectRef \<Rightarrow> real \<Rightarrow> bool \<Rightarrow> real \<Rightarrow> real list option
     \<Rightarrow> RigState \<Rightarrow> RigState"
where
  "addEdgeEmitterRig maxDim gY rigStart rigEnd srcObject ph follow segmentCount segmentFractions st =
     (let normalizedSegmentCount = normalizedSegmentCountOf segmentCount segmentFractions;
          shadowSegmentIndex = nat (js_round (real (normalizedSegmentCount - 1) * 0.5));
          segmentPositions = segmentPositionsOf maxDim rigStart rigEnd segmentCount segmentFractions
      in fold (addEdgeSegment maxDim gY srcObject ph follow normalizedSegmentCount
                 shadowSegmentIndex segmentPositions)
           [0..<normalizedSegmentCount]
           (st\<lparr>edgeRigCount := edgeRigCount st + 1\<rparr>))"

definition addBaseEmitter :: "real \<Rightarrow> real \<Rightarrow> Vector3 \<Rightarrow> ObjectRef \<Rightarrow> real \<Rightarrow> RigState \<Rightarrow> RigState" where
  "addBaseEmitter maxDim gY pos srcObject ph st =
     (let spotPosition = Vector3 (vx pos) (vy pos + max (maxDim * 0.01) 0.35) (vz pos);
          tgtPosition = Vector3 (vx pos) gY (vz pos);
          throwToGround = distanceTo spotPosition tgtPosition;
          effectiveDistance = (throwToGround + baseThrowPadding) * throwExtensionScale;
          photometricIntensity = baseTargetGroundLux * effectiveDistance * effectiveDistance;
          emitterBaseIntensity = max (baseMinIntensity maxDim) photometricIntensity;
          shadow = (baseShadowCasterCount st < maxShadowCastingBaseEmitters);
          spotLight = \<lparr>lightType = SpotLight, lightColor = Hex 0xF7B5CD,
                       intensity = emitterBaseIntensity, distance = effectiveDistance,
                       lightPosition = spotPosition, lightVisible = True, castShadow = shadow\<rparr>
      in st\<lparr>emissiveEmitterLights := emissiveEmitterLights st @
               [\<lparr>light = spotLight,
                 target = Some \<lparr>targetPosition = tgtPosition, targetVisible = True\<rparr>,
                 sourceObject = srcObject,
                 followSourceVisibility = True,
                 layerType = BaseLights,
                 phase = ph,
                 baseIntensity = emitterBaseIntensity\<rparr>],
             baseShadowCasterCount :=
               (if shadow then baseShadowCasterCount st + 1 else baseShadowCasterCount st)\<rparr>)"

definition addWashEmitter :: "real \<Rightarrow> Vector3 \<Rightarrow> ObjectRef \<Rightarrow> real \<Rightarrow> RigState \<Rightarrow> RigState" where
  "addWashEmitter maxDim pos srcObject ph st =
     (let pointPosition = Vector3 (vx pos) (vy pos + max (maxDim * 0.01) 0.5) (vz pos);
          emitterBaseIntensity = washBaseIntensity;
          pointLight = \<lparr>lightType = PointLight, lightColor = Hex 0x5CA8FF,
                        intensity = emitterBaseIntensity, distance = washEmitterDistance maxDim,
                        lightPosition = pointPosition, lightVisible = True, castShadow = False\<rparr>
      in st\<lparr>emissiveEmitterLights := emissiveEmitterLights st @
               [\<lparr>light = pointLight,
                 target = None,
                 sourceObject = srcObject,
                 followSourceVisibility = True,
                 layerType = WashLights,
                 phase = ph,
                 baseIntensity = emitterBaseIntensity\<rparr>]\<rparr>)"

subsection \<open>Guides, candidates and the synthesis itself\<close>

text \<open>
  A guide curve: an object of the \<open>Emitters\<close> layer that is a \<open>THREE.Line\<close> or
  \<open>THREE.LineSegments\<close> (the load callback collects no other). \<open>linePositions\<close> is
  \<open>None\<close> when the geometry is not a \<open>BufferGeometry\<close> or has no position attribute.
\<close>

record LineObject =
  lineId :: nat
  linePositions :: "Vector3 list option"
  lineLocalToWorld :: "Vector3 \<Rightarrow> Vector3"

definition getLineWorldPoints :: "LineObject \<Rightarrow> Vector3 list" where
  "getLineWorldPoints lineObject =
     (case linePositions lineObject of
        None \<Rightarrow> []
      | Some ps \<Rightarrow> if length ps < 2 then [] else map (lineLocalToWorld lineObject) ps)"

text \<open>
  \<open>getFarthestPointPair\<close>: the double loop visits the index pairs \<open>i < j\<close> in order and
  keeps the first pair of strictly largest squared distance. On the empty list the source
  fails on \<open>pointA.clone()\<close>; that is \<open>None\<close>.
\<close>

definition indexPairs :: "nat \<Rightarrow> (nat \<times> nat) list" where
  "indexPairs n = concat (map (\<lambda>i. map (\<lambda>j. (i, j)) [i + 1..<n]) [0..<n])"

definition getFarthestPointPair :: "Vector3 list \<Rightarrow> (Vector3 \<times> Vector3) option" where
  "getFarthestPointPair points =
     (case points of
        [] \<Rightarrow> None
      | p0 # rest \<Rightarrow>
          (let start = (- 1 :: real, p0, (case rest of [] \<Rightarrow> p0 | p1 # _ \<Rightarrow> p1));
               step = (\<lambda>(i, j) (maxDistanceSq, pointA, pointB).
                         (let distanceSq = distanceToSquared (points ! i) (points ! j)
                          in if distanceSq > maxDistanceSq
                             then (distanceSq, points ! i, points ! j)
                             else (maxDistanceSq, pointA, pointB)));
               result = fold step (indexPairs (length points)) start
           in Some (fst (snd result), snd (snd result))))"

record GuideRig =
  guideStart :: Vector3
  guideEnd :: Vector3
  guideSourceObject :: ObjectRef
  guidePhase :: real

definition edgeGuideRigsOf :: "EdgeUvSample list \<Rightarrow> LineObject list \<Rightarrow> GuideRig list" where
  "edgeGuideRigsOf edgeUvSamples emitterGuideObjects =
     concat (map (\<lambda>(guideIndex, guideObject).
        (let points = getLineWorldPoints guideObject
         in if length points < 2 then []
            else (case getFarthestPointPair points of
                    None \<Rightarrow> []
                  | Some (start, end) \<Rightarrow>
                      if distanceToSquared start end \<le> 1 then []
                      else
                        (let guideCenter = lerp start end 0.5;
                             uvPhase = getNearestUvPhase guideCenter edgeUvSamples
                         in [\<lparr>guideStart = start, guideEnd = end,
                               guideSourceObject = ModelObject (lineId guideObject),
                               guidePhase =
                                 (case uvPhase of
                                    Some p \<Rightarrow> invertUvPhase p
                                  | None \<Rightarrow> real guideIndex
                                            / max (real (length emitterGuideObjects)) 1)\<rparr>]))))
       (List.enumerate 0 emitterGuideObjects))"

definition getMeshHorizontalAxisDirection :: "Mesh \<Rightarrow> Vector3" where
  "getMeshHorizontalAxisDirection mesh =
     (let fallback =
            (let d = setY (transformDirection mesh (Vector3 1 0 0)) 0
             in normalize (if lengthSq d \<le> 1 / 1000000 then Vector3 1 0 0 else d))
      in case geometry mesh of
           None \<Rightarrow> fallback
         | Some g \<Rightarrow>
             (let boxSize = boundingBoxSize (case positionAttribute g of None \<Rightarrow> [] | Some ps \<Rightarrow> ps);
                  localAxis = (if vx boxSize \<ge> vz boxSize then Vector3 1 0 0 else Vector3 0 0 1);
                  d = setY (transformDirection mesh localAxis) 0
              in if lengthSq d > 1 / 1000000 then normalize d else fallback))"

record EdgeCandidate =
  candidateSource :: ObjectRef
  point :: Vector3
  candidatePhase :: real
  direction :: Vector3

definition edgeCandidatesOf :: "real \<Rightarrow> EdgeUvSample list \<Rightarrow> Mesh list \<Rightarrow> EdgeCandidate list" where
  "edgeCandidatesOf maxDim edgeUvSamples edgeLedMeshes =
     concat (map (\<lambda>(meshIndex, mesh).
        (let meshSize = worldSize mesh;
             meshSpan = max (max (vx meshSize) (vy meshSize)) (vz meshSize);
             sampleCount = min 4 (max 1 (js_round (meshSpan / max (maxDim * 0.14) 8)));
             dir = getMeshHorizontalAxisDirection mesh;
             points = sampleMeshWorldPoints mesh sampleCount
         in map (\<lambda>(pointIndex, pt).
                   (let fallbackPhase =
                          (real meshIndex + real pointIndex / max (real (length points)) 1)
                          / max (real (length edgeLedMeshes)) 1;
                        uvPhase = getNearestUvPhase pt edgeUvSamples
                    in \<lparr>candidateSource = ModelObject (objectId mesh),
                        point = pt,
                        candidatePhase =
                          (case uvPhase of
                             Some p \<Rightarrow> invertUvPhase p
                           | None \<Rightarrow> js_mod fallbackPhase 1),
                        direction = dir\<rparr>))
              (List.enumerate 0 points)))
       (List.enumerate 0 edgeLedMeshes))"

text \<open>
  The guide-less path. \<open>highestEdgeY\<close> is the reduction of \<open>Math.max\<close> from
  \<open>-Infinity\<close>; \<open>None\<close> is \<open>-Infinity\<close>, which only the empty candidate list yields.
\<close>

definition highestEdgeY :: "EdgeCandidate list \<Rightarrow> real option" where
  "highestEdgeY edgeCandidates =
     fold (\<lambda>candidate highest.
             case highest of
               None \<Rightarrow> Some (vy (point candidate))
             | Some h \<Rightarrow> Some (max h (vy (point candidate))))
       edgeCandidates None"

definition canopyBand :: "real \<Rightarrow> real" where
  "canopyBand maxDim = max (maxDim * 0.08) 5"

definition canopyEdgeCandidates :: "real \<Rightarrow> EdgeCandidate list \<Rightarrow> EdgeCandidate list" where
  "canopyEdgeCandidates maxDim edgeCandidates =
     (case highestEdgeY edgeCandidates of
        None \<Rightarrow> []
      | Some h \<Rightarrow> filter (\<lambda>candidate. h - vy (point candidate) \<le> canopyBand maxDim) edgeCandidates)"

definition selectedCanopyCandidates :: "real \<Rightarrow> EdgeCandidate list \<Rightarrow> EdgeCandidate list" where
  "selectedCanopyCandidates maxDim edgeCandidates =
     downsampleEvenly (canopyEdgeCandidates maxDim edgeCandidates) maxEdgeEmitters"

definition addFallbackRig :: "real \<Rightarrow> real \<Rightarrow> EdgeCandidate \<Rightarrow> RigState \<Rightarrow> RigState" where
  "addFallbackRig maxDim gY candidate st =
     (let rigHalf = edgeLineLength maxDim * 0.5;
          start = addScaledVector (point candidate) (direction candidate) (- rigHalf);
          end = addScaledVector (point candidate) (direction candidate) rigHalf
      in addEdgeEmitterRig maxDim gY start end (candidateSource candidate)
           (candidatePhase candidate) True fallbackEdgeLineSegmentCount None st)"

definition addGuideRig :: "real \<Rightarrow> real \<Rightarrow> GuideRig \<Rightarrow> RigState \<Rightarrow> RigState" where
  "addGuideRig maxDim gY guideRig st =
     addEdgeEmitterRig maxDim gY (guideStart guideRig) (guideEnd guideRig)
       (guideSourceObject guideRig) (guidePhase guideRig) False guideEdgeLineSegmentCount
       (Some guideEdgeLightFractions) st"

record BaseCandidate =
  baseMesh :: ObjectRef
  basePoint :: Vector3
  basePhase :: real

definition baseCandidatesOf :: "Mesh list \<Rightarrow> BaseCandidate list" where
  "baseCandidatesOf baseLightMeshes =
     concat (map (\<lambda>(meshIndex, mesh).
        map (\<lambda>pt. \<lparr>baseMesh = ModelObject (objectId mesh),
                    basePoint = pt,
                    basePhase = js_mod (real meshIndex / max (real (length baseLightMeshes)) 1) 1\<rparr>)
          (sampleMeshWorldPoints mesh 1))
       (List.enumerate 0 baseLightMeshes))"

record WashCandidate =
  washSource :: "ObjectRef option"
  washPoint :: Vector3
  washPhase :: real

definition washCandidatesOf ::
  "EdgeUvSample list \<Rightarrow> Mesh list \<Rightarrow> Vector3 list \<Rightarrow> WashCandidate list" where
  "washCandidatesOf edgeUvSamples washLightMeshes washLightPositions =
     concat (map (\<lambda>(meshIndex, mesh).
        map (\<lambda>pt.
               (let fallbackPhase =
                      real meshIndex
                      / max (real (length washLightMeshes + length washLightPositions)) 1;
                    uvPhase = getNearestUvPhase pt edgeUvSamples
                in \<lparr>washSource = Some (ModelObject (objectId mesh)),
                    washPoint = pt,
                    washPhase = (case uvPhase of
                                   Some p \<Rightarrow> invertUvPhase p
                                 | None \<Rightarrow> js_mod fallbackPhase 1)\<rparr>))
          (sampleMeshWorldPoints mesh 1))
       (List.enumerate 0 washLightMeshes))
     @ map (\<lambda>(posIndex, pos).
              (let fallbackPhase =
                     real (length washLightMeshes + posIndex)
                     / max (real (length washLightMeshes + length washLightPositions)) 1;
                   uvPhase = getNearestUvPhase pos edgeUvSamples
               in \<lparr>washSource = None,
                   washPoint = pos,
                   washPhase = (case uvPhase of
                                  Some p \<Rightarrow> invertUvPhase p
                                | None \<Rightarrow> js_mod fallbackPhase 1)\<rparr>))
         (List.enumerate 0 washLightPositions)"

text \<open>
  The geometry the load callback has sorted by layer, and the part of the callback that
  turns it into emitters, from \<open>const emissiveEmitterLights = []\<close> to the loop over the
  wash candidates. \<open>maxDim\<close> and \<open>boxMinY\<close> come from the bounding box of the model.
\<close>

record ClassifiedGeometry =
  edgeLedMeshes :: "Mesh list"
  baseLightMeshes :: "Mesh list"
  washLightMeshes :: "Mesh list"
  washLightPositions :: "Vector3 list"
  emitterGuideObjects :: "LineObject list"

definition edgeUvSamplesOf :: "Mesh list \<Rightarrow> EdgeUvSample list" where
  "edgeUvSamplesOf meshes =
     downsampleEvenly (concat (map (\<lambda>mesh. sampleMeshUvWorldPoints mesh 320) meshes)) 4000"

definition synthesizeEmitters :: "real \<Rightarrow> real \<Rightarrow> ClassifiedGeometry \<Rightarrow> RigState" where
  "synthesizeEmitters maxDim boxMinY cg =
     (let gY = groundY boxMinY;
          st0 = \<lparr>emissiveEmitterLights = [], edgeShadowCasterCount = 0,
                 baseShadowCasterCount = 0, edgeRigCount = 0\<rparr>;
          edgeUvSamples = edgeUvSamplesOf (edgeLedMeshes cg);
          edgeGuideRigs = edgeGuideRigsOf edgeUvSamples (emitterGuideObjects cg);
          edgeCandidates = edgeCandidatesOf maxDim edgeUvSamples (edgeLedMeshes cg);
          st1 = (if length edgeGuideRigs > 0
                 then fold (addGuideRig maxDim gY) edgeGuideRigs st0
                 else fold (addFallbackRig maxDim gY)
                        (selectedCanopyCandidates maxDim edgeCandidates) st0);
          baseCandidates = baseCandidatesOf (baseLightMeshes cg);
          st2 = fold (\<lambda>candidate.
                        addBaseEmitter maxDim gY (basePoint candidate) (baseMesh candidate)
                          (basePhase candidate))
                  (downsampleEvenly baseCandidates maxBaseEmitters) st1;
          washCandidates = washCandidatesOf edgeUvSamples (washLightMeshes cg) (washLightPositions cg)
      in fold (\<lambda>candidate.
                 addWashEmitter maxDim (washPoint candidate)
                   (case washSource candidate of Some src \<Rightarrow> src | None \<Rightarrow> DummySource)
                   (washPhase candidate))
           washCandidates st2)"

section \<open>Viewer state, load callback and update hooks\<close>

text \<open>
  Materials are referred to by identity. \<open>ImportedMaterial n\<close> is the material object \<open>n\<close>
  came with; \<open>PoweredDownClone m\<close> is the result of \<open>cloneMaterialSet m\<close> after
  \<open>neutralizeMaterialEmission\<close>, \<open>applyPoweredDownMaterialLook\<close> and
  \<open>scaleEnvironmentIntensity\<close>; \<open>LinearShader i\<close> and \<open>WashShader i\<close> are the \<open>i\<close>-th
  entries of \<open>shaderMaterialsRef\<close> and \<open>washShaderMaterialsRef\<close>.
\<close>

datatype MaterialRef =
    ImportedMaterial nat
  | NeutralizedClone MaterialRef
  | SemiGlossMaterial
  | SodMaterial
  | PeopleMaterial
  | PoweredDownClone MaterialRef
  | LinearShader nat
  | WashShader nat

record ShaderUniforms =
  uTime :: real
  uColor :: Color
  uIntensity :: real
  uSpeed :: real
  uEffectType :: nat

text \<open>
  The objects \<open>object.traverse\<close> visits, each with its \<open>userData.attributes.layerIndex\<close>
  (\<open>None\<close> for \<open>undefined\<close>). A \<open>THREE.Points\<close> object carries its position attribute
  already moved to world space, as \<open>applyMatrix4(child.matrixWorld)\<close> leaves it.
\<close>

datatype SceneChild =
    MeshChild Mesh "nat option"
  | LineChild LineObject "nat option"
  | PointsChild nat "Vector3 list option" "nat option"
  | OtherChild nat "nat option"

fun childId :: "SceneChild \<Rightarrow> nat" where
  "childId (MeshChild mesh li) = objectId mesh"
| "childId (LineChild lineObj li) = lineId lineObj"
| "childId (PointsChild n ps li) = n"
| "childId (OtherChild n li) = n"

fun childLayerIndex :: "SceneChild \<Rightarrow> nat option" where
  "childLayerIndex (MeshChild mesh li) = li"
| "childLayerIndex (LineChild lineObj li) = li"
| "childLayerIndex (PointsChild n ps li) = li"
| "childLayerIndex (OtherChild n li) = li"

record RhinoLayer =
  index :: nat
  name :: string
  visible :: bool
  color :: string

record ViewerState =
  modelChildren :: "SceneChild list option"
  objectVisible :: "nat \<Rightarrow> bool"
  meshMaterial :: "nat \<Rightarrow> MaterialRef"
  emissiveMeshes :: "nat list"
  shaderMaterials :: "ShaderUniforms list"
  originalMaterials :: "nat \<rightharpoonup> MaterialRef"
  washMeshes :: "nat list"
  washShaderMaterials :: "ShaderUniforms list"
  washOriginalMaterials :: "nat \<rightharpoonup> MaterialRef"
  emitterLights :: "EmissiveEmitterLight list"
  activeLightEffect :: LightEffect
  activeWashLightEffect :: LightEffect
  emitterIntensityRef :: real
  washIntensityRef :: real
  effectSpeedRef :: real

definition sourceVisible :: "(nat \<Rightarrow> bool) \<Rightarrow> ObjectRef \<Rightarrow> bool" where
  "sourceVisible objVisible src = (case src of ModelObject n \<Rightarrow> objVisible n | DummySource \<Rightarrow> True)"

definition shouldEmitterBeVisible ::
  "(nat \<Rightarrow> bool) \<Rightarrow> EmissiveEmitterLight \<Rightarrow> LightEffect \<Rightarrow> bool" where
  "shouldEmitterBeVisible objVisible emitter effect =
     (if effect = Off then False
      else if \<not> followSourceVisibility emitter then True
      else sourceVisible objVisible (sourceObject emitter))"

definition setEmitterVisible :: "bool \<Rightarrow> EmissiveEmitterLight \<Rightarrow> EmissiveEmitterLight" where
  "setEmitterVisible v emitter =
     emitter\<lparr>light := (light emitter)\<lparr>lightVisible := v\<rparr>,
             target := map_option (\<lambda>tgt. tgt\<lparr>targetVisible := v\<rparr>) (target emitter)\<rparr>"

text \<open>
  The per-emitter update that the two effect hooks, the end of the load callback and the
  animation loop all spell out: visibility first, then intensity 0 for an invisible
  emitter, else the colour and intensity of the effect.
\<close>

definition updateEmitterLight ::
  "(nat \<Rightarrow> bool) \<Rightarrow> LightEffect \<Rightarrow> real \<Rightarrow> real \<Rightarrow> real \<Rightarrow> EmissiveEmitterLight
     \<Rightarrow> EmissiveEmitterLight" where
  "updateEmitterLight objVisible effect time speed groupIntensity emitter =
     (let v = shouldEmitterBeVisible objVisible emitter effect;
          e1 = setEmitterVisible v emitter
      in if \<not> v then e1\<lparr>light := (light e1)\<lparr>intensity := 0\<rparr>\<rparr>
         else
           (let (animatedColor, effectMultiplier) =
                  evaluateEmitterEffect effect time (phase emitter) speed
            in e1\<lparr>light := (light e1)\<lparr>lightColor := animatedColor,
                                      intensity := baseIntensity emitter * effectMultiplier
                                                   * groupIntensity\<rparr>\<rparr>))"

definition restoreOriginalMaterials ::
  "nat list \<Rightarrow> (nat \<rightharpoonup> MaterialRef) \<Rightarrow> (nat \<Rightarrow> MaterialRef) \<Rightarrow> (nat \<Rightarrow> MaterialRef)" where
  "restoreOriginalMaterials meshes originals materials =
     fold (\<lambda>mesh mat. case originals mesh of Some original \<Rightarrow> mat(mesh := original) | None \<Rightarrow> mat)
       meshes materials"

definition applyShaderMaterials ::
  "(nat \<Rightarrow> MaterialRef) \<Rightarrow> nat list \<Rightarrow> nat \<Rightarrow> (nat \<Rightarrow> MaterialRef) \<Rightarrow> (nat \<Rightarrow> MaterialRef)" where
  "applyShaderMaterials shaderRef meshes shaderCount materials =
     fold (\<lambda>(i, mesh) mat. if i < shaderCount then mat(mesh := shaderRef i) else mat)
       (List.enumerate 0 meshes) materials"

definition setEffectUniforms :: "LightEffect \<Rightarrow> ShaderUniforms list \<Rightarrow> ShaderUniforms list" where
  "setEffectUniforms effect materials =
     (let effectVisual = getEffectVisual effect
      in map (\<lambda>material. material\<lparr>uColor := baseColor effectVisual,
                                    uEffectType := effectType effectVisual\<rparr>) materials)"

text \<open>
  The hook on \<open>[lightEffect, lightSettings.edgeGlowIntensity]\<close>; \<open>currentTime\<close> is the
  reading of the clock.
\<close>

definition linearEffectHook :: "LightEffect \<Rightarrow> real \<Rightarrow> real \<Rightarrow> ViewerState \<Rightarrow> ViewerState" where
  "linearEffectHook lightEffect edgeGlowIntensity currentTime s =
     (let isLinearGlowActive = (lightEffect \<noteq> Off \<and> edgeGlowIntensity > 0.0001);
          s1 = s\<lparr>activeLightEffect := lightEffect\<rparr>;
          s2 = (if \<not> isLinearGlowActive
                then s1\<lparr>meshMaterial :=
                          restoreOriginalMaterials (emissiveMeshes s) (originalMaterials s)
                            (meshMaterial s)\<rparr>
                else s1\<lparr>shaderMaterials := setEffectUniforms lightEffect (shaderMaterials s),
                        meshMaterial :=
                          applyShaderMaterials LinearShader (emissiveMeshes s)
                            (length (shaderMaterials s)) (meshMaterial s)\<rparr>)
      in s2\<lparr>emitterLights :=
               map (\<lambda>emitter.
                      if layerType emitter = EdgeLed \<or> layerType emitter = BaseLights
                      then updateEmitterLight (objectVisible s) lightEffect currentTime
                             (effectSpeedRef s) (emitterIntensityRef s) emitter
                      else emitter)
                 (emitterLights s)\<rparr>)"

text \<open>The hook on \<open>[washLightEffect]\<close>.\<close>

definition washEffectHook :: "LightEffect \<Rightarrow> real \<Rightarrow> ViewerState \<Rightarrow> ViewerState" where
  "washEffectHook washLightEffect currentTime s =
     (let s1 = s\<lparr>activeWashLightEffect := washLightEffect\<rparr>;
          s2 = (if washLightEffect = Off
                then s1\<lparr>meshMaterial :=
                          restoreOriginalMaterials (washMeshes s) (washOriginalMaterials s)
                            (meshMaterial s)\<rparr>
                else s1\<lparr>washShaderMaterials := setEffectUniforms washLightEffect (washShaderMaterials s),
                        meshMaterial :=
                          applyShaderMaterials WashShader (washMeshes s)
                            (length (washShaderMaterials s)) (meshMaterial s)\<rparr>)
      in s2\<lparr>emitterLights :=
               map (\<lambda>emitter.
                      if layerType emitter = WashLights
                      then updateEmitterLight (objectVisible s) washLightEffect currentTime
                             (effectSpeedRef s) (washIntensityRef s) emitter
                      else emitter)
                 (emitterLights s)\<rparr>)"

text \<open>
  The hook on \<open>[layers]\<close>: every traversed object whose layer is listed takes the layer's
  visibility, then the visibility of every emitter is set again.
\<close>

definition applyLayerVisibility ::
  "RhinoLayer list \<Rightarrow> SceneChild list \<Rightarrow> (nat \<Rightarrow> bool) \<Rightarrow> (nat \<Rightarrow> bool)" where
  "applyLayerVisibility layers children objVisible =
     fold (\<lambda>child vis.
             case childLayerIndex child of
               None \<Rightarrow> vis
             | Some layerIndex \<Rightarrow>
                 (case find (\<lambda>l. index l = layerIndex) layers of
                    None \<Rightarrow> vis
                  | Some layer \<Rightarrow> vis(childId child := visible layer)))
       children objVisible"

definition layersHook :: "RhinoLayer list \<Rightarrow> ViewerState \<Rightarrow> ViewerState" where
  "layersHook layers s =
     (case modelChildren s of
        None \<Rightarrow> s
      | Some children \<Rightarrow>
          (let vis = applyLayerVisibility layers children (objectVisible s)
           in s\<lparr>objectVisible := vis,
                emitterLights :=
                  map (\<lambda>emitter.
                         setEmitterVisible
                           (shouldEmitterBeVisible vis emitter (activeLightEffect s)) emitter)
                    (emitterLights s)\<rparr>))"

text \<open>One pass of \<open>animate\<close>, as far as shaders and emitters go.\<close>

definition groupEffect :: "ViewerState \<Rightarrow> EmissiveEmitterLight \<Rightarrow> LightEffect" where
  "groupEffect s emitter =
     (if layerType emitter = WashLights then activeWashLightEffect s else activeLightEffect s)"

definition groupIntensity :: "ViewerState \<Rightarrow> EmissiveEmitterLight \<Rightarrow> real" where
  "groupIntensity s emitter =
     (if layerType emitter = WashLights then washIntensityRef s else emitterIntensityRef s)"

definition animateFrame :: "real \<Rightarrow> ViewerState \<Rightarrow> ViewerState" where
  "animateFrame elapsedTime s =
     s\<lparr>shaderMaterials := map (\<lambda>material. material\<lparr>uTime := elapsedTime\<rparr>) (shaderMaterials s),
       washShaderMaterials :=
         map (\<lambda>material. material\<lparr>uTime := elapsedTime\<rparr>) (washShaderMaterials s),
       emitterLights :=
         map (\<lambda>emitter.
                updateEmitterLight (objectVisible s) (groupEffect s emitter) elapsedTime
                  (effectSpeedRef s) (groupIntensity s emitter) emitter)
           (emitterLights s)\<rparr>"

subsection \<open>The load callback\<close>

definition EDGE_LED_LAYER_NAME :: string where "EDGE_LED_LAYER_NAME = ''Edge LED''"
definition BASE_LIGHTS_LAYER_NAME :: string where "BASE_LIGHTS_LAYER_NAME = ''Base Lights''"
definition WASH_LIGHTS_LAYER_NAME :: string where "WASH_LIGHTS_LAYER_NAME = ''Wash Lights''"
definition FACE_LAYER_NAME :: string where "FACE_LAYER_NAME = ''Face''"
definition EMITTER_GUIDES_LAYER_NAME :: string where "EMITTER_GUIDES_LAYER_NAME = ''Emitters''"
definition SEMI_GLOSS_LAYER_NAME :: string where "SEMI_GLOSS_LAYER_NAME = ''Grass Graphic''"
definition SOD_LAYER_NAME :: string where "SOD_LAYER_NAME = ''Sod''"
definition PEOPLE_LAYER_NAME :: string where "PEOPLE_LAYER_NAME = ''People''"

definition LINEAR_EMISSIVE_LAYER_NAMES :: "string list" where
  "LINEAR_EMISSIVE_LAYER_NAMES = [EDGE_LED_LAYER_NAME, BASE_LIGHTS_LAYER_NAME]"

fun natToString :: "nat \<Rightarrow> string" where
  "natToString n =
     (if n < 10 then [char_of (48 + n)]
      else natToString (n div 10) @ [char_of (48 + n mod 10)])"

text \<open>
  \<open>layerNameToIndex\<close>: each layer is entered under \<open>layer.name || `Layer ${index}`\<close>, a
  later layer of the same name replacing an earlier one.
\<close>

definition layerNameToIndex :: "string list \<Rightarrow> (string \<rightharpoonup> nat)" where
  "layerNameToIndex layerNames =
     fold (\<lambda>(i, nm) m. m((if nm = [] then ''Layer '' @ natToString i else nm) \<mapsto> i))
       (List.enumerate 0 layerNames) Map.empty"

definition linearEmissiveLayerIndices :: "(string \<rightharpoonup> nat) \<Rightarrow> nat set" where
  "linearEmissiveLayerIndices nameToIndex =
     fold (\<lambda>nm acc. case nameToIndex nm of Some i \<Rightarrow> insert i acc | None \<Rightarrow> acc)
       LINEAR_EMISSIVE_LAYER_NAMES {}"

record LoadAcc =
  accMaterial :: "nat \<Rightarrow> MaterialRef"
  accEmissiveMeshes :: "nat list"
  accShaderMaterials :: "ShaderUniforms list"
  accOriginalMaterials :: "nat \<rightharpoonup> MaterialRef"
  accWashMeshes :: "nat list"
  accWashShaderMaterials :: "ShaderUniforms list"
  accWashOriginalMaterials :: "nat \<rightharpoonup> MaterialRef"
  accGeometry :: ClassifiedGeometry

text \<open>
  The mesh branch of the traversal callback. \<open>===\<close> between a layer index and the result
  of \<open>Map.get\<close> is equality of options, \<open>undefined\<close> equal to \<open>undefined\<close>. Shadow flags
  and the scaling of \<open>envMapIntensity\<close> are left out.
\<close>

definition classifyMesh ::
  "(string \<rightharpoonup> nat) \<Rightarrow> real \<Rightarrow> real \<Rightarrow> Mesh \<Rightarrow> nat option \<Rightarrow> LoadAcc \<Rightarrow> LoadAcc" where
  "classifyMesh nameToIndex edgeGlowIntensity effectSpeed mesh layerIndex acc =
     (let child = objectId mesh;
          isFaceLayer = (layerIndex = nameToIndex FACE_LAYER_NAME);
          isLinearEmissiveLayer =
            (case layerIndex of
               None \<Rightarrow> False
             | Some li \<Rightarrow> li \<in> linearEmissiveLayerIndices nameToIndex \<and> \<not> isFaceLayer);
          isWashLightsLayer = (layerIndex = nameToIndex WASH_LIGHTS_LAYER_NAME \<and> \<not> isFaceLayer);
          a1 = (if isFaceLayer
                then acc\<lparr>accMaterial := (accMaterial acc)(child := NeutralizedClone (accMaterial acc child))\<rparr>
                else acc);
          a2 = (if layerIndex = nameToIndex SEMI_GLOSS_LAYER_NAME
                then a1\<lparr>accMaterial := (accMaterial a1)(child := SemiGlossMaterial)\<rparr> else a1);
          a3 = (if layerIndex = nameToIndex SOD_LAYER_NAME
                then a2\<lparr>accMaterial := (accMaterial a2)(child := SodMaterial)\<rparr> else a2);
          a4 = (if layerIndex = nameToIndex PEOPLE_LAYER_NAME
                then a3\<lparr>accMaterial := (accMaterial a3)(child := PeopleMaterial)\<rparr> else a3);
          a5 = (if isLinearEmissiveLayer
                then a4\<lparr>accEmissiveMeshes := accEmissiveMeshes a4 @ [child],
                        accOriginalMaterials :=
                          (accOriginalMaterials a4)(child \<mapsto> PoweredDownClone (accMaterial a4 child)),
                        accShaderMaterials := accShaderMaterials a4 @
                          [\<lparr>uTime = 0, uColor = Hex 0xF7B5CD, uIntensity = edgeGlowIntensity,
                            uSpeed = effectSpeed, uEffectType = 0\<rparr>],
                        accGeometry := (accGeometry a4)
                          \<lparr>edgeLedMeshes :=
                             (if layerIndex = nameToIndex EDGE_LED_LAYER_NAME
                              then edgeLedMeshes (accGeometry a4) @ [mesh]
                              else edgeLedMeshes (accGeometry a4)),
                           baseLightMeshes :=
                             (if layerIndex = nameToIndex BASE_LIGHTS_LAYER_NAME
                              then baseLightMeshes (accGeometry a4) @ [mesh]
                              else baseLightMeshes (accGeometry a4))\<rparr>\<rparr>
                else a4)
      in if isWashLightsLayer
         then a5\<lparr>accWashMeshes := accWashMeshes a5 @ [child],
                 accWashOriginalMaterials :=
                   (accWashOriginalMaterials a5)(child \<mapsto> PoweredDownClone (accMaterial a5 child)),
                 accWashShaderMaterials := accWashShaderMaterials a5 @
                   [\<lparr>uTime = 0, uColor = Hex 0x5CA8FF, uIntensity = edgeGlowIntensity,
                     uSpeed = effectSpeed, uEffectType = 0\<rparr>],
                 accGeometry := (accGeometry a5)
                   \<lparr>washLightMeshes := washLightMeshes (accGeometry a5) @ [mesh]\<rparr>\<rparr>
         else a5)"

fun classifyChild ::
  "(string \<rightharpoonup> nat) \<Rightarrow> real \<Rightarrow> real \<Rightarrow> SceneChild \<Rightarrow> LoadAcc \<Rightarrow> LoadAcc" where
  "classifyChild nameToIndex edgeGlowIntensity effectSpeed (MeshChild mesh layerIndex) acc =
     classifyMesh nameToIndex edgeGlowIntensity effectSpeed mesh layerIndex acc"
| "classifyChild nameToIndex edgeGlowIntensity effectSpeed (LineChild lineObj layerIndex) acc =
     (if layerIndex = nameToIndex EMITTER_GUIDES_LAYER_NAME
      then acc\<lparr>accGeometry := (accGeometry acc)
                 \<lparr>emitterGuideObjects := emitterGuideObjects (accGeometry acc) @ [lineObj]\<rparr>\<rparr>
      else acc)"
| "classifyChild nameToIndex edgeGlowIntensity effectSpeed (PointsChild n positions layerIndex) acc =
     (if layerIndex = nameToIndex WASH_LIGHTS_LAYER_NAME
      then (case positions of
              None \<Rightarrow> acc
            | Some ps \<Rightarrow>
                acc\<lparr>accGeometry := (accGeometry acc)
                      \<lparr>washLightPositions := washLightPositions (accGeometry acc) @ ps\<rparr>\<rparr>)
      else acc)"
| "classifyChild nameToIndex edgeGlowIntensity effectSpeed (OtherChild n layerIndex) acc = acc"

record LoadInput =
  layerNames :: "string list"
  children :: "SceneChild list"
  initialVisible :: "nat \<Rightarrow> bool"
  maxDim :: real
  boxMinY :: real
  edgeGlowIntensitySetting :: real
  effectSpeedSetting :: real
  initialTime :: real

text \<open>The traversal \<open>object.traverse\<close> of the load callback, from empty lists.\<close>

definition classifyScene :: "LoadInput \<Rightarrow> LoadAcc" where
  "classifyScene inp =
     fold (classifyChild (layerNameToIndex (layerNames inp)) (edgeGlowIntensitySetting inp)
             (effectSpeedSetting inp))
       (children inp)
       \<lparr>accMaterial = ImportedMaterial, accEmissiveMeshes = [], accShaderMaterials = [],
        accOriginalMaterials = Map.empty, accWashMeshes = [],
        accWashShaderMaterials = [], accWashOriginalMaterials = Map.empty,
        accGeometry = \<lparr>edgeLedMeshes = [], baseLightMeshes = [], washLightMeshes = [],
                       washLightPositions = [], emitterGuideObjects = []\<rparr>\<rparr>"

text \<open>
  The success callback of \<open>loader.load\<close>: classification, the initial choice of materials
  from the effects current at that moment, rig synthesis, and the first update of the
  emitters.
\<close>

definition loadCallback :: "LoadInput \<Rightarrow> ViewerState \<Rightarrow> ViewerState" where
  "loadCallback inp s =
     (let acc = classifyScene inp;
          initialLinearEffect = activeLightEffect s;
          initialLinearGlowActive =
            (initialLinearEffect \<noteq> Off \<and> edgeGlowIntensitySetting inp > 0.0001);
          linearShaders = (if initialLinearGlowActive
                           then setEffectUniforms initialLinearEffect (accShaderMaterials acc)
                           else accShaderMaterials acc);
          m1 = (if initialLinearGlowActive
                then applyShaderMaterials LinearShader (accEmissiveMeshes acc)
                       (length (accShaderMaterials acc)) (accMaterial acc)
                else restoreOriginalMaterials (accEmissiveMeshes acc) (accOriginalMaterials acc)
                       (accMaterial acc));
          initialWashEffect = activeWashLightEffect s;
          washShaders = (if initialWashEffect \<noteq> Off
                         then setEffectUniforms initialWashEffect (accWashShaderMaterials acc)
                         else accWashShaderMaterials acc);
          m2 = (if initialWashEffect \<noteq> Off
                then applyShaderMaterials WashShader (accWashMeshes acc)
                       (length (accWashShaderMaterials acc)) m1
                else restoreOriginalMaterials (accWashMeshes acc) (accWashOriginalMaterials acc) m1);
          rig = synthesizeEmitters (maxDim inp) (boxMinY inp) (accGeometry acc);
          s1 = s\<lparr>modelChildren := Some (children inp),
                 objectVisible := initialVisible inp,
                 meshMaterial := m2,
                 emissiveMeshes := accEmissiveMeshes acc,
                 shaderMaterials := linearShaders,
                 originalMaterials := accOriginalMaterials acc,
                 washMeshes := accWashMeshes acc,
                 washShaderMaterials := washShaders,
                 washOriginalMaterials := accWashOriginalMaterials acc\<rparr>
      in s1\<lparr>emitterLights :=
               map (\<lambda>emitter.
                      updateEmitterLight (initialVisible inp) (groupEffect s emitter) (initialTime inp)
                        (effectSpeedRef s) (groupIntensity s emitter) emitter)
                 (emissiveEmitterLights rig)\<rparr>)"

text \<open>The viewer before the model has arrived, with the effects and settings it was mounted with.\<close>

definition mountedViewer :: "LightEffect \<Rightarrow> LightEffect \<Rightarrow> real \<Rightarrow> real \<Rightarrow> real \<Rightarrow> ViewerState" where
  "mountedViewer lightEffect washLightEffect emitterIntensity washIntensity effectSpeed =
     \<lparr>modelChildren = None, objectVisible = (\<lambda>_. True), meshMaterial = ImportedMaterial,
      emissiveMeshes = [], shaderMaterials = [], originalMaterials = Map.empty,
      washMeshes = [], washShaderMaterials = [], washOriginalMaterials = Map.empty,
      emitterLights = [], activeLightEffect = lightEffect,
      activeWashLightEffect = washLightEffect, emitterIntensityRef = emitterIntensity,
      washIntensityRef = washIntensity, effectSpeedRef = effectSpeed\<rparr>"

section \<open>Documented ranges and periods of the effects\<close>

text \<open>
  The range of the intensity multiplier of each effect: the documented ranges of the pulse,
  wave and ripple families, and for the other effects the range their formula spans.
\<close>

fun documentedIntensityRange :: "LightEffect \<Rightarrow> real \<times> real" where
  "documentedIntensityRange PinkPulse = (0.3, 1.0)"
| "documentedIntensityRange BluePulse = (0.3, 1.0)"
| "documentedIntensityRange PinkWave = (0.2, 1.0)"
| "documentedIntensityRange BlueWave = (0.2, 1.0)"
| "documentedIntensityRange PinkRipple = (0.1, 1.0)"
| "documentedIntensityRange BlueRipple = (0.1, 1.0)"
| "documentedIntensityRange RainbowWave = (0.4, 1.0)"
| "documentedIntensityRange RainbowRipple = (0.2, 1.0)"
| "documentedIntensityRange PinkGlow = (1.0, 1.0)"
| "documentedIntensityRange BlueGlow = (1.0, 1.0)"
| "documentedIntensityRange Fire = (0.5, 1.0)"
| "documentedIntensityRange Ocean = (0.4, 1.0)"
| "documentedIntensityRange Aurora = (0.47, 1.03)"
| "documentedIntensityRange Off = (0, 0)"

text \<open>
  The period of the intensity multiplier and of the colour of each effect, in effect time
  (\<open>time * speed\<close>). An effect that does not change is given period 1.
\<close>

fun intensityPeriod :: "LightEffect \<Rightarrow> real" where
  "intensityPeriod PinkPulse = pi"
| "intensityPeriod BluePulse = pi"
| "intensityPeriod PinkWave = 2 * pi / 3"
| "intensityPeriod BlueWave = 2 * pi / 3"
| "intensityPeriod PinkRipple = pi / 2"
| "intensityPeriod BlueRipple = pi / 2"
| "intensityPeriod RainbowWave = 4 * pi / 5"
| "intensityPeriod RainbowRipple = 4 * pi / 7"
| "intensityPeriod Fire = pi / 2"
| "intensityPeriod Ocean = 20 * pi"
| "intensityPeriod Aurora = 5 * pi / 2"
| "intensityPeriod PinkGlow = 1"
| "intensityPeriod BlueGlow = 1"
| "intensityPeriod Off = 1"

fun colourPeriod :: "LightEffect \<Rightarrow> real" where
  "colourPeriod RainbowWave = 10 / 3"
| "colourPeriod RainbowRipple = 5"
| "colourPeriod e = intensityPeriod e"

section \<open>Auxiliary notions for the proofs\<close>

text \<open>
  A step of the synthesis only ever appends emitters to \<open>emissiveEmitterLights\<close>;
  \<open>appendsOnly Q f\<close> says that \<open>f\<close> does so and that all it appends satisfy \<open>Q\<close>.
\<close>

definition appendsOnly :: "(EmissiveEmitterLight \<Rightarrow> bool) \<Rightarrow> (RigState \<Rightarrow> RigState) \<Rightarrow> bool" where
  "appendsOnly Q f =
     (\<forall>st. \<exists>es. emissiveEmitterLights (f st) = emissiveEmitterLights st @ es \<and> list_all Q es)"

text \<open>
  The two shapes of emitter the synthesis produces: a spot light of the edge group whose
  rig of \<open>n\<close> segments (3 without guides, following its source; 2 on a guide, not
  following it) shares at least \<open>edgeMinIntensity\<close>, or a point light of the wash group.
\<close>

definition synthesizedShape :: "real \<Rightarrow> EmissiveEmitterLight \<Rightarrow> bool" where
  "synthesizedShape md e =
     (if layerType e = EdgeLed
      then lightType (light e) = SpotLight
           \<and> baseIntensity e * (if followSourceVisibility e then 3 else 2) \<ge> edgeMinIntensity md
      else layerType e = WashLights \<and> lightType (light e) = PointLight
           \<and> followSourceVisibility e \<and> baseIntensity e = washBaseIntensity)"

text \<open>
  The rig the guide-less path makes for a candidate: three emitters of the edge group that
  keep the candidate's source object, follow its visibility, and sit at the candidate's
  height raised by \<open>max (maxDim * 0.015) 0.8\<close>, the lift of \<open>addEdgeEmitterRig\<close>.
\<close>

definition fallbackRigOf :: "real \<Rightarrow> EdgeCandidate \<Rightarrow> EmissiveEmitterLight list \<Rightarrow> bool" where
  "fallbackRigOf md c rig =
     (length rig = 3
      \<and> list_all (\<lambda>e. layerType e = EdgeLed \<and> sourceObject e = candidateSource c
                      \<and> followSourceVisibility e
                      \<and> vy (lightPosition (light e)) = vy (point c) + max (md * 0.015) 0.8) rig)"

text \<open>
  The vertices \<open>sampleMeshWorldPoints\<close> looks at, for a position attribute \<open>ps\<close>: every
  \<open>step\<close>-th one, and these sorted along the dominant axis of the bounding box.
\<close>

definition sampledVerticesOf :: "Vector3 list \<Rightarrow> Vector3 list" where
  "sampledVerticesOf ps = strideFrom (max 1 (length ps div 2048)) ps"

definition sortedVerticesOf :: "Vector3 list \<Rightarrow> Vector3 list" where
  "sortedVerticesOf ps =
     sort_key (axisValue (getLargestAxisName (boundingBoxSize ps))) (sampledVerticesOf ps)"

section \<open>A small scene for concrete instances\<close>

definition exampleMesh :: Mesh where
  "exampleMesh =
     \<lparr>objectId = 1,
      geometry = Some \<lparr>positionAttribute = Some [Vector3 8 2 0, Vector3 0 10 0, Vector3 4 9 0],
                       uvAttribute = Some [(5 / 4, 0), (0, 0), (1 / 2, 0)]\<rparr>,
      localToWorld = (\<lambda>p. p),
      transformDirection = (\<lambda>d. d),
      worldSize = Vector3 8 8 0\<rparr>"

definition exampleGuide :: LineObject where
  "exampleGuide =
     \<lparr>lineId = 7, linePositions = Some [Vector3 0 10 0, Vector3 30 10 0],
      lineLocalToWorld = (\<lambda>p. p)\<rparr>"

definition exampleGeometry :: ClassifiedGeometry where
  "exampleGeometry =
     \<lparr>edgeLedMeshes = [], baseLightMeshes = [exampleMesh], washLightMeshes = [],
      washLightPositions = [Vector3 1 2 3], emitterGuideObjects = [exampleGuide]\<rparr>"

definition exampleLoad :: LoadInput where
  "exampleLoad =
     \<lparr>layerNames = [''Edge LED'', ''Base Lights'', ''Wash Lights'', ''Emitters''],
      children = [MeshChild exampleMesh (Some 1), LineChild exampleGuide (Some 3),
                  PointsChild 9 (Some [Vector3 1 2 3]) (Some 2)],
      initialVisible = (\<lambda>_. True),
      maxDim = 100, boxMinY = 0,
      edgeGlowIntensitySetting = 3 / 2, effectSpeedSetting = 1, initialTime = 0\<rparr>"

definition exampleCandidate :: "real \<Rightarrow> EdgeCandidate" where
  "exampleCandidate h =
     \<lparr>candidateSource = ModelObject 1, point = Vector3 0 h 0, candidatePhase = 0,
      direction = Vector3 1 0 0\<rparr>"

text \<open>
  A scene without guides whose Edge LED layer holds two meshes of one vertex each, one at
  height 10 and one at height 0.
\<close>

definition levelMesh :: "nat \<Rightarrow> Vector3 \<Rightarrow> Mesh" where
  "levelMesh n v =
     \<lparr>objectId = n,
      geometry = Some \<lparr>positionAttribute = Some [v], uvAttribute = None\<rparr>,
      localToWorld = (\<lambda>p. p),
      transformDirection = (\<lambda>d. d),
      worldSize = Vector3 0 0 0\<rparr>"

definition twoLevelGeometry :: ClassifiedGeometry where
  "twoLevelGeometry =
     \<lparr>edgeLedMeshes = [levelMesh 11 (Vector3 0 10 0), levelMesh 12 (Vector3 5 0 0)],
      baseLightMeshes = [], washLightMeshes = [],
      washLightPositions = [], emitterGuideObjects = []\<rparr>"

text \<open>The emitters the example scene yields (see \<open>example_emitters\<close> below).\<close>

definition exampleEdgeEmitter :: "real \<Rightarrow> real \<Rightarrow> bool \<Rightarrow> EmissiveEmitterLight" where
  "exampleEdgeEmitter px ph shadow =
     \<lparr>light = \<lparr>lightType = SpotLight, lightColor = Hex 0xF7B5CD, intensity = 1250,
                distance = 1694 / 100, lightPosition = Vector3 px (23 / 2) 0,
                lightVisible = True, castShadow = shadow\<rparr>,
      target = Some \<lparr>targetPosition = Vector3 px (1 / 10) 0, targetVisible = True\<rparr>,
      sourceObject = ModelObject 7, followSourceVisibility = False, layerType = EdgeLed,
      phase = ph, baseIntensity = 1250\<rparr>"

definition exampleWashEmitter :: EmissiveEmitterLight where
  "exampleWashEmitter =
     \<lparr>light = \<lparr>lightType = PointLight, lightColor = Hex 0x5CA8FF, intensity = 100,
                distance = 40, lightPosition = Vector3 1 3 3,
                lightVisible = True, castShadow = False\<rparr>,
      target = None,
      sourceObject = DummySource, followSourceVisibility = True, layerType = WashLights,
      phase = 0, baseIntensity = 100\<rparr>"

text \<open>A mesh of 4096 vertices, all different, in place in the world.\<close>

definition bigMeshVertices :: "Vector3 list" where
  "bigMeshVertices = map (\<lambda>i. Vector3 (real i) 0 0) [0..<4096]"

definition bigMesh :: Mesh where
  "bigMesh =
     \<lparr>objectId = 2,
      geometry = Some \<lparr>positionAttribute = Some bigMeshVertices, uvAttribute = None\<rparr>,
      localToWorld = (\<lambda>p. p),
      transformDirection = (\<lambda>d. d),
      worldSize = Vector3 4095 0 0\<rparr>"

section \<open>States the viewer can be in\<close>

record LightSettings =
  ambientIntensity :: real
  directionalIntensity :: real
  emitterIntensity :: real
  washIntensity :: real
  edgeGlowIntensity :: real
  effectSpeed :: real
  bloomStrength :: real
  bloomRadius :: real
  bloomThreshold :: real
  fogDensity :: real
  showGroundPlane :: bool
  debugLightingMode :: bool

text \<open>
  The hook on \<open>[lightSettings]\<close>, as far as it writes the state kept here: the three
  scalars the emitter updates read, and the intensity and speed uniforms of both groups
  of shaders. Scene lights, bloom, fog, the ground plane and the debug helpers are not
  part of the state.
\<close>

definition lightSettingsHook :: "LightSettings \<Rightarrow> ViewerState \<Rightarrow> ViewerState" where
  "lightSettingsHook lightSettings s =
     s\<lparr>emitterIntensityRef := emitterIntensity lightSettings,
       washIntensityRef := washIntensity lightSettings,
       effectSpeedRef := effectSpeed lightSettings,
       shaderMaterials :=
         map (\<lambda>material. material\<lparr>uIntensity := edgeGlowIntensity lightSettings,
                                       uSpeed := effectSpeed lightSettings\<rparr>)
           (shaderMaterials s),
       washShaderMaterials :=
         map (\<lambda>material. material\<lparr>uIntensity := edgeGlowIntensity lightSettings,
                                       uSpeed := effectSpeed lightSettings\<rparr>)
           (washShaderMaterials s)\<rparr>"

text \<open>
  The viewer is mounted, the model arrives, and from then on the hooks and the animation
  loop run in any order.
\<close>

inductive reachable :: "ViewerState \<Rightarrow> bool" where
  loaded: "reachable (loadCallback inp (mountedViewer linearEff washEff ei wi sp))"
| linear: "reachable s \<Longrightarrow> reachable (linearEffectHook linearEff glow currentTime s)"
| wash: "reachable s \<Longrightarrow> reachable (washEffectHook washEff currentTime s)"
| layers: "reachable s \<Longrightarrow> reachable (layersHook layerList s)"
| settings: "reachable s \<Longrightarrow> reachable (lightSettingsHook lightSettings s)"
| frame: "reachable s \<Longrightarrow> reachable (animateFrame elapsedTime s)"

text \<open>Every mesh of the linear group has its powered-down clone on record.\<close>

definition offMaterialsStored :: "ViewerState \<Rightarrow> bool" where
  "offMaterialsStored s =
     list_all (\<lambda>mesh. case originalMaterials s mesh of
                        Some (PoweredDownClone m) \<Rightarrow> True
                      | _ \<Rightarrow> False)
       (emissiveMeshes s)"

text \<open>The same of the lists the traversal is building.\<close>

definition accStored :: "LoadAcc \<Rightarrow> bool" where
  "accStored acc =
     list_all (\<lambda>mesh. case accOriginalMaterials acc mesh of
                        Some (PoweredDownClone m) \<Rightarrow> True
                      | _ \<Rightarrow> False)
       (accEmissiveMeshes acc)"

definition isLinearEmitter :: "EmissiveEmitterLight \<Rightarrow> bool" where
  "isLinearEmitter emitter = (layerType emitter = EdgeLed \<or> layerType emitter = BaseLights)"

text \<open>The viewer the examples start from: the example scene loaded with both effects off.\<close>

definition exampleViewer :: ViewerState where
  "exampleViewer = loadCallback exampleLoad (mountedViewer Off Off (17 / 10) 1 1)"

text \<open>Pink pulse selected on it, at glow intensity 1.5 and time 0.\<close>

definition examplePulsing :: ViewerState where
  "examplePulsing = linearEffectHook PinkPulse (3 / 2) 0 exampleViewer"

section \<open>The effect library: range of the intensity multiplier\<close>



lemma sin_prod_bounds: "- 1 \<le> sin a * sin (b::real) \<and> sin a * sin b \<le> 1"
proof -
  have "\<bar>sin a * sin b\<bar> \<le> 1 * 1"
    unfolding abs_mult by (rule mult_mono) (simp_all add: abs_sin_le_one)
  then show ?thesis by (simp add: abs_le_iff)
qed

lemma sin_bounds: "- 1 \<le> sin (a::real) \<and> sin a \<le> 1"
  by simp

lemma Fire_range:
  "1 / 2 \<le> snd (evaluateEmitterEffect Fire t ph speed)
   \<and> snd (evaluateEmitterEffect Fire t ph speed) \<le> 1"
proof -
  define flicker where "flicker = sin (t * speed * 8 + ph * 5) * sin (t * speed * 12 + ph * 7)"
  have b: "- 1 \<le> flicker" "flicker \<le> 1"
    unfolding flicker_def using sin_prod_bounds by blast+
  have v: "snd (evaluateEmitterEffect Fire t ph speed) = 1 / 2 + (1 / 2) * (1 / 2 + (1 / 2) * flicker)"
    by (simp add: Let_def flicker_def)
  show ?thesis unfolding v using b by argo
qed

lemma Ocean_range:
  "4 / 10 \<le> snd (evaluateEmitterEffect Ocean t ph speed)
   \<and> snd (evaluateEmitterEffect Ocean t ph speed) \<le> 1"
proof -
  define wave1 where "wave1 = sin (t * speed * 1.5 + ph * TAU)"
  define wave2 where "wave2 = sin (t * speed * 2.3 + ph * TAU * 1.5)"
  have b: "- 1 \<le> wave1" "wave1 \<le> 1" "- 1 \<le> wave2" "wave2 \<le> 1"
    unfolding wave1_def wave2_def by simp_all
  have v: "snd (evaluateEmitterEffect Ocean t ph speed)
           = 4 / 10 + (6 / 10) * (1 / 2 + (1 / 2) * ((wave1 + wave2) * (1 / 2)))"
    by (simp add: Let_def wave1_def wave2_def)
  show ?thesis unfolding v using b by argo
qed

lemma Aurora_range:
  "47 / 100 \<le> snd (evaluateEmitterEffect Aurora t ph speed)
   \<and> snd (evaluateEmitterEffect Aurora t ph speed) \<le> 103 / 100"
proof -
  define shift where "shift = sin (t * speed * 0.8 + ph * TAU)"
  define s4 where "s4 = sin (t * speed * 4 + ph * 3)"
  have b: "- 1 \<le> shift" "shift \<le> 1" "- 1 \<le> s4" "s4 \<le> 1"
    unfolding shift_def s4_def by simp_all
  have v: "snd (evaluateEmitterEffect Aurora t ph speed)
           = 1 / 2 + (1 / 2) * (1 / 2 + (1 / 2) * shift + (2 / 10) * (s4 * (3 / 10)))"
    by (simp add: Let_def shift_def s4_def)
  show ?thesis unfolding v using b by argo
qed

lemma PinkPulse_range:
  "3 / 10 \<le> snd (evaluateEmitterEffect PinkPulse t ph speed)
   \<and> snd (evaluateEmitterEffect PinkPulse t ph speed) \<le> 1"
proof -
  define w where "w = 1 / 2 + (1 / 2) * sin (t * speed * 2)"
  have b: "0 \<le> w" "w \<le> 1"
    unfolding w_def using sin_ge_minus_one [of "t * speed * 2"] sin_le_one [of "t * speed * 2"] by argo+
  have v: "snd (evaluateEmitterEffect PinkPulse t ph speed) = 3 / 10 + (7 / 10) * w"
    by (simp add: Let_def w_def)
  show ?thesis unfolding v using b by argo
qed

lemma BluePulse_range:
  "3 / 10 \<le> snd (evaluateEmitterEffect BluePulse t ph speed)
   \<and> snd (evaluateEmitterEffect BluePulse t ph speed) \<le> 1"
proof -
  define w where "w = 1 / 2 + (1 / 2) * sin (t * speed * 2)"
  have b: "0 \<le> w" "w \<le> 1"
    unfolding w_def using sin_ge_minus_one [of "t * speed * 2"] sin_le_one [of "t * speed * 2"] by argo+
  have v: "snd (evaluateEmitterEffect BluePulse t ph speed) = 3 / 10 + (7 / 10) * w"
    by (simp add: Let_def w_def)
  show ?thesis unfolding v using b by argo
qed

lemma PinkWave_range:
  "2 / 10 \<le> snd (evaluateEmitterEffect PinkWave t ph speed)
   \<and> snd (evaluateEmitterEffect PinkWave t ph speed) \<le> 1"
proof -
  define w where "w = 1 / 2 + (1 / 2) * sin (t * speed * 3 + ph * TAU)"
  have b: "0 \<le> w" "w \<le> 1"
    unfolding w_def using sin_ge_minus_one [of "t * speed * 3 + ph * TAU"] sin_le_one [of "t * speed * 3 + ph * TAU"] by argo+
  have v: "snd (evaluateEmitterEffect PinkWave t ph speed) = 2 / 10 + (8 / 10) * w"
    by (simp add: Let_def w_def)
  show ?thesis unfolding v using b by argo
qed

lemma BlueWave_range:
  "2 / 10 \<le> snd (evaluateEmitterEffect BlueWave t ph speed)
   \<and> snd (evaluateEmitterEffect BlueWave t ph speed) \<le> 1"
proof -
  define w where "w = 1 / 2 + (1 / 2) * sin (t * speed * 3 + ph * TAU)"
  have b: "0 \<le> w" "w \<le> 1"
    unfolding w_def using sin_ge_minus_one [of "t * speed * 3 + ph * TAU"] sin_le_one [of "t * speed * 3 + ph * TAU"] by argo+
  have v: "snd (evaluateEmitterEffect BlueWave t ph speed) = 2 / 10 + (8 / 10) * w"
    by (simp add: Let_def w_def)
  show ?thesis unfolding v using b by argo
qed

lemma PinkRipple_range:
  "1 / 10 \<le> snd (evaluateEmitterEffect PinkRipple t ph speed)
   \<and> snd (evaluateEmitterEffect PinkRipple t ph speed) \<le> 1"
proof -
  define w where "w = 1 / 2 + (1 / 2) * sin (t * speed * 4 - ph * TAU * 2)"
  have b: "0 \<le> w" "w \<le> 1"
    unfolding w_def using sin_ge_minus_one [of "t * speed * 4 - ph * TAU * 2"] sin_le_one [of "t * speed * 4 - ph * TAU * 2"] by argo+
  have v: "snd (evaluateEmitterEffect PinkRipple t ph speed) = 1 / 10 + (9 / 10) * w"
    by (simp add: Let_def w_def)
  show ?thesis unfolding v using b by argo
qed

lemma BlueRipple_range:
  "1 / 10 \<le> snd (evaluateEmitterEffect BlueRipple t ph speed)
   \<and> snd (evaluateEmitterEffect BlueRipple t ph speed) \<le> 1"
proof -
  define w where "w = 1 / 2 + (1 / 2) * sin (t * speed * 4 - ph * TAU * 2)"
  have b: "0 \<le> w" "w \<le> 1"
    unfolding w_def using sin_ge_minus_one [of "t * speed * 4 - ph * TAU * 2"] sin_le_one [of "t * speed * 4 - ph * TAU * 2"] by argo+
  have v: "snd (evaluateEmitterEffect BlueRipple t ph speed) = 1 / 10 + (9 / 10) * w"
    by (simp add: Let_def w_def)
  show ?thesis unfolding v using b by argo
qed

lemma RainbowWave_range:
  "4 / 10 \<le> snd (evaluateEmitterEffect RainbowWave t ph speed)
   \<and> snd (evaluateEmitterEffect RainbowWave t ph speed) \<le> 1"
proof -
  define w where "w = 1 / 2 + (1 / 2) * sin (t * speed * 2.5 + ph * TAU)"
  have b: "0 \<le> w" "w \<le> 1"
    unfolding w_def using sin_ge_minus_one [of "t * speed * 2.5 + ph * TAU"] sin_le_one [of "t * speed * 2.5 + ph * TAU"] by argo+
  have v: "snd (evaluateEmitterEffect RainbowWave t ph speed) = 4 / 10 + (6 / 10) * w"
    by (simp add: Let_def w_def)
  show ?thesis unfolding v using b by argo
qed

lemma RainbowRipple_range:
  "2 / 10 \<le> snd (evaluateEmitterEffect RainbowRipple t ph speed)
   \<and> snd (evaluateEmitterEffect RainbowRipple t ph speed) \<le> 1"
proof -
  define w where "w = 1 / 2 + (1 / 2) * sin (t * speed * 3.5 - ph * TAU * 2)"
  have b: "0 \<le> w" "w \<le> 1"
    unfolding w_def using sin_ge_minus_one [of "t * speed * 3.5 - ph * TAU * 2"] sin_le_one [of "t * speed * 3.5 - ph * TAU * 2"] by argo+
  have v: "snd (evaluateEmitterEffect RainbowRipple t ph speed) = 2 / 10 + (8 / 10) * w"
    by (simp add: Let_def w_def)
  show ?thesis unfolding v using b by argo
qed

text \<open>
  Claim C1. For every effect other than \<open>off\<close>, at every time, phase and speed, the
  intensity multiplier returned by \<open>evaluateEmitterEffect\<close> lies within the range of its
  family: pulse in [0.3, 1], wave in [0.2, 1], ripple in [0.1, 1] (the rainbow wave and
  ripple stay within [0.4, 1] and [0.2, 1], fire within [0.5, 1], ocean within [0.4, 1],
  aurora within [0.47, 1.03], glow is 1). The lower end of every range is at least 0.1, so
  no effect other than \<open>off\<close> takes the multiplier to 0. The phase need not lie in [0, 1).
\<close>

theorem evaluateEmitterEffect_intensity_range:
  assumes "effect \<noteq> Off"
  shows "fst (documentedIntensityRange effect) \<le> snd (evaluateEmitterEffect effect t ph speed)
       \<and> snd (evaluateEmitterEffect effect t ph speed) \<le> snd (documentedIntensityRange effect)
       \<and> 0 < (1 / 10 :: real) \<and> 1 / 10 \<le> fst (documentedIntensityRange effect)"
proof (cases effect)
  case Off
  with assms show ?thesis by simp
next
  case Fire
  then show ?thesis using Fire_range [of t ph speed] by simp
next
  case Ocean
  then show ?thesis using Ocean_range [of t ph speed] by simp
next
  case Aurora
  then show ?thesis using Aurora_range [of t ph speed] by simp
next
  case PinkPulse
  then show ?thesis using PinkPulse_range [of t ph speed] by simp
next
  case BluePulse
  then show ?thesis using BluePulse_range [of t ph speed] by simp
next
  case PinkWave
  then show ?thesis using PinkWave_range [of t ph speed] by simp
next
  case BlueWave
  then show ?thesis using BlueWave_range [of t ph speed] by simp
next
  case PinkRipple
  then show ?thesis using PinkRipple_range [of t ph speed] by simp
next
  case BlueRipple
  then show ?thesis using BlueRipple_range [of t ph speed] by simp
next
  case RainbowWave
  then show ?thesis using RainbowWave_range [of t ph speed] by simp
next
  case RainbowRipple
  then show ?thesis using RainbowRipple_range [of t ph speed] by simp
qed simp_all

text \<open>Pink pulse at time 0: the multiplier is 0.65, inside [0.3, 1].\<close>

theorem evaluateEmitterEffect_intensity_range_witness:
  "PinkPulse \<noteq> Off
   \<and> fst (documentedIntensityRange PinkPulse) \<le> snd (evaluateEmitterEffect PinkPulse 0 0 1)
   \<and> snd (evaluateEmitterEffect PinkPulse 0 0 1) \<le> snd (documentedIntensityRange PinkPulse)
   \<and> snd (evaluateEmitterEffect PinkPulse 0 0 1) = 13 / 20"
  using evaluateEmitterEffect_intensity_range [of PinkPulse 0 0 1] by (simp add: Let_def)

section \<open>The effect library: periodicity\<close>



lemma sin_shift: "sin (x + 2 * pi * of_int n) = sin (x::real)"
  by (simp add: sin_add sin_int_2pin cos_int_2pin)

lemma sin_periodic:
  assumes "c * P = 2 * pi * of_int m"
  shows "sin ((t + of_int k * P) * c + a) = sin (t * c + (a::real))"
proof -
  have "(t + of_int k * P) * c + a = (t * c + a) + of_int k * (c * P)"
    by (simp add: algebra_simps)
  also have "\<dots> = (t * c + a) + 2 * pi * of_int (k * m)"
    by (simp add: assms)
  finally show ?thesis by (simp only: sin_shift)
qed

lemma evaluate_scaled:
  "evaluateEmitterEffect e time ph speed = evaluateEmitterEffect e (time * speed) ph 1"
  by (cases e) (simp_all add: Let_def)

lemma scaled_shift:
  "speed \<noteq> 0 \<Longrightarrow> (time + of_int k * P / speed) * speed = time * speed + of_int k * (P::real)"
  by (simp add: field_simps)

lemma PinkPulse_periodic:
  "snd (evaluateEmitterEffect PinkPulse (t + of_int k * (pi)) ph 1) = snd (evaluateEmitterEffect PinkPulse t ph 1)"
  "fst (evaluateEmitterEffect PinkPulse (t + of_int k * (pi)) ph 1) = fst (evaluateEmitterEffect PinkPulse t ph 1)"
  using sin_periodic [of "2" "pi" 1 t k "0"] by (simp_all add: Let_def)

lemma BluePulse_periodic:
  "snd (evaluateEmitterEffect BluePulse (t + of_int k * (pi)) ph 1) = snd (evaluateEmitterEffect BluePulse t ph 1)"
  "fst (evaluateEmitterEffect BluePulse (t + of_int k * (pi)) ph 1) = fst (evaluateEmitterEffect BluePulse t ph 1)"
  using sin_periodic [of "2" "pi" 1 t k "0"] by (simp_all add: Let_def)

lemma PinkWave_periodic:
  "snd (evaluateEmitterEffect PinkWave (t + of_int k * (2 * pi / 3)) ph 1) = snd (evaluateEmitterEffect PinkWave t ph 1)"
  "fst (evaluateEmitterEffect PinkWave (t + of_int k * (2 * pi / 3)) ph 1) = fst (evaluateEmitterEffect PinkWave t ph 1)"
  using sin_periodic [of "3" "2 * pi / 3" 1 t k "ph * TAU"] by (simp_all add: Let_def)

lemma BlueWave_periodic:
  "snd (evaluateEmitterEffect BlueWave (t + of_int k * (2 * pi / 3)) ph 1) = snd (evaluateEmitterEffect BlueWave t ph 1)"
  "fst (evaluateEmitterEffect BlueWave (t + of_int k * (2 * pi / 3)) ph 1) = fst (evaluateEmitterEffect BlueWave t ph 1)"
  using sin_periodic [of "3" "2 * pi / 3" 1 t k "ph * TAU"] by (simp_all add: Let_def)

lemma PinkRipple_periodic:
  "snd (evaluateEmitterEffect PinkRipple (t + of_int k * (pi / 2)) ph 1) = snd (evaluateEmitterEffect PinkRipple t ph 1)"
  "fst (evaluateEmitterEffect PinkRipple (t + of_int k * (pi / 2)) ph 1) = fst (evaluateEmitterEffect PinkRipple t ph 1)"
  using sin_periodic [of "4" "pi / 2" 1 t k "- (ph * TAU * 2)"] by (simp_all add: Let_def)

lemma BlueRipple_periodic:
  "snd (evaluateEmitterEffect BlueRipple (t + of_int k * (pi / 2)) ph 1) = snd (evaluateEmitterEffect BlueRipple t ph 1)"
  "fst (evaluateEmitterEffect BlueRipple (t + of_int k * (pi / 2)) ph 1) = fst (evaluateEmitterEffect BlueRipple t ph 1)"
  using sin_periodic [of "4" "pi / 2" 1 t k "- (ph * TAU * 2)"] by (simp_all add: Let_def)

lemma RainbowWave_periodic:
  "snd (evaluateEmitterEffect RainbowWave (t + of_int k * (4 * pi / 5)) ph 1) = snd (evaluateEmitterEffect RainbowWave t ph 1)"
  "True"
  using sin_periodic [of "2.5" "4 * pi / 5" 1 t k "ph * TAU"] by (simp_all add: Let_def)

lemma RainbowRipple_periodic:
  "snd (evaluateEmitterEffect RainbowRipple (t + of_int k * (4 * pi / 7)) ph 1) = snd (evaluateEmitterEffect RainbowRipple t ph 1)"
  "True"
  using sin_periodic [of "3.5" "4 * pi / 7" 1 t k "- (ph * TAU * 2)"] by (simp_all add: Let_def)

lemma Fire_periodic:
  "snd (evaluateEmitterEffect Fire (t + of_int k * (pi / 2)) ph 1) = snd (evaluateEmitterEffect Fire t ph 1)"
  "fst (evaluateEmitterEffect Fire (t + of_int k * (pi / 2)) ph 1) = fst (evaluateEmitterEffect Fire t ph 1)"
  using sin_periodic [of "8" "pi / 2" 2 t k "ph * 5"] sin_periodic [of "12" "pi / 2" 3 t k "ph * 7"] by (simp_all add: Let_def)

lemma Ocean_periodic:
  "snd (evaluateEmitterEffect Ocean (t + of_int k * (20 * pi)) ph 1) = snd (evaluateEmitterEffect Ocean t ph 1)"
  "fst (evaluateEmitterEffect Ocean (t + of_int k * (20 * pi)) ph 1) = fst (evaluateEmitterEffect Ocean t ph 1)"
  using sin_periodic [of "1.5" "20 * pi" 15 t k "ph * TAU"] sin_periodic [of "2.3" "20 * pi" 23 t k "ph * TAU * 1.5"] by (simp_all add: Let_def)

lemma Aurora_periodic:
  "snd (evaluateEmitterEffect Aurora (t + of_int k * (5 * pi / 2)) ph 1) = snd (evaluateEmitterEffect Aurora t ph 1)"
  "fst (evaluateEmitterEffect Aurora (t + of_int k * (5 * pi / 2)) ph 1) = fst (evaluateEmitterEffect Aurora t ph 1)"
  using sin_periodic [of "0.8" "5 * pi / 2" 1 t k "ph * TAU"] sin_periodic [of "4" "5 * pi / 2" 5 t k "ph * 3"] by (simp_all add: Let_def)


lemma js_mod_1_diff: "\<exists>n::int. js_mod x 1 = x - of_int n \<and> - 1 < js_mod x 1 \<and> js_mod x 1 < 1"
proof (cases "x < 0")
  case True
  then have e: "js_mod x 1 = x - of_int \<lceil>x\<rceil>" by (simp add: js_mod_def js_trunc_def)
  have "x - of_int \<lceil>x\<rceil> < 1" "- 1 < x - of_int \<lceil>x\<rceil>" by linarith+
  then have "- 1 < js_mod x 1" "js_mod x 1 < 1" by (simp_all only: e)
  with e show ?thesis by blast
next
  case False
  then have e: "js_mod x 1 = x - of_int \<lfloor>x\<rfloor>" by (simp add: js_mod_def js_trunc_def)
  have "- 1 < x - of_int \<lfloor>x\<rfloor>" "x - of_int \<lfloor>x\<rfloor> < 1" by linarith+
  then have "- 1 < js_mod x 1" "js_mod x 1 < 1" by (simp_all only: e)
  with e show ?thesis by blast
qed

lemma euclideanModulo_1: "euclideanModulo x 1 = frac x"
proof -
  obtain n :: int where n: "js_mod x 1 = x - of_int n" "- 1 < js_mod x 1" "js_mod x 1 < 1"
    using js_mod_1_diff by blast
  define y where "y = js_mod x 1 + 1"
  have y: "0 < y" "y < 2" using n by (simp_all add: y_def)
  have yx: "y = x + of_int (1 - n)" by (simp add: y_def n(1))
  have "euclideanModulo x 1 = js_mod y 1" by (simp add: euclideanModulo_def y_def)
  also have "\<dots> = y - of_int \<lfloor>y\<rfloor>" using y by (simp add: js_mod_def js_trunc_def)
  also have "\<dots> = frac y" by (simp add: frac_def)
  also have "\<dots> = frac x" unfolding yx by (rule frac_add_of_int_right)
  finally show ?thesis .
qed

lemma frac_js_mod_1: "frac (js_mod x 1) = frac x"
proof -
  obtain n :: int where n: "js_mod x 1 = x - of_int n"
    using js_mod_1_diff by blast
  have "frac (js_mod x 1) = frac (x + of_int (- n))" by (simp add: n)
  also have "\<dots> = frac x" by (rule frac_add_of_int_right)
  finally show ?thesis .
qed

lemma RainbowWave_colour:
  "fst (evaluateEmitterEffect RainbowWave t ph 1) = HSL (frac (t * 0.3 + ph)) 0.85 0.55"
  by (simp add: Let_def setHSL_def euclideanModulo_1 frac_js_mod_1 clamp_def)

lemma RainbowRipple_colour:
  "fst (evaluateEmitterEffect RainbowRipple t ph 1) = HSL (frac (t * 0.2 - ph * 0.5)) 0.9 0.55"
proof -
  have "frac (js_mod (t * 0.2 - ph * 0.5) 1 + 1) = frac (t * 0.2 - ph * 0.5)"
    using frac_add_of_int_right [of "js_mod (t * 0.2 - ph * 0.5) 1" 1]
    by (simp add: frac_js_mod_1)
  then show ?thesis
    by (simp add: Let_def setHSL_def euclideanModulo_1 frac_js_mod_1 clamp_def)
qed

lemma RainbowWave_hue_periodic:
  "fst (evaluateEmitterEffect RainbowWave (t + of_int k * (10 / 3)) ph 1)
   = fst (evaluateEmitterEffect RainbowWave t ph 1)"
proof -
  have "(t + of_int k * (10 / 3)) * 0.3 + ph = (t * 0.3 + ph) + of_int k"
    by (simp add: algebra_simps)
  then show ?thesis
    unfolding RainbowWave_colour by (simp only: frac_add_of_int_right)
qed

lemma RainbowRipple_hue_periodic:
  "fst (evaluateEmitterEffect RainbowRipple (t + of_int k * 5) ph 1)
   = fst (evaluateEmitterEffect RainbowRipple t ph 1)"
proof -
  have "(t + of_int k * 5) * 0.2 - ph * 0.5 = (t * 0.2 - ph * 0.5) + of_int k"
    by (simp add: algebra_simps)
  then show ?thesis
    unfolding RainbowRipple_colour by (simp only: frac_add_of_int_right)
qed


lemma periodic_lift:
  assumes "speed \<noteq> 0"
    and "\<And>w. f (evaluateEmitterEffect e (w + of_int k * P) ph 1) = f (evaluateEmitterEffect e w ph 1)"
  shows "f (evaluateEmitterEffect e (t + of_int k * P / speed) ph speed)
         = f (evaluateEmitterEffect e t ph speed)"
proof -
  have "f (evaluateEmitterEffect e (t + of_int k * P / speed) ph speed)
        = f (evaluateEmitterEffect e (t * speed + of_int k * P) ph 1)"
    using evaluate_scaled [of e "t + of_int k * P / speed" ph speed] scaled_shift [OF assms(1), of t k P]
    by simp
  also have "\<dots> = f (evaluateEmitterEffect e (t * speed) ph 1)"
    by (rule assms(2))
  also have "\<dots> = f (evaluateEmitterEffect e t ph speed)"
    using evaluate_scaled [of e t ph speed] by simp
  finally show ?thesis .
qed

lemma intensityPeriod_pos: "0 < intensityPeriod e"
  by (cases e) simp_all

lemma colourPeriod_pos: "0 < colourPeriod e"
  by (cases e) simp_all

lemma intensity_periodic_1:
  "snd (evaluateEmitterEffect e (w + of_int k * intensityPeriod e) ph 1)
   = snd (evaluateEmitterEffect e w ph 1)"
proof (cases e)
  case PinkPulse then show ?thesis using PinkPulse_periodic(1) by simp
next
  case BluePulse then show ?thesis using BluePulse_periodic(1) by simp
next
  case PinkWave then show ?thesis using PinkWave_periodic(1) by simp
next
  case BlueWave then show ?thesis using BlueWave_periodic(1) by simp
next
  case PinkRipple then show ?thesis using PinkRipple_periodic(1) by simp
next
  case BlueRipple then show ?thesis using BlueRipple_periodic(1) by simp
next
  case RainbowWave then show ?thesis using RainbowWave_periodic(1) by simp
next
  case RainbowRipple then show ?thesis using RainbowRipple_periodic(1) by simp
next
  case Fire then show ?thesis using Fire_periodic(1) by simp
next
  case Ocean then show ?thesis using Ocean_periodic(1) by simp
next
  case Aurora then show ?thesis using Aurora_periodic(1) by simp
qed simp_all

lemma colour_periodic_1:
  "fst (evaluateEmitterEffect e (w + of_int k * colourPeriod e) ph 1)
   = fst (evaluateEmitterEffect e w ph 1)"
proof (cases e)
  case PinkPulse then show ?thesis using PinkPulse_periodic(2) by simp
next
  case BluePulse then show ?thesis using BluePulse_periodic(2) by simp
next
  case PinkWave then show ?thesis using PinkWave_periodic(2) by simp
next
  case BlueWave then show ?thesis using BlueWave_periodic(2) by simp
next
  case PinkRipple then show ?thesis using PinkRipple_periodic(2) by simp
next
  case BlueRipple then show ?thesis using BlueRipple_periodic(2) by simp
next
  case RainbowWave then show ?thesis using RainbowWave_hue_periodic by simp
next
  case RainbowRipple then show ?thesis using RainbowRipple_hue_periodic by simp
next
  case Fire then show ?thesis using Fire_periodic(2) by simp
next
  case Ocean then show ?thesis using Ocean_periodic(2) by simp
next
  case Aurora then show ?thesis using Aurora_periodic(2) by simp
qed simp_all

text \<open>
  Over the real numbers of the model, and at every speed other than 0, the multiplier of
  every effect repeats after \<open>intensityPeriod effect / speed\<close> seconds and the colour after
  \<open>colourPeriod effect / speed\<close> seconds. The periods are multiples of \<open>pi\<close> (the hues of
  the two rainbow effects have the periods \<open>10 / 3\<close> and 5), and the equality is one of
  real arithmetic: computed in floating point, the two sides agree up to rounding only.
\<close>

lemma effect_formula_periodic:
  assumes "speed \<noteq> 0"
  shows "0 < intensityPeriod effect \<and> 0 < colourPeriod effect
       \<and> snd (evaluateEmitterEffect effect (t + of_int k * intensityPeriod effect / speed) ph speed)
         = snd (evaluateEmitterEffect effect t ph speed)
       \<and> fst (evaluateEmitterEffect effect (t + of_int k * colourPeriod effect / speed) ph speed)
         = fst (evaluateEmitterEffect effect t ph speed)"
  using periodic_lift [OF assms, of snd effect k "intensityPeriod effect" ph t, OF intensity_periodic_1]
        periodic_lift [OF assms, of fst effect k "colourPeriod effect" ph t, OF colour_periodic_1]
        intensityPeriod_pos [of effect] colourPeriod_pos [of effect]
  by simp

subsection \<open>Speed and time\<close>














section \<open>What the synthesis appends\<close>

lemma appendsOnly_id: "appendsOnly Q (\<lambda>st. st)"
  by (simp add: appendsOnly_def)

lemma appendsOnly_comp:
  assumes "appendsOnly Q f" and "appendsOnly Q g"
  shows "appendsOnly Q (\<lambda>st. g (f st))"
  unfolding appendsOnly_def
proof
  fix st
  obtain es where es: "emissiveEmitterLights (f st) = emissiveEmitterLights st @ es" "list_all Q es"
    using assms(1) unfolding appendsOnly_def by blast
  obtain es' where es': "emissiveEmitterLights (g (f st)) = emissiveEmitterLights (f st) @ es'" "list_all Q es'"
    using assms(2) unfolding appendsOnly_def by blast
  have "emissiveEmitterLights (g (f st)) = emissiveEmitterLights st @ (es @ es')"
    using es es' by simp
  moreover have "list_all Q (es @ es')" using es es' by simp
  ultimately show "\<exists>es. emissiveEmitterLights (g (f st)) = emissiveEmitterLights st @ es \<and> list_all Q es"
    by blast
qed

lemma appendsOnly_fold:
  assumes "\<And>x. x \<in> set xs \<Longrightarrow> appendsOnly Q (f x)"
  shows "appendsOnly Q (fold f xs)"
  using assms
proof (induction xs)
  case Nil
  then show ?case by (simp add: appendsOnly_def)
next
  case (Cons x xs)
  have "appendsOnly Q (\<lambda>st. fold f xs (f x st))"
    by (rule appendsOnly_comp) (simp_all add: Cons)
  then show ?case by (simp add: comp_def)
qed

lemma appendsOnly_result:
  assumes "appendsOnly Q f" and "list_all Q (emissiveEmitterLights st)"
  shows "list_all Q (emissiveEmitterLights (f st))"
proof -
  obtain es where "emissiveEmitterLights (f st) = emissiveEmitterLights st @ es" "list_all Q es"
    using assms(1) unfolding appendsOnly_def by blast
  with assms(2) show ?thesis by simp
qed

lemma appendsOnly_mono:
  assumes "appendsOnly Q f" and "\<And>e. Q e \<Longrightarrow> R e"
  shows "appendsOnly R f"
  using assms unfolding appendsOnly_def list_all_iff by metis

text \<open>What each constructor appends.\<close>

lemma addEdgeSegment_appends:
  "appendsOnly (\<lambda>e. layerType e = EdgeLed \<and> lightType (light e) = SpotLight
                     \<and> followSourceVisibility e = follow \<and> sourceObject e = src
                     \<and> baseIntensity e * real n \<ge> edgeMinIntensity md * (if n = 0 then 0 else 1))
     (addEdgeSegment md gY src ph follow n sh sp i)"
  unfolding appendsOnly_def
  by (simp add: addEdgeSegment_def Let_def)


lemma normalizedSegmentCountOf_pos: "0 < normalizedSegmentCountOf sc fr"
  by (auto simp: normalizedSegmentCountOf_def normalizedFractionsOf_def split: option.splits)

lemma addEdgeEmitterRig_appends:
  "appendsOnly (\<lambda>e. layerType e = EdgeLed \<and> lightType (light e) = SpotLight
                     \<and> followSourceVisibility e = follow \<and> sourceObject e = src
                     \<and> baseIntensity e * real (normalizedSegmentCountOf sc fr) \<ge> edgeMinIntensity md)
     (addEdgeEmitterRig md gY a b src ph follow sc fr)"
proof -
  let ?n = "normalizedSegmentCountOf sc fr"
  let ?Q = "\<lambda>e. layerType e = EdgeLed \<and> lightType (light e) = SpotLight
                     \<and> followSourceVisibility e = follow \<and> sourceObject e = src
                     \<and> baseIntensity e * real ?n \<ge> edgeMinIntensity md"
  have seg: "appendsOnly ?Q (addEdgeSegment md gY src ph follow ?n sh sp i)" for sh sp i
    using normalizedSegmentCountOf_pos [of sc fr]
    by (intro appendsOnly_mono [OF addEdgeSegment_appends [where follow = follow and src = src
          and n = ?n and md = md and gY = gY and ph = ph and sh = sh and sp = sp and i = i]]) auto
  have cnt: "appendsOnly ?Q (\<lambda>st. st\<lparr>edgeRigCount := edgeRigCount st + 1\<rparr>)"
    by (simp add: appendsOnly_def)
  have "appendsOnly ?Q (\<lambda>st. fold (addEdgeSegment md gY src ph follow ?n sh sp) [0..<?n]
                               (st\<lparr>edgeRigCount := edgeRigCount st + 1\<rparr>))" for sh sp
    by (rule appendsOnly_comp [OF cnt]) (rule appendsOnly_fold, rule seg)
  then show ?thesis
    unfolding addEdgeEmitterRig_def Let_def .
qed

lemma addBaseEmitter_appends:
  "appendsOnly (\<lambda>e. layerType e = BaseLights \<and> lightType (light e) = SpotLight
                     \<and> followSourceVisibility e \<and> baseIntensity e \<ge> baseMinIntensity md)
     (addBaseEmitter md gY p src ph)"
  unfolding appendsOnly_def
  by (simp add: addBaseEmitter_def Let_def)

lemma addWashEmitter_appends:
  "appendsOnly (\<lambda>e. layerType e = WashLights \<and> lightType (light e) = PointLight
                     \<and> followSourceVisibility e \<and> baseIntensity e = washBaseIntensity)
     (addWashEmitter md p src ph)"
  unfolding appendsOnly_def
  by (simp add: addWashEmitter_def Let_def)

lemma fallback_segments: "normalizedSegmentCountOf fallbackEdgeLineSegmentCount None = 3"
  by (simp add: normalizedSegmentCountOf_def normalizedFractionsOf_def fallbackEdgeLineSegmentCount_def js_round_def)

lemma guide_segments: "normalizedSegmentCountOf guideEdgeLineSegmentCount (Some guideEdgeLightFractions) = 2"
  by (simp add: normalizedSegmentCountOf_def normalizedFractionsOf_def guideEdgeLightFractions_def)

lemma addFallbackRig_appends:
  "appendsOnly (\<lambda>e. layerType e = EdgeLed \<and> lightType (light e) = SpotLight
                     \<and> followSourceVisibility e \<and> sourceObject e = candidateSource c
                     \<and> baseIntensity e * 3 \<ge> edgeMinIntensity md)
     (addFallbackRig md gY c)"
  using addEdgeEmitterRig_appends [where follow = True and src = "candidateSource c"
          and sc = fallbackEdgeLineSegmentCount and fr = None and md = md and gY = gY]
  unfolding addFallbackRig_def Let_def fallback_segments
  by simp

lemma addGuideRig_appends:
  "appendsOnly (\<lambda>e. layerType e = EdgeLed \<and> lightType (light e) = SpotLight
                     \<and> \<not> followSourceVisibility e \<and> sourceObject e = guideSourceObject g
                     \<and> baseIntensity e * 2 \<ge> edgeMinIntensity md)
     (addGuideRig md gY g)"
  using addEdgeEmitterRig_appends [where follow = False and src = "guideSourceObject g"
          and sc = guideEdgeLineSegmentCount and fr = "Some guideEdgeLightFractions"
          and md = md and gY = gY]
  unfolding addGuideRig_def guide_segments
  by simp


lemma downsampleEvenly_zero: "downsampleEvenly xs maxBaseEmitters = []"
  by (simp add: downsampleEvenly_def maxBaseEmitters_def)

lemma synthesizeEmitters_shape:
  "list_all (synthesizedShape md) (emissiveEmitterLights (synthesizeEmitters md bmy cg))"
proof -
  let ?Q = "synthesizedShape md"
  have guide: "appendsOnly ?Q (addGuideRig md gY g)" for gY g
    by (rule appendsOnly_mono [OF addGuideRig_appends]) (simp add: synthesizedShape_def)
  have fallback: "appendsOnly ?Q (addFallbackRig md gY c)" for gY c
    by (rule appendsOnly_mono [OF addFallbackRig_appends]) (simp add: synthesizedShape_def)
  have wash: "appendsOnly ?Q (addWashEmitter md p src ph)" for p src ph
    by (rule appendsOnly_mono [OF addWashEmitter_appends]) (simp add: synthesizedShape_def)
  let ?fw = "\<lambda>candidate. addWashEmitter md (washPoint candidate)
                   (case washSource candidate of Some src \<Rightarrow> src | None \<Rightarrow> DummySource)
                   (washPhase candidate)"
  have washes: "appendsOnly ?Q (fold ?fw ws)" for ws
    by (rule appendsOnly_fold) (rule wash)
  let ?st0 = "\<lparr>emissiveEmitterLights = [], edgeShadowCasterCount = 0,
                 baseShadowCasterCount = 0, edgeRigCount = 0\<rparr>"
  have st0: "list_all ?Q (emissiveEmitterLights ?st0)" by simp
  have g: "list_all ?Q (emissiveEmitterLights (fold ?fw ws (fold (addGuideRig md gY) gs ?st0)))"
    for ws gY gs
    by (intro appendsOnly_result [OF washes] appendsOnly_result [OF appendsOnly_fold] guide st0)
  have f: "list_all ?Q (emissiveEmitterLights (fold ?fw ws (fold (addFallbackRig md gY) cs ?st0)))"
    for ws gY cs
    by (intro appendsOnly_result [OF washes] appendsOnly_result [OF appendsOnly_fold] fallback st0)
  show ?thesis
    unfolding synthesizeEmitters_def Let_def downsampleEvenly_zero fold_simps
    by (simp add: g f)
qed

section \<open>The example scene, evaluated\<close>

lemma ex_guides: "edgeGuideRigsOf [] [exampleGuide]
   = [\<lparr>guideStart = Vector3 0 10 0, guideEnd = Vector3 30 10 0,
        guideSourceObject = ModelObject 7, guidePhase = 0\<rparr>]"
  by (simp add: edgeGuideRigsOf_def exampleGuide_def getLineWorldPoints_def getFarthestPointPair_def
      indexPairs_def Let_def distanceToSquared_def lerp_def getNearestUvPhase_def enumerate_eq_zip)

lemma downsampleEvenly_Nil: "downsampleEvenly [] n = []"
  by (simp add: downsampleEvenly_def)

lemma upt_0_2: "[0..<2] = [0, Suc 0]"
  by (simp add: upt_rec)

lemma ex_len: "length (emissiveEmitterLights (synthesizeEmitters 100 0 exampleGeometry)) = 3"
  by (simp add: synthesizeEmitters_def Let_def exampleGeometry_def edgeUvSamplesOf_def
      downsampleEvenly_zero ex_guides downsampleEvenly_Nil washCandidatesOf_def getNearestUvPhase_def
      addWashEmitter_def addGuideRig_def addEdgeEmitterRig_def guide_segments addEdgeSegment_def
      enumerate_eq_zip upt_0_2)


lemma updateEmitterLight_keeps:
  "layerType (updateEmitterLight vis eff t sp gi e) = layerType e"
  "lightType (light (updateEmitterLight vis eff t sp gi e)) = lightType (light e)"
  "baseIntensity (updateEmitterLight vis eff t sp gi e) = baseIntensity e"
  "followSourceVisibility (updateEmitterLight vis eff t sp gi e) = followSourceVisibility e"
  "sourceObject (updateEmitterLight vis eff t sp gi e) = sourceObject e"
  "phase (updateEmitterLight vis eff t sp gi e) = phase e"
  by (simp_all add: updateEmitterLight_def setEmitterVisible_def Let_def split: prod.splits)

lemma loadCallback_emitters:
  "emitterLights (loadCallback inp s)
   = map (\<lambda>emitter. updateEmitterLight (initialVisible inp) (groupEffect s emitter) (initialTime inp)
                        (effectSpeedRef s) (groupIntensity s emitter) emitter)
       (emissiveEmitterLights
          (synthesizeEmitters (maxDim inp) (boxMinY inp) (accGeometry (classifyScene inp))))"
  by (simp add: loadCallback_def Let_def)

lemma layerNameToIndex_example:
  "layerNameToIndex [''Edge LED'', ''Base Lights'', ''Wash Lights'', ''Emitters'']
   = [''Edge LED'' \<mapsto> 0, ''Base Lights'' \<mapsto> 1, ''Wash Lights'' \<mapsto> 2, ''Emitters'' \<mapsto> 3]"
  by (simp add: layerNameToIndex_def enumerate_eq_zip upt_rec numeral_2_eq_2 numeral_3_eq_3)


lemma classifyScene_example_geometry: "accGeometry (classifyScene exampleLoad) = exampleGeometry"
  by (simp add: classifyScene_def exampleLoad_def layerNameToIndex_example classifyMesh_def Let_def
      linearEmissiveLayerIndices_def LINEAR_EMISSIVE_LAYER_NAMES_def EDGE_LED_LAYER_NAME_def
      BASE_LIGHTS_LAYER_NAME_def WASH_LIGHTS_LAYER_NAME_def FACE_LAYER_NAME_def
      EMITTER_GUIDES_LAYER_NAME_def SEMI_GLOSS_LAYER_NAME_def SOD_LAYER_NAME_def PEOPLE_LAYER_NAME_def
      exampleGeometry_def)

lemma distanceTo_vertical: "distanceTo (Vector3 a b c) (Vector3 a d c) = \<bar>b - d\<bar>"
  by (simp add: distanceTo_def distanceToSquared_def)

lemma example_segmentPositions:
  "segmentPositionsOf 100 (Vector3 0 10 0) (Vector3 30 10 0) guideEdgeLineSegmentCount
     (Some guideEdgeLightFractions)
   = [Vector3 10 10 0, Vector3 20 10 0]"
  by (simp add: segmentPositionsOf_def normalizedFractionsOf_def guideEdgeLightFractions_def
      clamp_def lerp_def Let_def)

lemma example_emitters:
  "emissiveEmitterLights (synthesizeEmitters 100 0 exampleGeometry)
   = [exampleEdgeEmitter 10 0 False, exampleEdgeEmitter 20 (1 / 12) True, exampleWashEmitter]"
  by (simp add: synthesizeEmitters_def Let_def exampleGeometry_def edgeUvSamplesOf_def
      downsampleEvenly_zero ex_guides downsampleEvenly_Nil washCandidatesOf_def getNearestUvPhase_def
      addWashEmitter_def addGuideRig_def addEdgeEmitterRig_def guide_segments addEdgeSegment_def
      enumerate_eq_zip upt_0_2 example_segmentPositions distanceTo_vertical groundY_def
      edgeThrowPadding_def throwExtensionScale_def edgeTargetGroundLux_def edgeMinIntensity_def
      maxShadowCastingEdgeEmitters_def js_round_def js_mod_def js_trunc_def washBaseIntensity_def
      washEmitterDistance_def exampleEdgeEmitter_def exampleWashEmitter_def)

section \<open>Switching the linear group off\<close>

lemma restoreOriginalMaterials_apply:
  "restoreOriginalMaterials meshes originals materials m
   = (if m \<in> set meshes
      then (case originals m of Some original \<Rightarrow> original | None \<Rightarrow> materials m)
      else materials m)"
  unfolding restoreOriginalMaterials_def
proof (induction meshes arbitrary: materials)
  case Nil
  then show ?case by simp
next
  case (Cons a meshes)
  show ?case
    by (cases "originals a"; cases "originals m") (auto simp: Cons)
qed

lemma classifyMesh_stored:
  assumes "accStored acc"
  shows "accStored (classifyMesh n2i g sp mesh li acc)"
proof -
  have "(case (if mesh' = objectId mesh then Some (PoweredDownClone x) else accOriginalMaterials acc mesh') of
           Some (PoweredDownClone m) \<Rightarrow> True | _ \<Rightarrow> False)"
    if "case accOriginalMaterials acc mesh' of Some (PoweredDownClone m) \<Rightarrow> True | _ \<Rightarrow> False"
    for mesh' x
    using that by simp
  then show ?thesis
    using assms
    by (simp add: accStored_def classifyMesh_def Let_def list_all_iff)
qed

lemma classifyChild_stored:
  assumes "accStored acc"
  shows "accStored (classifyChild n2i g sp child acc)"
proof (cases child)
  case (MeshChild mesh li)
  then show ?thesis using classifyMesh_stored [OF assms] by simp
next
  case (LineChild l li)
  then show ?thesis using assms by (simp add: accStored_def)
next
  case (PointsChild n ps li)
  then show ?thesis using assms by (cases ps) (simp_all add: accStored_def)
next
  case (OtherChild n li)
  then show ?thesis using assms by simp
qed

lemma fold_classifyChild_stored:
  "accStored acc \<Longrightarrow> accStored (fold (classifyChild n2i g sp) cs acc)"
  by (induction cs arbitrary: acc) (simp_all add: classifyChild_stored)

lemma classifyScene_stored: "accStored (classifyScene inp)"
  unfolding classifyScene_def
  by (rule fold_classifyChild_stored) (simp add: accStored_def)

lemma loadCallback_registry:
  "emissiveMeshes (loadCallback inp s) = accEmissiveMeshes (classifyScene inp)"
  "originalMaterials (loadCallback inp s) = accOriginalMaterials (classifyScene inp)"
  by (simp_all add: loadCallback_def Let_def)

lemma hooks_keep_registry:
  "emissiveMeshes (linearEffectHook eff g t s) = emissiveMeshes s"
  "originalMaterials (linearEffectHook eff g t s) = originalMaterials s"
  "emissiveMeshes (washEffectHook eff t s) = emissiveMeshes s"
  "originalMaterials (washEffectHook eff t s) = originalMaterials s"
  "emissiveMeshes (layersHook ls s) = emissiveMeshes s"
  "originalMaterials (layersHook ls s) = originalMaterials s"
  "emissiveMeshes (animateFrame t s) = emissiveMeshes s"
  "originalMaterials (animateFrame t s) = originalMaterials s"
  "emissiveMeshes (lightSettingsHook st s) = emissiveMeshes s"
  "originalMaterials (lightSettingsHook st s) = originalMaterials s"
  by (simp_all add: linearEffectHook_def washEffectHook_def layersHook_def animateFrame_def
      lightSettingsHook_def Let_def split: option.splits)

lemma reachable_offMaterialsStored: "reachable s \<Longrightarrow> offMaterialsStored s"
proof (induction rule: reachable.induct)
  case (loaded inp linearEff washEff ei wi sp)
  show ?case
    using classifyScene_stored [of inp]
    by (simp add: offMaterialsStored_def accStored_def loadCallback_registry)
qed (simp_all add: offMaterialsStored_def hooks_keep_registry)

lemma updateEmitterLight_Off:
  "lightVisible (light (updateEmitterLight vis Off t sp gi e)) = False"
  "intensity (light (updateEmitterLight vis Off t sp gi e)) = 0"
  "target (updateEmitterLight vis Off t sp gi e) = Some tgt \<Longrightarrow> \<not> targetVisible tgt"
  by (auto simp: updateEmitterLight_def shouldEmitterBeVisible_def setEmitterVisible_def Let_def)

lemma isLinearEmitter_update:
  "isLinearEmitter (updateEmitterLight vis eff t sp gi e) = isLinearEmitter e"
  by (simp add: isLinearEmitter_def updateEmitterLight_keeps)

lemma linearEffectHook_emitters:
  "emitterLights (linearEffectHook eff g t s)
   = map (\<lambda>emitter. if isLinearEmitter emitter
                      then updateEmitterLight (objectVisible s) eff t (effectSpeedRef s)
                             (emitterIntensityRef s) emitter
                      else emitter)
       (emitterLights s)"
  by (simp add: linearEffectHook_def Let_def isLinearEmitter_def)

lemma linearEffectHook_inactive_materials:
  assumes "eff = Off \<or> g \<le> 1 / 10000"
  shows "meshMaterial (linearEffectHook eff g t s)
         = restoreOriginalMaterials (emissiveMeshes s) (originalMaterials s) (meshMaterial s)"
    and "shaderMaterials (linearEffectHook eff g t s) = shaderMaterials s"
  using assms by (auto simp: linearEffectHook_def Let_def)

lemma linearEffectHook_effect:
  "activeLightEffect (linearEffectHook eff g t s) = eff"
  "objectVisible (linearEffectHook eff g t s) = objectVisible s"
  by (simp_all add: linearEffectHook_def Let_def)

lemma animateFrame_emitters:
  "emitterLights (animateFrame t s)
   = map (\<lambda>emitter. updateEmitterLight (objectVisible s) (groupEffect s emitter) t
                        (effectSpeedRef s) (groupIntensity s emitter) emitter)
       (emitterLights s)"
  by (simp add: animateFrame_def)

lemma groupEffect_linear: "isLinearEmitter e \<Longrightarrow> groupEffect s e = activeLightEffect s"
  by (auto simp: groupEffect_def isLinearEmitter_def)

lemma restored_material:
  assumes "offMaterialsStored s" and "mesh \<in> set (emissiveMeshes s)"
  shows "\<exists>m. originalMaterials s mesh = Some (PoweredDownClone m)
           \<and> restoreOriginalMaterials (emissiveMeshes s) (originalMaterials s) mats mesh
             = PoweredDownClone m"
proof -
  from assms have "case originalMaterials s mesh of Some (PoweredDownClone m) \<Rightarrow> True | _ \<Rightarrow> False"
    by (simp add: offMaterialsStored_def list_all_iff)
  then obtain m where "originalMaterials s mesh = Some (PoweredDownClone m)"
    by (auto split: option.splits MaterialRef.splits)
  then show ?thesis
    using assms(2) by (simp add: restoreOriginalMaterials_apply)
qed

text \<open>
  Claim C3. In any state the viewer can reach after the model has loaded, setting the
  linear effect to \<open>off\<close> leaves every mesh of the linear group (Edge LED and Base
  Lights) with the powered-down clone stored for it as its material, and every edge-led
  and base-lights emitter with an invisible light and target and intensity 0; the next
  pass of the animation loop keeps it so. The hook sets the intensity to 0 on the
  invisible branch; \<open>evaluateEmitterEffect\<close> for \<open>off\<close> returns 0 as well, at every time,
  phase and speed.
\<close>

theorem linear_off_restores:
  assumes "reachable s"
  shows "(\<forall>mesh \<in> set (emissiveMeshes (linearEffectHook Off g t s)).
            originalMaterials (linearEffectHook Off g t s) mesh
              = Some (meshMaterial (linearEffectHook Off g t s) mesh)
            \<and> (\<exists>m. meshMaterial (linearEffectHook Off g t s) mesh = PoweredDownClone m))
       \<and> (\<forall>e \<in> set (emitterLights (linearEffectHook Off g t s)).
            isLinearEmitter e \<longrightarrow>
              \<not> lightVisible (light e) \<and> intensity (light e) = 0
              \<and> (\<forall>tgt. target e = Some tgt \<longrightarrow> \<not> targetVisible tgt))
       \<and> (\<forall>e \<in> set (emitterLights (animateFrame t' (linearEffectHook Off g t s))).
            isLinearEmitter e \<longrightarrow> \<not> lightVisible (light e) \<and> intensity (light e) = 0)
       \<and> snd (evaluateEmitterEffect Off t2 ph sp) = 0"
proof -
  let ?s' = "linearEffectHook Off g t s"
  have stored: "offMaterialsStored s" using assms by (rule reachable_offMaterialsStored)
  have mats: "originalMaterials ?s' mesh = Some (meshMaterial ?s' mesh)
              \<and> (\<exists>m. meshMaterial ?s' mesh = PoweredDownClone m)"
    if "mesh \<in> set (emissiveMeshes ?s')" for mesh
  proof -
    from that have "mesh \<in> set (emissiveMeshes s)" by (simp add: hooks_keep_registry)
    from restored_material [OF stored this, of "meshMaterial s"]
    show ?thesis by (auto simp: hooks_keep_registry linearEffectHook_inactive_materials)
  qed
  have ems: "\<not> lightVisible (light e) \<and> intensity (light e) = 0
              \<and> (\<forall>tgt. target e = Some tgt \<longrightarrow> \<not> targetVisible tgt)"
    if "e \<in> set (emitterLights ?s')" "isLinearEmitter e" for e
  proof -
    from that(1) obtain e0 where e0: "e0 \<in> set (emitterLights s)"
      "e = (if isLinearEmitter e0
            then updateEmitterLight (objectVisible s) Off t (effectSpeedRef s) (emitterIntensityRef s) e0
            else e0)"
      unfolding linearEffectHook_emitters by auto
    with that(2) have "isLinearEmitter e0" by (auto simp: isLinearEmitter_update split: if_splits)
    with e0(2) have "e = updateEmitterLight (objectVisible s) Off t (effectSpeedRef s) (emitterIntensityRef s) e0"
      by simp
    then show ?thesis using updateEmitterLight_Off by blast
  qed
  have frame: "\<not> lightVisible (light e) \<and> intensity (light e) = 0"
    if "e \<in> set (emitterLights (animateFrame t' ?s'))" "isLinearEmitter e" for e
  proof -
    from that(1) obtain e0 where e0:
      "e = updateEmitterLight (objectVisible ?s') (groupEffect ?s' e0) t' (effectSpeedRef ?s')
             (groupIntensity ?s' e0) e0"
      unfolding animateFrame_emitters by auto
    with that(2) have "isLinearEmitter e0" by (simp add: isLinearEmitter_update)
    then have "groupEffect ?s' e0 = Off"
      by (simp add: groupEffect_linear linearEffectHook_effect)
    with e0 show ?thesis by (simp add: updateEmitterLight_Off)
  qed
  have "snd (evaluateEmitterEffect Off t2 ph sp) = 0" by simp
  with mats ems frame show ?thesis by blast
qed


lemma classifyScene_example:
  "classifyScene exampleLoad
   = \<lparr>accMaterial = ImportedMaterial, accEmissiveMeshes = [1],
      accShaderMaterials = [\<lparr>uTime = 0, uColor = Hex 0xF7B5CD, uIntensity = 3 / 2, uSpeed = 1,
                              uEffectType = 0\<rparr>],
      accOriginalMaterials = [1 \<mapsto> PoweredDownClone (ImportedMaterial 1)],
      accWashMeshes = [], accWashShaderMaterials = [], accWashOriginalMaterials = Map.empty,
      accGeometry = exampleGeometry\<rparr>"
  by (simp add: classifyScene_def exampleLoad_def layerNameToIndex_example classifyMesh_def Let_def
      linearEmissiveLayerIndices_def LINEAR_EMISSIVE_LAYER_NAMES_def EDGE_LED_LAYER_NAME_def
      BASE_LIGHTS_LAYER_NAME_def WASH_LIGHTS_LAYER_NAME_def FACE_LAYER_NAME_def
      EMITTER_GUIDES_LAYER_NAME_def SEMI_GLOSS_LAYER_NAME_def SOD_LAYER_NAME_def PEOPLE_LAYER_NAME_def
      exampleGeometry_def exampleMesh_def)

lemma exampleLoad_fields:
  "initialVisible exampleLoad = (\<lambda>_. True)"
  "maxDim exampleLoad = 100"
  "boxMinY exampleLoad = 0"
  "edgeGlowIntensitySetting exampleLoad = 3 / 2"
  "initialTime exampleLoad = 0"
  by (simp_all add: exampleLoad_def)

lemma exampleViewer_registry:
  "emissiveMeshes exampleViewer = [1]"
  "originalMaterials exampleViewer = [1 \<mapsto> PoweredDownClone (ImportedMaterial 1)]"
  "meshMaterial exampleViewer 1 = PoweredDownClone (ImportedMaterial 1)"
  "length (shaderMaterials exampleViewer) = 1"
  "activeLightEffect exampleViewer = Off"
  "activeWashLightEffect exampleViewer = Off"
  "effectSpeedRef exampleViewer = 1"
  "emitterIntensityRef exampleViewer = 17 / 10"
  "washIntensityRef exampleViewer = 1"
  "objectVisible exampleViewer = (\<lambda>_. True)"
  by (simp_all add: exampleViewer_def loadCallback_def Let_def classifyScene_example mountedViewer_def
      restoreOriginalMaterials_def exampleLoad_fields)

lemma exampleViewer_emitters:
  "emitterLights exampleViewer
   = map (\<lambda>e. e\<lparr>light := (light e)\<lparr>lightVisible := False, intensity := 0\<rparr>,
                 target := map_option (\<lambda>tgt. tgt\<lparr>targetVisible := False\<rparr>) (target e)\<rparr>)
       [exampleEdgeEmitter 10 0 False, exampleEdgeEmitter 20 (1 / 12) True, exampleWashEmitter]"
  unfolding exampleViewer_def loadCallback_emitters classifyScene_example
  by (simp add: exampleLoad_fields example_emitters updateEmitterLight_def groupEffect_def
      mountedViewer_def shouldEmitterBeVisible_def setEmitterVisible_def Let_def)


lemma reachable_examples: "reachable exampleViewer" "reachable examplePulsing"
  unfolding examplePulsing_def exampleViewer_def
  by (intro reachable.intros)+

lemma examplePulsing_fields:
  "activeLightEffect examplePulsing = PinkPulse"
  "emissiveMeshes examplePulsing = [1]"
  "meshMaterial examplePulsing 1 = LinearShader 0"
  by (simp_all add: examplePulsing_def linearEffectHook_def Let_def exampleViewer_registry
      applyShaderMaterials_def enumerate_eq_zip)

lemma examplePulsing_emitters:
  "emitterLights examplePulsing
   = [(exampleEdgeEmitter 10 0 False)
        \<lparr>light := (light (exampleEdgeEmitter 10 0 False))\<lparr>intensity := 5525 / 4\<rparr>\<rparr>,
      (exampleEdgeEmitter 20 (1 / 12) True)
        \<lparr>light := (light (exampleEdgeEmitter 20 (1 / 12) True))\<lparr>intensity := 5525 / 4\<rparr>\<rparr>,
      exampleWashEmitter\<lparr>light := (light exampleWashEmitter)\<lparr>lightVisible := False, intensity := 0\<rparr>\<rparr>]"
  unfolding examplePulsing_def linearEffectHook_emitters exampleViewer_emitters
  by (simp add: exampleViewer_registry isLinearEmitter_def exampleEdgeEmitter_def exampleWashEmitter_def
      updateEmitterLight_def shouldEmitterBeVisible_def setEmitterVisible_def Let_def setHex_def)

text \<open>
  The example scene with pink pulse running: its Base Lights mesh wears the shader and
  the two edge emitters are lit at 1381.25. After \<open>off\<close> the mesh has its powered-down
  clone back and both emitters are dark, also after the next frame.
\<close>

theorem linear_off_restores_witness:
  "reachable examplePulsing
   \<and> activeLightEffect examplePulsing = PinkPulse
   \<and> emissiveMeshes (linearEffectHook Off (3 / 2) 1 examplePulsing) = [1]
   \<and> meshMaterial examplePulsing 1 = LinearShader 0
   \<and> meshMaterial (linearEffectHook Off (3 / 2) 1 examplePulsing) 1 = PoweredDownClone (ImportedMaterial 1)
   \<and> originalMaterials (linearEffectHook Off (3 / 2) 1 examplePulsing) 1
       = Some (meshMaterial (linearEffectHook Off (3 / 2) 1 examplePulsing) 1)
   \<and> isLinearEmitter (emitterLights (linearEffectHook Off (3 / 2) 1 examplePulsing) ! 0)
   \<and> lightVisible (light (emitterLights examplePulsing ! 0))
   \<and> intensity (light (emitterLights examplePulsing ! 0)) = 5525 / 4
   \<and> \<not> lightVisible (light (emitterLights (linearEffectHook Off (3 / 2) 1 examplePulsing) ! 0))
   \<and> intensity (light (emitterLights (linearEffectHook Off (3 / 2) 1 examplePulsing) ! 0)) = 0
   \<and> \<not> lightVisible (light (emitterLights
           (animateFrame 2 (linearEffectHook Off (3 / 2) 1 examplePulsing)) ! 0))
   \<and> intensity (light (emitterLights
           (animateFrame 2 (linearEffectHook Off (3 / 2) 1 examplePulsing)) ! 0)) = 0"
proof -
  let ?off = "linearEffectHook Off (3 / 2) 1 examplePulsing"
  have m: "emissiveMeshes ?off = [1]"
    by (simp add: hooks_keep_registry examplePulsing_fields)
  have o: "originalMaterials ?off = [1 \<mapsto> PoweredDownClone (ImportedMaterial 1)]"
    by (simp add: hooks_keep_registry examplePulsing_def exampleViewer_registry)
  have len: "length (emitterLights ?off) = 3" "length (emitterLights (animateFrame 2 ?off)) = 3"
    unfolding animateFrame_emitters linearEffectHook_emitters examplePulsing_emitters by simp_all
  have lin: "isLinearEmitter (emitterLights ?off ! 0)"
    "isLinearEmitter (emitterLights (animateFrame 2 ?off) ! 0)"
    unfolding animateFrame_emitters linearEffectHook_emitters examplePulsing_emitters
    by (simp_all add: isLinearEmitter_def updateEmitterLight_keeps exampleEdgeEmitter_def)
  have mem: "emitterLights ?off ! 0 \<in> set (emitterLights ?off)"
    "emitterLights (animateFrame 2 ?off) ! 0 \<in> set (emitterLights (animateFrame 2 ?off))"
    using len by (simp_all only: nth_mem zero_less_numeral)
  have before: "lightVisible (light (emitterLights examplePulsing ! 0))"
    "intensity (light (emitterLights examplePulsing ! 0)) = 5525 / 4"
    unfolding examplePulsing_emitters by (simp_all add: exampleEdgeEmitter_def)
  from linear_off_restores [OF reachable_examples(2), of "3 / 2" 1 2 0 0 1]
  have mats: "\<forall>mesh \<in> set (emissiveMeshes ?off).
            originalMaterials ?off mesh = Some (meshMaterial ?off mesh)
            \<and> (\<exists>m. meshMaterial ?off mesh = PoweredDownClone m)"
    and ems: "\<forall>e \<in> set (emitterLights ?off).
            isLinearEmitter e \<longrightarrow>
              \<not> lightVisible (light e) \<and> intensity (light e) = 0
              \<and> (\<forall>tgt. target e = Some tgt \<longrightarrow> \<not> targetVisible tgt)"
    and frame: "\<forall>e \<in> set (emitterLights (animateFrame 2 ?off)).
            isLinearEmitter e \<longrightarrow> \<not> lightVisible (light e) \<and> intensity (light e) = 0"
    by blast+
  from mats m have m1: "originalMaterials ?off 1 = Some (meshMaterial ?off 1)" by simp
  with o have m2: "meshMaterial ?off 1 = PoweredDownClone (ImportedMaterial 1)" by simp
  from ems mem(1) lin(1) have e1: "\<not> lightVisible (light (emitterLights ?off ! 0))"
    "intensity (light (emitterLights ?off ! 0)) = 0" by blast+
  from frame mem(2) lin(2) have e2: "\<not> lightVisible (light (emitterLights (animateFrame 2 ?off) ! 0))"
    "intensity (light (emitterLights (animateFrame 2 ?off) ! 0)) = 0" by blast+
  from m m1 m2 lin(1) before e1 e2 reachable_examples(2) examplePulsing_fields
  show ?thesis by simp
qed

section \<open>A glow intensity near zero\<close>

lemma updateEmitterLight_visible:
  "lightVisible (light (updateEmitterLight vis eff t sp gi e)) = shouldEmitterBeVisible vis e eff"
  "intensity (light (updateEmitterLight vis eff t sp gi e))
   = (if shouldEmitterBeVisible vis e eff
      then baseIntensity e * snd (evaluateEmitterEffect eff t (phase e) sp) * gi else 0)"
  by (simp_all add: updateEmitterLight_def setEmitterVisible_def Let_def split: prod.splits)

text \<open>
  Claim C5 as stated fails on the emitters. In the example scene with glow intensity 0,
  selecting pink glow and selecting \<open>off\<close> leave the mesh material the same (the
  powered-down clone), but the first edge emitter is visible at intensity 2125 under pink
  glow and invisible at intensity 0 under \<open>off\<close>.
\<close>

theorem near_zero_glow_counterexample:
  "(0::real) \<le> 0.0001
   \<and> layerType (emitterLights exampleViewer ! 0) = EdgeLed
   \<and> meshMaterial (linearEffectHook PinkGlow 0 1 exampleViewer) 1 = PoweredDownClone (ImportedMaterial 1)
   \<and> meshMaterial (linearEffectHook Off 0 1 exampleViewer) 1 = PoweredDownClone (ImportedMaterial 1)
   \<and> lightVisible (light (emitterLights (linearEffectHook PinkGlow 0 1 exampleViewer) ! 0))
   \<and> intensity (light (emitterLights (linearEffectHook PinkGlow 0 1 exampleViewer) ! 0)) = 2125
   \<and> \<not> lightVisible (light (emitterLights (linearEffectHook Off 0 1 exampleViewer) ! 0))
   \<and> intensity (light (emitterLights (linearEffectHook Off 0 1 exampleViewer) ! 0)) = 0"
  unfolding linearEffectHook_emitters exampleViewer_emitters
  by (simp add: linearEffectHook_inactive_materials restoreOriginalMaterials_apply exampleViewer_registry
      isLinearEmitter_def exampleEdgeEmitter_def updateEmitterLight_visible shouldEmitterBeVisible_def)

text \<open>
  Claim C5, amended. With the glow intensity at or below 0.0001 the hook treats the
  meshes and shaders of the linear group as \<open>off\<close> does, whatever effect is selected:
  every mesh gets its stored powered-down clone and the shader uniforms are left alone.
  The emitter lights of the linear group do not depend on the glow intensity: each is
  visible as \<open>shouldEmitterBeVisible\<close> says for the selected effect, with intensity
  \<open>baseIntensity * multiplier * emitterIntensity\<close> when visible and 0 when not.
\<close>

theorem near_zero_glow_reverts_materials:
  assumes "reachable s" and "g \<le> 1 / 10000"
  shows "meshMaterial (linearEffectHook eff g t s) = meshMaterial (linearEffectHook Off g0 t s)
       \<and> shaderMaterials (linearEffectHook eff g t s) = shaderMaterials (linearEffectHook Off g0 t s)
       \<and> (\<forall>mesh \<in> set (emissiveMeshes (linearEffectHook eff g t s)).
             originalMaterials (linearEffectHook eff g t s) mesh
               = Some (meshMaterial (linearEffectHook eff g t s) mesh)
             \<and> (\<exists>m. meshMaterial (linearEffectHook eff g t s) mesh = PoweredDownClone m))
       \<and> length (emitterLights (linearEffectHook eff g t s)) = length (emitterLights s)
       \<and> (\<forall>i < length (emitterLights s).
             isLinearEmitter (emitterLights s ! i) \<longrightarrow>
               lightVisible (light (emitterLights (linearEffectHook eff g t s) ! i))
                 = shouldEmitterBeVisible (objectVisible s) (emitterLights s ! i) eff
               \<and> intensity (light (emitterLights (linearEffectHook eff g t s) ! i))
                 = (if shouldEmitterBeVisible (objectVisible s) (emitterLights s ! i) eff
                    then baseIntensity (emitterLights s ! i)
                         * snd (evaluateEmitterEffect eff t (phase (emitterLights s ! i)) (effectSpeedRef s))
                         * emitterIntensityRef s
                    else 0))"
proof -
  let ?s' = "linearEffectHook eff g t s"
  have stored: "offMaterialsStored s" using assms(1) by (rule reachable_offMaterialsStored)
  have m: "meshMaterial ?s' = restoreOriginalMaterials (emissiveMeshes s) (originalMaterials s) (meshMaterial s)"
    using assms(2) by (simp add: linearEffectHook_inactive_materials)
  have m0: "meshMaterial (linearEffectHook Off g0 t s)
            = restoreOriginalMaterials (emissiveMeshes s) (originalMaterials s) (meshMaterial s)"
    by (simp add: linearEffectHook_inactive_materials)
  have sh: "shaderMaterials ?s' = shaderMaterials (linearEffectHook Off g0 t s)"
    using assms(2) by (simp add: linearEffectHook_inactive_materials)
  have mats: "originalMaterials ?s' mesh = Some (meshMaterial ?s' mesh)
              \<and> (\<exists>m. meshMaterial ?s' mesh = PoweredDownClone m)"
    if "mesh \<in> set (emissiveMeshes ?s')" for mesh
  proof -
    from that have "mesh \<in> set (emissiveMeshes s)" by (simp add: hooks_keep_registry)
    from restored_material [OF stored this, of "meshMaterial s"]
    show ?thesis by (auto simp: hooks_keep_registry m)
  qed
  have ems: "lightVisible (light (emitterLights ?s' ! i))
                 = shouldEmitterBeVisible (objectVisible s) (emitterLights s ! i) eff
               \<and> intensity (light (emitterLights ?s' ! i))
                 = (if shouldEmitterBeVisible (objectVisible s) (emitterLights s ! i) eff
                    then baseIntensity (emitterLights s ! i)
                         * snd (evaluateEmitterEffect eff t (phase (emitterLights s ! i)) (effectSpeedRef s))
                         * emitterIntensityRef s
                    else 0)"
    if "i < length (emitterLights s)" "isLinearEmitter (emitterLights s ! i)" for i
    using that unfolding linearEffectHook_emitters
    by (simp add: updateEmitterLight_visible)
  have len: "length (emitterLights ?s') = length (emitterLights s)"
    by (simp add: linearEffectHook_emitters)
  from m m0 sh mats ems len show ?thesis by simp
qed

text \<open>The example scene, pink glow selected at glow intensity 0.\<close>

theorem near_zero_glow_reverts_materials_witness:
  "reachable exampleViewer \<and> (0::real) \<le> 1 / 10000
   \<and> emissiveMeshes (linearEffectHook PinkGlow 0 1 exampleViewer) = [1]
   \<and> meshMaterial (linearEffectHook PinkGlow 0 1 exampleViewer)
       = meshMaterial (linearEffectHook Off (3 / 2) 1 exampleViewer)
   \<and> length (emitterLights exampleViewer) = 3
   \<and> isLinearEmitter (emitterLights exampleViewer ! 0)
   \<and> shouldEmitterBeVisible (objectVisible exampleViewer) (emitterLights exampleViewer ! 0) PinkGlow
   \<and> lightVisible (light (emitterLights (linearEffectHook PinkGlow 0 1 exampleViewer) ! 0))
   \<and> intensity (light (emitterLights (linearEffectHook PinkGlow 0 1 exampleViewer) ! 0)) = 2125"
proof -
  have a: "length (emitterLights exampleViewer) = 3"
    "isLinearEmitter (emitterLights exampleViewer ! 0)"
    "shouldEmitterBeVisible (objectVisible exampleViewer) (emitterLights exampleViewer ! 0) PinkGlow"
    "baseIntensity (emitterLights exampleViewer ! 0) = 1250"
    unfolding exampleViewer_emitters
    by (simp_all add: isLinearEmitter_def exampleEdgeEmitter_def shouldEmitterBeVisible_def)
  have b: "emissiveMeshes (linearEffectHook PinkGlow 0 1 exampleViewer) = [1]"
    by (simp add: hooks_keep_registry exampleViewer_registry)
  from near_zero_glow_reverts_materials [OF reachable_examples(1), of 0 PinkGlow 1 "3 / 2"] a b
  show ?thesis
    by (simp add: reachable_examples exampleViewer_registry)
qed

section \<open>Visibility of emitters\<close>

lemma animateFrame_visibility:
  assumes "i < length (emitterLights s)"
  shows "lightVisible (light (emitterLights (animateFrame t s) ! i))
         = shouldEmitterBeVisible (objectVisible s) (emitterLights s ! i)
             (groupEffect s (emitterLights s ! i))"
  using assms unfolding animateFrame_emitters by (simp add: updateEmitterLight_visible)

lemma shouldEmitterBeVisible_cases:
  "shouldEmitterBeVisible vis e eff
   = (eff \<noteq> Off \<and> (followSourceVisibility e \<longrightarrow> sourceVisible vis (sourceObject e)))"
  by (simp add: shouldEmitterBeVisible_def)

lemma layersHook_visibility:
  assumes "modelChildren s = Some cs" and "i < length (emitterLights s)"
  shows "lightVisible (light (emitterLights (layersHook ls s) ! i))
         = shouldEmitterBeVisible (applyLayerVisibility ls cs (objectVisible s))
             (emitterLights s ! i) (activeLightEffect s)"
  using assms by (simp add: layersHook_def Let_def setEmitterVisible_def)

text \<open>
  Claim C6 at the layer hook. The animation loop and the effect hooks derive the
  visibility of an emitter from the effect of its own group; the hook on the layer list
  passes the linear effect for every emitter. In the example scene with the linear effect
  \<open>off\<close> and the wash effect blue glow, the wash emitter (which follows its source, a
  visible one) is visible until the layer hook runs and invisible after it, and the next
  frame makes it visible again. With the linear effect pink glow and the wash effect
  \<open>off\<close>, the layer hook makes the light of the wash emitter visible.
\<close>

theorem layersHook_wash_emitter_takes_linear_effect:
  "layerType (emitterLights (washEffectHook BlueGlow 0 exampleViewer) ! 2) = WashLights
   \<and> activeWashLightEffect (washEffectHook BlueGlow 0 exampleViewer) = BlueGlow
   \<and> activeLightEffect (washEffectHook BlueGlow 0 exampleViewer) = Off
   \<and> followSourceVisibility (emitterLights (washEffectHook BlueGlow 0 exampleViewer) ! 2)
   \<and> sourceVisible (objectVisible (layersHook [] (washEffectHook BlueGlow 0 exampleViewer)))
         (sourceObject (emitterLights (washEffectHook BlueGlow 0 exampleViewer) ! 2))
   \<and> lightVisible (light (emitterLights (washEffectHook BlueGlow 0 exampleViewer) ! 2))
   \<and> \<not> lightVisible (light (emitterLights (layersHook [] (washEffectHook BlueGlow 0 exampleViewer)) ! 2))
   \<and> lightVisible (light (emitterLights
         (animateFrame 1 (layersHook [] (washEffectHook BlueGlow 0 exampleViewer))) ! 2))
   \<and> layerType (emitterLights (linearEffectHook PinkGlow (3 / 2) 0 exampleViewer) ! 2) = WashLights
   \<and> activeWashLightEffect (linearEffectHook PinkGlow (3 / 2) 0 exampleViewer) = Off
   \<and> \<not> lightVisible (light (emitterLights (linearEffectHook PinkGlow (3 / 2) 0 exampleViewer) ! 2))
   \<and> lightVisible (light (emitterLights
         (layersHook [] (linearEffectHook PinkGlow (3 / 2) 0 exampleViewer)) ! 2))"
  by (simp add: washEffectHook_def linearEffectHook_def layersHook_def animateFrame_def Let_def
      exampleViewer_emitters exampleViewer_registry exampleViewer_def [THEN arg_cong, of modelChildren]
      loadCallback_def mountedViewer_def exampleWashEmitter_def exampleEdgeEmitter_def
      updateEmitterLight_def shouldEmitterBeVisible_def setEmitterVisible_def sourceVisible_def
      groupEffect_def groupIntensity_def applyLayerVisibility_def setHex_def)

section \<open>The intensity floor\<close>

text \<open>
  Claim C4 as stated fails for a rig of more than one segment. In the example scene
  (model size 100, floor 2500) the guide rig has two segments and a short throw; its
  first emitter is stored with \<open>baseIntensity\<close> 1250, half the floor.
\<close>

theorem emitter_intensity_floor_counterexample:
  "layerType (emissiveEmitterLights (synthesizeEmitters 100 0 exampleGeometry) ! 0) = EdgeLed
   \<and> baseIntensity (emissiveEmitterLights (synthesizeEmitters 100 0 exampleGeometry) ! 0) = 1250
   \<and> edgeMinIntensity 100 = 2500
   \<and> \<not> (baseIntensity (emissiveEmitterLights (synthesizeEmitters 100 0 exampleGeometry) ! 0)
          \<ge> edgeMinIntensity 100)"
  by (simp add: example_emitters exampleEdgeEmitter_def edgeMinIntensity_def)

lemma addBaseEmitter_last:
  "layerType (last (emissiveEmitterLights (addBaseEmitter md gY p src ph st))) = BaseLights"
  "baseIntensity (last (emissiveEmitterLights (addBaseEmitter md gY p src ph st))) \<ge> baseMinIntensity md"
  "length (emissiveEmitterLights (addBaseEmitter md gY p src ph st))
   = Suc (length (emissiveEmitterLights st))"
  by (simp_all add: addBaseEmitter_def Let_def)

text \<open>
  Claim C4, amended. The floor \<open>edgeMinIntensity\<close> bounds the intensity of a whole edge
  rig, which is then divided evenly over its segments: for every edge-led emitter the
  synthesis returns or the load callback stores, \<open>baseIntensity\<close> times the number of
  segments of its rig (3 for a rig made without guides, which follows its source; 2 for a
  rig on a guide, which does not) is at least \<open>edgeMinIntensity\<close>. An emitter made by
  \<open>addBaseEmitter\<close> is stored with \<open>baseIntensity\<close> at least \<open>baseMinIntensity\<close>. The floors
  themselves are at least 2500 and 3500.
\<close>

theorem rig_intensity_floor:
  "(\<forall>e \<in> set (emissiveEmitterLights (synthesizeEmitters md bmy cg)).
      layerType e = EdgeLed \<longrightarrow>
        baseIntensity e * (if followSourceVisibility e then 3 else 2) \<ge> edgeMinIntensity md)
   \<and> (\<forall>e \<in> set (emitterLights (loadCallback inp s)).
      layerType e = EdgeLed \<longrightarrow>
        baseIntensity e * (if followSourceVisibility e then 3 else 2) \<ge> edgeMinIntensity (maxDim inp))
   \<and> layerType (last (emissiveEmitterLights (addBaseEmitter md gY p src ph st))) = BaseLights
   \<and> baseIntensity (last (emissiveEmitterLights (addBaseEmitter md gY p src ph st))) \<ge> baseMinIntensity md
   \<and> 2500 \<le> edgeMinIntensity md \<and> 3500 \<le> baseMinIntensity md"
proof -
  have synth: "baseIntensity e * (if followSourceVisibility e then 3 else 2) \<ge> edgeMinIntensity md'"
    if "e \<in> set (emissiveEmitterLights (synthesizeEmitters md' bmy' cg'))" "layerType e = EdgeLed"
    for md' bmy' cg' e
  proof -
    from synthesizeEmitters_shape [of md' bmy' cg'] that(1) have "synthesizedShape md' e"
      by (simp add: list_all_iff)
    with that(2) show ?thesis by (simp add: synthesizedShape_def)
  qed
  have load: "baseIntensity e * (if followSourceVisibility e then 3 else 2) \<ge> edgeMinIntensity (maxDim inp)"
    if "e \<in> set (emitterLights (loadCallback inp s))" "layerType e = EdgeLed" for e
  proof -
    from that(1) obtain e0 where e0:
      "e0 \<in> set (emissiveEmitterLights
                   (synthesizeEmitters (maxDim inp) (boxMinY inp) (accGeometry (classifyScene inp))))"
      "layerType e = layerType e0" "baseIntensity e = baseIntensity e0"
      "followSourceVisibility e = followSourceVisibility e0"
      unfolding loadCallback_emitters by (auto simp: updateEmitterLight_keeps)
    with synth [OF e0(1)] that(2) show ?thesis by simp
  qed
  have "2500 \<le> edgeMinIntensity md" "3500 \<le> baseMinIntensity md"
    by (simp_all add: edgeMinIntensity_def baseMinIntensity_def)
  with synth load addBaseEmitter_last(1,2) [of md gY p src ph st] show ?thesis by blast
qed

text \<open>The example scene: two segments of 1250 each on the guide rig, floor 2500.\<close>

theorem rig_intensity_floor_witness:
  "length (emissiveEmitterLights (synthesizeEmitters 100 0 exampleGeometry)) = 3
   \<and> layerType (emissiveEmitterLights (synthesizeEmitters 100 0 exampleGeometry) ! 0) = EdgeLed
   \<and> \<not> followSourceVisibility (emissiveEmitterLights (synthesizeEmitters 100 0 exampleGeometry) ! 0)
   \<and> baseIntensity (emissiveEmitterLights (synthesizeEmitters 100 0 exampleGeometry) ! 0) = 1250
   \<and> edgeMinIntensity 100 = 2500
   \<and> baseIntensity (emissiveEmitterLights (synthesizeEmitters 100 0 exampleGeometry) ! 0)
         * (if followSourceVisibility (emissiveEmitterLights (synthesizeEmitters 100 0 exampleGeometry) ! 0)
            then 3 else 2)
       \<ge> edgeMinIntensity 100
   \<and> layerType (emitterLights exampleViewer ! 1) = EdgeLed
   \<and> baseIntensity (emitterLights exampleViewer ! 1)
         * (if followSourceVisibility (emitterLights exampleViewer ! 1) then 3 else 2)
       \<ge> edgeMinIntensity 100"
proof -
  let ?E = "emissiveEmitterLights (synthesizeEmitters 100 0 exampleGeometry)"
  let ?V = "emitterLights exampleViewer"
  have a: "length ?V = 3" "layerType (?V ! 1) = EdgeLed"
    unfolding exampleViewer_emitters by (simp_all add: exampleEdgeEmitter_def)
  have e: "length ?E = 3" "layerType (?E ! 0) = EdgeLed" "\<not> followSourceVisibility (?E ! 0)"
    "baseIntensity (?E ! 0) = 1250"
    by (simp_all add: example_emitters exampleEdgeEmitter_def)
  have b: "edgeMinIntensity 100 = 2500" by (simp add: edgeMinIntensity_def)
  have mem: "?E ! 0 \<in> set ?E" "?V ! 1 \<in> set ?V" using a(1) e(1) by simp_all
  from rig_intensity_floor [of 100 0 exampleGeometry exampleLoad "mountedViewer Off Off (17 / 10) 1 1"]
  have s: "\<forall>e \<in> set ?E. layerType e = EdgeLed \<longrightarrow>
           baseIntensity e * (if followSourceVisibility e then 3 else 2) \<ge> edgeMinIntensity 100"
    and l: "\<forall>e \<in> set ?V. layerType e = EdgeLed \<longrightarrow>
           baseIntensity e * (if followSourceVisibility e then 3 else 2) \<ge> edgeMinIntensity 100"
    unfolding exampleViewer_def exampleLoad_fields by blast+
  from s mem(1) e(2) have s0: "baseIntensity (?E ! 0) * (if followSourceVisibility (?E ! 0) then 3 else 2)
       \<ge> edgeMinIntensity 100" by blast
  from l mem(2) a(2) have l1: "baseIntensity (?V ! 1) * (if followSourceVisibility (?V ! 1) then 3 else 2)
       \<ge> edgeMinIntensity 100" by blast
  from e b s0 a(2) l1 show ?thesis by blast
qed

section \<open>Base-lights emitters\<close>

text \<open>
  Claim C10. The cap \<open>maxBaseEmitters\<close> is 0, so \<open>downsampleEvenly\<close> hands the loop over
  the base candidates the empty list whatever the Base Lights meshes are. Hence no emitter
  that the synthesis returns, and none that the load callback stores, belongs to the
  base-lights group, and an emitter is a spot light exactly when it belongs to the edge
  group.
\<close>

theorem no_base_emitters:
  "maxBaseEmitters = 0
   \<and> downsampleEvenly (baseCandidatesOf (baseLightMeshes cg)) maxBaseEmitters = []
   \<and> (\<forall>e \<in> set (emissiveEmitterLights (synthesizeEmitters md bmy cg)).
         layerType e \<noteq> BaseLights \<and> ((lightType (light e) = SpotLight) = (layerType e = EdgeLed)))
   \<and> (\<forall>e \<in> set (emitterLights (loadCallback inp s)).
         layerType e \<noteq> BaseLights \<and> ((lightType (light e) = SpotLight) = (layerType e = EdgeLed)))"
proof -
  have shape: "layerType e \<noteq> BaseLights \<and> ((lightType (light e) = SpotLight) = (layerType e = EdgeLed))"
    if "synthesizedShape md' e" for md' e
    using that by (auto simp: synthesizedShape_def split: if_splits)
  have synth: "layerType e \<noteq> BaseLights \<and> ((lightType (light e) = SpotLight) = (layerType e = EdgeLed))"
    if "e \<in> set (emissiveEmitterLights (synthesizeEmitters md' bmy' cg'))" for md' bmy' cg' e
    using synthesizeEmitters_shape [of md' bmy' cg'] that shape unfolding list_all_iff by blast
  have "layerType e \<noteq> BaseLights \<and> ((lightType (light e) = SpotLight) = (layerType e = EdgeLed))"
    if "e \<in> set (emitterLights (loadCallback inp s))" for e
    using that synth unfolding loadCallback_emitters
    by (auto simp: updateEmitterLight_keeps)
  with synth show ?thesis
    using downsampleEvenly_zero [of "baseCandidatesOf (baseLightMeshes cg)"]
    by (simp add: maxBaseEmitters_def)
qed

text \<open>
  The example scene has one Base Lights mesh, one guide and one wash point: three emitters
  come out, two spot lights on the guide and one wash point light.
\<close>

theorem no_base_emitters_witness:
  "baseLightMeshes exampleGeometry = [exampleMesh]
   \<and> maxBaseEmitters = 0
   \<and> downsampleEvenly (baseCandidatesOf (baseLightMeshes exampleGeometry)) maxBaseEmitters = []
   \<and> length (emissiveEmitterLights (synthesizeEmitters 100 0 exampleGeometry)) = 3
   \<and> length (emitterLights exampleViewer) = 3
   \<and> layerType (emissiveEmitterLights (synthesizeEmitters 100 0 exampleGeometry) ! 0) = EdgeLed
   \<and> lightType (light (emissiveEmitterLights (synthesizeEmitters 100 0 exampleGeometry) ! 0)) = SpotLight
   \<and> layerType (emissiveEmitterLights (synthesizeEmitters 100 0 exampleGeometry) ! 2) = WashLights
   \<and> lightType (light (emissiveEmitterLights (synthesizeEmitters 100 0 exampleGeometry) ! 2)) = PointLight
   \<and> layerType (emitterLights exampleViewer ! 0) \<noteq> BaseLights
   \<and> layerType (emitterLights exampleViewer ! 1) \<noteq> BaseLights
   \<and> layerType (emitterLights exampleViewer ! 2) \<noteq> BaseLights"
proof -
  let ?E = "emitterLights exampleViewer"
  have len: "length ?E = 3" unfolding exampleViewer_emitters by simp
  then have mem: "?E ! 0 \<in> set ?E" "?E ! 1 \<in> set ?E" "?E ! 2 \<in> set ?E"
    by simp_all
  from no_base_emitters [of exampleGeometry 100 0 exampleLoad "mountedViewer Off Off (17 / 10) 1 1"]
  have z: "maxBaseEmitters = 0"
    "downsampleEvenly (baseCandidatesOf (baseLightMeshes exampleGeometry)) maxBaseEmitters = []"
    and all: "\<forall>e \<in> set ?E. layerType e \<noteq> BaseLights
                \<and> ((lightType (light e) = SpotLight) = (layerType e = EdgeLed))"
    unfolding exampleViewer_def by blast+
  from all mem have nb: "layerType (?E ! 0) \<noteq> BaseLights" "layerType (?E ! 1) \<noteq> BaseLights"
    "layerType (?E ! 2) \<noteq> BaseLights" by blast+
  have g: "baseLightMeshes exampleGeometry = [exampleMesh]" by (simp add: exampleGeometry_def)
  have e: "length (emissiveEmitterLights (synthesizeEmitters 100 0 exampleGeometry)) = 3"
    "layerType (emissiveEmitterLights (synthesizeEmitters 100 0 exampleGeometry) ! 0) = EdgeLed"
    "lightType (light (emissiveEmitterLights (synthesizeEmitters 100 0 exampleGeometry) ! 0)) = SpotLight"
    "layerType (emissiveEmitterLights (synthesizeEmitters 100 0 exampleGeometry) ! 2) = WashLights"
    "lightType (light (emissiveEmitterLights (synthesizeEmitters 100 0 exampleGeometry) ! 2)) = PointLight"
    by (simp_all add: example_emitters exampleEdgeEmitter_def exampleWashEmitter_def)
  from g z e len nb show ?thesis by blast
qed

section \<open>Even downsampling and the canopy band\<close>

lemma evenRank_lt:
  assumes "0 < len" and "i < cnt"
  shows "evenRank len cnt i < len"
proof -
  define t :: real where "t = (if cnt = 1 then 0.5 else real i / real (cnt - 1))"
  have t: "0 \<le> t" "t \<le> 1"
  proof -
    show "0 \<le> t" by (simp add: t_def)
    show "t \<le> 1"
    proof (cases "cnt = 1")
      case True
      then show ?thesis by (simp add: t_def)
    next
      case False
      with assms(2) have "real i \<le> real (cnt - 1)" "0 < real (cnt - 1)" by simp_all
      then show ?thesis using False by (simp add: t_def)
    qed
  qed
  have "real (len - 1) * t \<le> real (len - 1) * 1"
    by (rule mult_left_mono) (simp_all add: t)
  then have "real (len - 1) * t + 1 / 2 < of_int (int (len - 1) + 1)" by simp
  then have "\<lfloor>real (len - 1) * t + 1 / 2\<rfloor> < int (len - 1) + 1"
    by (simp only: floor_less_iff)
  then have "nat \<lfloor>real (len - 1) * t + 1 / 2\<rfloor> < len" using assms(1) by linarith
  moreover have "evenRank len cnt i = nat \<lfloor>real (len - 1) * t + 1 / 2\<rfloor>"
    unfolding evenRank_def js_round_def Let_def t_def by (rule refl)
  ultimately show ?thesis by (simp only:)
qed

lemma set_downsampleEvenly: "set (downsampleEvenly xs n) \<subseteq> set xs"
proof (cases "n \<le> 0 \<or> int (length xs) \<le> n")
  case True
  then show ?thesis by (auto simp: downsampleEvenly_def)
next
  case False
  then have len: "0 < length xs" by auto
  have "xs ! evenRank (length xs) (nat n) i \<in> set xs" if "i < nat n" for i
    using evenRank_lt [OF len that] by simp
  with False show ?thesis by (auto simp: downsampleEvenly_def)
qed

lemma length_downsampleEvenly: "length (downsampleEvenly xs n) \<le> nat n"
  by (auto simp: downsampleEvenly_def)

lemma highestEdgeY_fold:
  "fold (\<lambda>candidate highest.
             case highest of
               None \<Rightarrow> Some (vy (point candidate))
             | Some h \<Rightarrow> Some (max h (vy (point candidate)))) cs (Some h0)
   = Some (fold (\<lambda>candidate h. max h (vy (point candidate))) cs h0)"
  by (induction cs arbitrary: h0) simp_all

lemma fold_max_ge:
  "h0 \<le> fold (\<lambda>candidate h. max h (vy (point candidate))) cs (h0 :: real)
   \<and> (\<forall>c \<in> set cs. vy (point c) \<le> fold (\<lambda>candidate h. max h (vy (point candidate))) cs h0)"
proof (induction cs arbitrary: h0)
  case Nil
  then show ?case by simp
next
  case (Cons c cs)
  let ?F = "fold (\<lambda>candidate h. max h (vy (point candidate))) cs (max h0 (vy (point c)))"
  from Cons [of "max h0 (vy (point c))"]
  have a: "max h0 (vy (point c)) \<le> ?F" and b: "\<forall>c' \<in> set cs. vy (point c') \<le> ?F"
    by blast+
  from a have "h0 \<le> ?F" "vy (point c) \<le> ?F" by (simp_all only: max.bounded_iff)
  with b show ?case by simp
qed

lemma fold_max_attained:
  "fold (\<lambda>candidate h. max h (vy (point candidate))) cs (h0 :: real) = h0
   \<or> (\<exists>c \<in> set cs. fold (\<lambda>candidate h. max h (vy (point candidate))) cs h0 = vy (point c))"
proof (induction cs arbitrary: h0)
  case Nil
  then show ?case by simp
next
  case (Cons c cs)
  let ?F = "fold (\<lambda>candidate h. max h (vy (point candidate))) cs (max h0 (vy (point c)))"
  from Cons [of "max h0 (vy (point c))"]
  consider "?F = max h0 (vy (point c))" | "\<exists>c' \<in> set cs. ?F = vy (point c')"
    by blast
  then show ?case
  proof cases
    case 1
    have "max h0 (vy (point c)) = h0 \<or> max h0 (vy (point c)) = vy (point c)"
      by (simp add: max_def)
    with 1 show ?thesis by auto
  next
    case 2
    then show ?thesis by auto
  qed
qed

lemma highestEdgeY_Nil: "highestEdgeY [] = None"
  by (simp add: highestEdgeY_def)

lemma highestEdgeY_Cons:
  "highestEdgeY (c # cs) = Some (fold (\<lambda>candidate h. max h (vy (point candidate))) cs (vy (point c)))"
  by (simp add: highestEdgeY_def highestEdgeY_fold)

lemma highestEdgeY_is_max:
  assumes "highestEdgeY cs = Some h"
  shows "(\<forall>c \<in> set cs. vy (point c) \<le> h) \<and> (\<exists>c \<in> set cs. vy (point c) = h)"
proof (cases cs)
  case Nil
  with assms show ?thesis by (simp add: highestEdgeY_Nil)
next
  case (Cons c cs')
  define F where "F = fold (\<lambda>candidate h. max h (vy (point candidate))) cs' (vy (point c))"
  have h: "h = F" using assms unfolding Cons highestEdgeY_Cons F_def by simp
  have ge: "vy (point c) \<le> F" "\<forall>c' \<in> set cs'. vy (point c') \<le> F"
    unfolding F_def using fold_max_ge [of "vy (point c)" cs'] by blast+
  have att: "F = vy (point c) \<or> (\<exists>c' \<in> set cs'. F = vy (point c'))"
    unfolding F_def using fold_max_attained [of cs' "vy (point c)"] by blast
  have 1: "\<forall>c' \<in> set (c # cs'). vy (point c') \<le> F" using ge by simp
  have 2: "\<exists>c' \<in> set (c # cs'). vy (point c') = F" using att by auto
  show ?thesis unfolding h Cons using 1 2 by blast
qed


lemma canopy_members:
  assumes "c \<in> set (selectedCanopyCandidates md cs)"
  shows "c \<in> set cs \<and> (\<exists>h. highestEdgeY cs = Some h \<and> h - vy (point c) \<le> canopyBand md)"
proof -
  have "set (downsampleEvenly (canopyEdgeCandidates md cs) maxEdgeEmitters)
        \<subseteq> set (canopyEdgeCandidates md cs)"
    by (rule set_downsampleEvenly)
  with assms have mem: "c \<in> set (canopyEdgeCandidates md cs)"
    unfolding selectedCanopyCandidates_def by (rule_tac subsetD)
  show ?thesis
  proof (cases "highestEdgeY cs")
    case None
    with mem show ?thesis by (simp add: canopyEdgeCandidates_def)
  next
    case (Some h)
    with mem show ?thesis by (simp add: canopyEdgeCandidates_def)
  qed
qed

lemma length_selectedCanopyCandidates: "length (selectedCanopyCandidates md cs) \<le> 4"
  using length_downsampleEvenly [of "canopyEdgeCandidates md cs" maxEdgeEmitters]
  by (simp add: selectedCanopyCandidates_def maxEdgeEmitters_def)


lemma addEdgeEmitterRig_rigCount:
  "edgeRigCount (addEdgeEmitterRig md gY a b src ph follow sc fr st) = edgeRigCount st + 1"
proof -
  have seg: "edgeRigCount (addEdgeSegment md gY src ph follow n sh sp i st') = edgeRigCount st'"
    for n sh sp i st'
    by (simp add: addEdgeSegment_def Let_def)
  have "edgeRigCount (fold (addEdgeSegment md gY src ph follow n sh sp) is st') = edgeRigCount st'"
    for n sh sp "is" st'
    by (induction "is" arbitrary: st') (simp_all add: seg)
  then show ?thesis by (simp add: addEdgeEmitterRig_def Let_def)
qed

lemma fold_addFallbackRig_rigCount:
  "edgeRigCount (fold (addFallbackRig md gY) cs st) = edgeRigCount st + length cs"
  by (induction cs arbitrary: st) (simp_all add: addFallbackRig_def Let_def addEdgeEmitterRig_rigCount)

lemma addWashEmitter_rigCount: "edgeRigCount (addWashEmitter md p src ph st) = edgeRigCount st"
  by (simp add: addWashEmitter_def Let_def)

lemma fold_addWashEmitter_rigCount:
  "edgeRigCount (fold (\<lambda>candidate. addWashEmitter md (f candidate) (g candidate) (h candidate)) ws st)
   = edgeRigCount st"
  by (induction ws arbitrary: st) (simp_all add: addWashEmitter_rigCount)

lemma synthesizeEmitters_fallback_rigCount:
  assumes "edgeGuideRigsOf (edgeUvSamplesOf (edgeLedMeshes cg)) (emitterGuideObjects cg) = []"
  shows "edgeRigCount (synthesizeEmitters md bmy cg)
         = length (selectedCanopyCandidates md
                     (edgeCandidatesOf md (edgeUvSamplesOf (edgeLedMeshes cg)) (edgeLedMeshes cg)))"
  unfolding synthesizeEmitters_def Let_def downsampleEvenly_zero
  by (simp add: assms fold_addWashEmitter_rigCount fold_addFallbackRig_rigCount)

subsection \<open>The rigs of the guide-less path\<close>

lemma fold_appends_each:
  assumes "\<And>x st. \<exists>e. emissiveEmitterLights (f x st) = emissiveEmitterLights st @ [e] \<and> P x e"
  shows "\<exists>es. emissiveEmitterLights (fold f xs st) = emissiveEmitterLights st @ es \<and> list_all2 P xs es"
proof (induction xs arbitrary: st)
  case Nil
  then show ?case by simp
next
  case (Cons x xs)
  obtain e where e: "emissiveEmitterLights (f x st) = emissiveEmitterLights st @ [e]" "P x e"
    using assms by blast
  obtain es where es: "emissiveEmitterLights (fold f xs (f x st)) = emissiveEmitterLights (f x st) @ es"
    "list_all2 P xs es"
    using Cons [of "f x st"] by blast
  have "emissiveEmitterLights (fold f (x # xs) st) = emissiveEmitterLights st @ (e # es)"
    using e es by simp
  moreover have "list_all2 P (x # xs) (e # es)" using e es by simp
  ultimately show ?case by blast
qed

lemma fold_appends_rigs:
  assumes "\<And>x st. \<exists>es. emissiveEmitterLights (f x st) = emissiveEmitterLights st @ es \<and> R x es"
  shows "\<exists>ess. emissiveEmitterLights (fold f xs st) = emissiveEmitterLights st @ concat ess
               \<and> list_all2 R xs ess"
proof (induction xs arbitrary: st)
  case Nil
  then show ?case by simp
next
  case (Cons x xs)
  obtain es where e: "emissiveEmitterLights (f x st) = emissiveEmitterLights st @ es" "R x es"
    using assms by blast
  obtain ess where es: "emissiveEmitterLights (fold f xs (f x st)) = emissiveEmitterLights (f x st) @ concat ess"
    "list_all2 R xs ess"
    using Cons [of "f x st"] by blast
  have "emissiveEmitterLights (fold f (x # xs) st) = emissiveEmitterLights st @ concat (es # ess)"
    using e es by simp
  moreover have "list_all2 R (x # xs) (es # ess)" using e es by simp
  ultimately show ?case by blast
qed

lemma addEdgeSegment_appends_one:
  "\<exists>e. emissiveEmitterLights (addEdgeSegment md gY src ph follow n sh sp i st)
        = emissiveEmitterLights st @ [e]
      \<and> (layerType e = EdgeLed \<and> sourceObject e = src \<and> followSourceVisibility e = follow
         \<and> vy (lightPosition (light e)) = vy (sp ! i) + max (md * 0.015) 0.8)"
  by (simp add: addEdgeSegment_def Let_def)

lemma vy_normalize: "vy v = 0 \<Longrightarrow> vy (normalize v) = 0"
  by (simp add: normalize_def Let_def)

lemma segmentPositionsOf_None_height:
  assumes "i < normalizedSegmentCountOf sc None"
  shows "vy (segmentPositionsOf md a b sc None ! i) = vy (lerp a b 0.5)"
proof -
  define rd where "rd = normalize (if lengthSq (setY (sub b a) 0) \<le> 1 / 1000000
                                   then Vector3 1 0 0 else setY (sub b a) 0)"
  have "vy (if lengthSq (setY (sub b a) 0) \<le> 1 / 1000000 then Vector3 1 0 0 else setY (sub b a) 0) = 0"
    by (simp add: setY_def)
  then have rd: "vy rd = 0" unfolding rd_def by (rule vy_normalize)
  have "segmentPositionsOf md a b sc None ! i
        = addScaledVector (lerp a b 0.5) rd
            ((real i - real (normalizedSegmentCountOf sc None - 1) * 0.5)
             * (if normalizedSegmentCountOf sc None > 1
                then max (distanceTo (setY a 0) (setY b 0)) (edgeLineLength md)
                     / real (normalizedSegmentCountOf sc None - 1) else 0))"
    using assms
    unfolding segmentPositionsOf_def Let_def rd_def normalizedFractionsOf_def
    by simp
  then show ?thesis by (simp add: addScaledVector_def rd)
qed

lemma fallback_segment_height:
  assumes "i < 3"
  shows "vy (segmentPositionsOf md (addScaledVector p d (- h)) (addScaledVector p d h)
               fallbackEdgeLineSegmentCount None ! i) = vy p"
proof -
  have "vy (lerp (addScaledVector p d (- h)) (addScaledVector p d h) 0.5) = vy p"
    by (simp add: lerp_def addScaledVector_def algebra_simps)
  moreover have "i < normalizedSegmentCountOf fallbackEdgeLineSegmentCount None"
    using assms by (simp only: fallback_segments)
  ultimately show ?thesis
    by (simp only: segmentPositionsOf_None_height)
qed

lemma addFallbackRig_rig:
  "\<exists>es. emissiveEmitterLights (addFallbackRig md gY c st) = emissiveEmitterLights st @ es
        \<and> fallbackRigOf md c es"
proof -
  define sp where "sp = segmentPositionsOf md
      (addScaledVector (point c) (direction c) (- (edgeLineLength md * 0.5)))
      (addScaledVector (point c) (direction c) (edgeLineLength md * 0.5))
      fallbackEdgeLineSegmentCount None"
  define sh where "sh = nat (js_round (real (3 - 1 :: nat) * 0.5))"
  define P :: "nat \<Rightarrow> EmissiveEmitterLight \<Rightarrow> bool"
    where "P = (\<lambda>i e. layerType e = EdgeLed \<and> sourceObject e = candidateSource c
         \<and> followSourceVisibility e = True
         \<and> vy (lightPosition (light e)) = vy (sp ! i) + max (md * 0.015) 0.8)"
  define st' where "st' = st\<lparr>edgeRigCount := edgeRigCount st + 1\<rparr>"
  have "\<exists>es. emissiveEmitterLights
          (fold (addEdgeSegment md gY (candidateSource c) (candidatePhase c) True 3 sh sp) [0..<3] st')
        = emissiveEmitterLights st' @ es \<and> list_all2 P [0..<3] es"
    unfolding P_def by (rule fold_appends_each) (rule addEdgeSegment_appends_one)
  then obtain es where es: "emissiveEmitterLights
          (fold (addEdgeSegment md gY (candidateSource c) (candidatePhase c) True 3 sh sp) [0..<3] st')
        = emissiveEmitterLights st @ es" "list_all2 P [0..<3] es"
    by (auto simp: st'_def)
  have len: "length es = 3" using list_all2_lengthD [OF es(2)] by simp
  have each: "P i (es ! i)" if "i < 3" for i
    using list_all2_nthD [OF es(2), of i] that by simp
  have "layerType e = EdgeLed \<and> sourceObject e = candidateSource c
                      \<and> followSourceVisibility e
                      \<and> vy (lightPosition (light e)) = vy (point c) + max (md * 0.015) 0.8"
    if "e \<in> set es" for e
  proof -
    from that obtain i where i: "i < 3" "e = es ! i"
      unfolding in_set_conv_nth len by blast
    from each [OF i(1)] fallback_segment_height [OF i(1), of md "point c" "direction c" "edgeLineLength md * 0.5"]
    show ?thesis unfolding P_def i(2) sp_def by simp
  qed
  then have "fallbackRigOf md c es"
    unfolding fallbackRigOf_def list_all_iff using len by blast
  moreover have "emissiveEmitterLights (addFallbackRig md gY c st) = emissiveEmitterLights st @ es"
    unfolding addFallbackRig_def addEdgeEmitterRig_def Let_def fallback_segments
    using es(1) unfolding sp_def sh_def st'_def by simp
  ultimately show ?thesis by blast
qed


lemma fold_addWashEmitter_washes:
  "\<exists>ws. emissiveEmitterLights
           (fold (\<lambda>candidate. addWashEmitter md (f candidate) (g candidate) (h candidate)) cs st)
         = emissiveEmitterLights st @ ws
       \<and> list_all (\<lambda>e. layerType e = WashLights) ws"
proof -
  have "appendsOnly (\<lambda>e. layerType e = WashLights)
          (fold (\<lambda>candidate. addWashEmitter md (f candidate) (g candidate) (h candidate)) cs)"
    by (rule appendsOnly_fold) (rule appendsOnly_mono [OF addWashEmitter_appends], simp)
  then show ?thesis unfolding appendsOnly_def by blast
qed

lemma synthesizeEmitters_fallback_rigs:
  assumes "edgeGuideRigsOf (edgeUvSamplesOf (edgeLedMeshes cg)) (emitterGuideObjects cg) = []"
  shows "\<exists>rigs ws. emissiveEmitterLights (synthesizeEmitters md bmy cg) = concat rigs @ ws
           \<and> list_all2 (fallbackRigOf md)
               (selectedCanopyCandidates md
                  (edgeCandidatesOf md (edgeUvSamplesOf (edgeLedMeshes cg)) (edgeLedMeshes cg))) rigs
           \<and> list_all (\<lambda>e. layerType e = WashLights) ws"
proof -
  define st0 where "st0 = \<lparr>emissiveEmitterLights = [], edgeShadowCasterCount = 0,
                 baseShadowCasterCount = 0, edgeRigCount = 0\<rparr>"
  define sel where "sel = selectedCanopyCandidates md
                  (edgeCandidatesOf md (edgeUvSamplesOf (edgeLedMeshes cg)) (edgeLedMeshes cg))"
  define st1 where "st1 = fold (addFallbackRig md (groundY bmy)) sel st0"
  have "\<exists>rigs. emissiveEmitterLights st1 = emissiveEmitterLights st0 @ concat rigs
               \<and> list_all2 (fallbackRigOf md) sel rigs"
    unfolding st1_def by (rule fold_appends_rigs) (rule addFallbackRig_rig)
  then obtain rigs where rigs: "emissiveEmitterLights st1 = concat rigs"
    "list_all2 (fallbackRigOf md) sel rigs"
    by (auto simp: st0_def)
  define wcs where "wcs = washCandidatesOf (edgeUvSamplesOf (edgeLedMeshes cg))
                            (washLightMeshes cg) (washLightPositions cg)"
  obtain ws where ws: "emissiveEmitterLights
           (fold (\<lambda>candidate. addWashEmitter md (washPoint candidate)
                   (case washSource candidate of Some src \<Rightarrow> src | None \<Rightarrow> DummySource)
                   (washPhase candidate)) wcs st1)
         = emissiveEmitterLights st1 @ ws" "list_all (\<lambda>e. layerType e = WashLights) ws"
    using fold_addWashEmitter_washes [of md washPoint
        "\<lambda>candidate. case washSource candidate of Some src \<Rightarrow> src | None \<Rightarrow> DummySource"
        washPhase wcs st1]
    by blast
  have "synthesizeEmitters md bmy cg
        = fold (\<lambda>candidate. addWashEmitter md (washPoint candidate)
                   (case washSource candidate of Some src \<Rightarrow> src | None \<Rightarrow> DummySource)
                   (washPhase candidate)) wcs st1"
    unfolding synthesizeEmitters_def Let_def downsampleEvenly_zero st1_def sel_def st0_def wcs_def
    by (simp add: assms)
  then have "emissiveEmitterLights (synthesizeEmitters md bmy cg) = concat rigs @ ws"
    using ws(1) rigs(1) by simp
  with rigs(2) ws(2) show ?thesis unfolding sel_def by blast
qed

lemma fallbackRigOf_member:
  assumes "list_all2 (fallbackRigOf md) sel rigs" and "e \<in> set (concat rigs)"
  shows "\<exists>c \<in> set sel. layerType e = EdgeLed \<and> sourceObject e = candidateSource c
           \<and> vy (lightPosition (light e)) = vy (point c) + max (md * 0.015) 0.8"
proof -
  from assms(2) obtain rig where rig: "rig \<in> set rigs" "e \<in> set rig" by auto
  then obtain i where i: "i < length rigs" "rig = rigs ! i"
    unfolding in_set_conv_nth by blast
  have len: "length sel = length rigs" using assms(1) by (rule list_all2_lengthD)
  have "fallbackRigOf md (sel ! i) (rigs ! i)"
    using assms(1) i(1) len by (simp add: list_all2_nthD)
  with rig(2) i(2) have "layerType e = EdgeLed \<and> sourceObject e = candidateSource (sel ! i)
           \<and> vy (lightPosition (light e)) = vy (point (sel ! i)) + max (md * 0.015) 0.8"
    unfolding fallbackRigOf_def list_all_iff by blast
  moreover have "sel ! i \<in> set sel" using i(1) len by simp
  ultimately show ?thesis by blast
qed

lemma filter_edge_rigs:
  assumes "list_all2 (fallbackRigOf md) sel rigs" and "list_all (\<lambda>e. layerType e = WashLights) ws"
  shows "filter (\<lambda>e. layerType e = EdgeLed) (concat rigs @ ws) = concat rigs"
proof -
  have "\<forall>e \<in> set (concat rigs). layerType e = EdgeLed"
    using fallbackRigOf_member [OF assms(1)] by blast
  then have "filter (\<lambda>e. layerType e = EdgeLed) (concat rigs) = concat rigs"
    by (simp only: filter_True)
  moreover have "filter (\<lambda>e. layerType e = EdgeLed) ws = []"
    using assms(2) by (simp add: list_all_iff filter_empty_conv)
  ultimately show ?thesis by simp
qed

text \<open>
  Claim C9. The rigs of the guide-less path are made from \<open>selectedCanopyCandidates\<close>:
  at most \<open>maxEdgeEmitters = 4\<close> candidates, each one of the edge candidates and no
  more than \<open>canopyBand\<close> below \<open>highestEdgeY\<close>, the height of the topmost candidate;
  a candidate further below is never selected. When no guide rig exists, the edge emitters
  that \<open>synthesizeEmitters\<close> returns are exactly one rig of three emitters per selected
  candidate, in order, each emitter keeping the source object of its candidate and mounted
  at the candidate's height plus the lift. So every edge emitter of the result belongs to
  a candidate within the band, and the number of rigs is the number of selected candidates.
\<close>

theorem canopy_band_selection:
  "length (selectedCanopyCandidates md cands) \<le> nat maxEdgeEmitters
   \<and> nat maxEdgeEmitters = 4
   \<and> (\<forall>c \<in> set (selectedCanopyCandidates md cands).
         c \<in> set cands
         \<and> (\<exists>h. highestEdgeY cands = Some h
                \<and> (\<forall>c' \<in> set cands. vy (point c') \<le> h)
                \<and> (\<exists>c' \<in> set cands. vy (point c') = h)
                \<and> h - vy (point c) \<le> canopyBand md))
   \<and> (\<forall>c \<in> set cands. \<forall>h. highestEdgeY cands = Some h \<and> canopyBand md < h - vy (point c)
         \<longrightarrow> c \<notin> set (selectedCanopyCandidates md cands))
   \<and> (edgeGuideRigsOf (edgeUvSamplesOf (edgeLedMeshes cg)) (emitterGuideObjects cg) = [] \<longrightarrow>
        (let edgeCandidates = edgeCandidatesOf md (edgeUvSamplesOf (edgeLedMeshes cg)) (edgeLedMeshes cg);
             selected = selectedCanopyCandidates md edgeCandidates;
             emitters = emissiveEmitterLights (synthesizeEmitters md bmy cg)
         in edgeRigCount (synthesizeEmitters md bmy cg) = length selected
            \<and> (\<exists>rigs. filter (\<lambda>e. layerType e = EdgeLed) emitters = concat rigs
                      \<and> list_all2 (fallbackRigOf md) selected rigs)
            \<and> (\<forall>e \<in> set emitters. layerType e = EdgeLed \<longrightarrow>
                  (\<exists>c \<in> set edgeCandidates. \<exists>h.
                      highestEdgeY edgeCandidates = Some h
                      \<and> h - vy (point c) \<le> canopyBand md
                      \<and> sourceObject e = candidateSource c
                      \<and> vy (lightPosition (light e)) = vy (point c) + max (md * 0.015) 0.8))))"
proof -
  have sel: "c \<in> set cs
         \<and> (\<exists>h. highestEdgeY cs = Some h
                \<and> (\<forall>c' \<in> set cs. vy (point c') \<le> h)
                \<and> (\<exists>c' \<in> set cs. vy (point c') = h)
                \<and> h - vy (point c) \<le> canopyBand md)"
    if "c \<in> set (selectedCanopyCandidates md cs)" for c cs
  proof -
    from canopy_members [OF that] obtain h where
      h: "c \<in> set cs" "highestEdgeY cs = Some h" "h - vy (point c) \<le> canopyBand md"
      by blast
    from highestEdgeY_is_max [OF h(2)] h show ?thesis by blast
  qed
  have c1: "length (selectedCanopyCandidates md cands) \<le> nat maxEdgeEmitters"
    using length_selectedCanopyCandidates [of md cands] by (simp add: maxEdgeEmitters_def)
  have c2: "nat maxEdgeEmitters = 4" by (simp add: maxEdgeEmitters_def)
  have c3: "\<forall>c \<in> set (selectedCanopyCandidates md cands).
         c \<in> set cands
         \<and> (\<exists>h. highestEdgeY cands = Some h
                \<and> (\<forall>c' \<in> set cands. vy (point c') \<le> h)
                \<and> (\<exists>c' \<in> set cands. vy (point c') = h)
                \<and> h - vy (point c) \<le> canopyBand md)"
    using sel by blast
  have c4: "\<forall>c \<in> set cands. \<forall>h. highestEdgeY cands = Some h \<and> canopyBand md < h - vy (point c)
         \<longrightarrow> c \<notin> set (selectedCanopyCandidates md cands)"
  proof (intro ballI allI impI notI)
    fix c h
    assume a: "highestEdgeY cands = Some h \<and> canopyBand md < h - vy (point c)"
      and b: "c \<in> set (selectedCanopyCandidates md cands)"
    from canopy_members [OF b] a show False by auto
  qed
  have c5: "(let edgeCandidates = edgeCandidatesOf md (edgeUvSamplesOf (edgeLedMeshes cg)) (edgeLedMeshes cg);
             selected = selectedCanopyCandidates md edgeCandidates;
             emitters = emissiveEmitterLights (synthesizeEmitters md bmy cg)
         in edgeRigCount (synthesizeEmitters md bmy cg) = length selected
            \<and> (\<exists>rigs. filter (\<lambda>e. layerType e = EdgeLed) emitters = concat rigs
                      \<and> list_all2 (fallbackRigOf md) selected rigs)
            \<and> (\<forall>e \<in> set emitters. layerType e = EdgeLed \<longrightarrow>
                  (\<exists>c \<in> set edgeCandidates. \<exists>h.
                      highestEdgeY edgeCandidates = Some h
                      \<and> h - vy (point c) \<le> canopyBand md
                      \<and> sourceObject e = candidateSource c
                      \<and> vy (lightPosition (light e)) = vy (point c) + max (md * 0.015) 0.8)))"
    if g: "edgeGuideRigsOf (edgeUvSamplesOf (edgeLedMeshes cg)) (emitterGuideObjects cg) = []"
  proof -
    define ecs where "ecs = edgeCandidatesOf md (edgeUvSamplesOf (edgeLedMeshes cg)) (edgeLedMeshes cg)"
    define es where "es = emissiveEmitterLights (synthesizeEmitters md bmy cg)"
    from synthesizeEmitters_fallback_rigs [OF g, of md bmy]
    obtain rigs ws where d: "es = concat rigs @ ws"
      "list_all2 (fallbackRigOf md) (selectedCanopyCandidates md ecs) rigs"
      "list_all (\<lambda>e. layerType e = WashLights) ws"
      unfolding ecs_def es_def by blast
    have f: "filter (\<lambda>e. layerType e = EdgeLed) es = concat rigs"
      unfolding d(1) using d(2) d(3) by (rule filter_edge_rigs)
    have cnt: "edgeRigCount (synthesizeEmitters md bmy cg) = length (selectedCanopyCandidates md ecs)"
      unfolding ecs_def by (rule synthesizeEmitters_fallback_rigCount [OF g])
    have each: "\<exists>c \<in> set ecs. \<exists>h.
                      highestEdgeY ecs = Some h
                      \<and> h - vy (point c) \<le> canopyBand md
                      \<and> sourceObject e = candidateSource c
                      \<and> vy (lightPosition (light e)) = vy (point c) + max (md * 0.015) 0.8"
      if "e \<in> set es" "layerType e = EdgeLed" for e
    proof -
      from that have "e \<in> set (filter (\<lambda>e. layerType e = EdgeLed) es)" by simp
      then have "e \<in> set (concat rigs)" by (simp only: f)
      from fallbackRigOf_member [OF d(2) this] obtain c where
        c: "c \<in> set (selectedCanopyCandidates md ecs)" "sourceObject e = candidateSource c"
           "vy (lightPosition (light e)) = vy (point c) + max (md * 0.015) 0.8"
        by blast
      from canopy_members [OF c(1)] c(2) c(3) show ?thesis by blast
    qed
    from cnt f d(2) each show ?thesis
      unfolding Let_def ecs_def [symmetric] es_def [symmetric] by blast
  qed
  from c1 c2 c3 c4 c5 show ?thesis by blast
qed


lemma upt_0_4: "[0..<4] = [0, 1, 2, 3]"
  by (simp add: upt_rec)

lemma example_selected:
  "selectedCanopyCandidates 20 (map exampleCandidate [10, 9, 8, 2, 7, 6])
   = map exampleCandidate [10, 9, 7, 6]"
  by (simp add: selectedCanopyCandidates_def canopyEdgeCandidates_def highestEdgeY_def canopyBand_def
      exampleCandidate_def downsampleEvenly_def maxEdgeEmitters_def evenRank_def js_round_def Let_def
      upt_0_4)

lemma twoLevel_guides:
  "edgeGuideRigsOf (edgeUvSamplesOf (edgeLedMeshes twoLevelGeometry))
     (emitterGuideObjects twoLevelGeometry) = []"
  by (simp add: twoLevelGeometry_def edgeGuideRigsOf_def)

lemma twoLevel_uv: "edgeUvSamplesOf (edgeLedMeshes twoLevelGeometry) = []"
  by (simp add: twoLevelGeometry_def edgeUvSamplesOf_def sampleMeshUvWorldPoints_def levelMesh_def
      downsampleEvenly_Nil)

lemma levelMesh_points: "sampleMeshWorldPoints (levelMesh n v) 1 = [v]"
  by (simp add: sampleMeshWorldPoints_def levelMesh_def Let_def evenRank_def js_round_def)

lemma levelMesh_direction: "getMeshHorizontalAxisDirection (levelMesh n v) = Vector3 1 0 0"
  by (simp add: getMeshHorizontalAxisDirection_def levelMesh_def Let_def boundingBoxSize_def
      setY_def lengthSq_def normalize_def)

lemma levelMesh_fields:
  "worldSize (levelMesh n v) = Vector3 0 0 0" "objectId (levelMesh n v) = n"
  by (simp_all add: levelMesh_def)

lemma twoLevel_candidates:
  "edgeCandidatesOf 20 (edgeUvSamplesOf (edgeLedMeshes twoLevelGeometry)) (edgeLedMeshes twoLevelGeometry)
   = [\<lparr>candidateSource = ModelObject 11, point = Vector3 0 10 0, candidatePhase = 0,
        direction = Vector3 1 0 0\<rparr>,
      \<lparr>candidateSource = ModelObject 12, point = Vector3 5 0 0, candidatePhase = 1 / 2,
        direction = Vector3 1 0 0\<rparr>]"
  unfolding twoLevel_uv
  by (simp add: twoLevelGeometry_def edgeCandidatesOf_def Let_def enumerate_eq_zip upt_0_2
      levelMesh_points levelMesh_direction levelMesh_fields js_round_def getNearestUvPhase_def
      js_mod_def js_trunc_def)

lemma twoLevel_selected:
  "selectedCanopyCandidates 20
     [\<lparr>candidateSource = ModelObject 11, point = Vector3 0 10 0, candidatePhase = 0,
        direction = Vector3 1 0 0\<rparr>,
      \<lparr>candidateSource = ModelObject 12, point = Vector3 5 0 0, candidatePhase = 1 / 2,
        direction = Vector3 1 0 0\<rparr>]
   = [\<lparr>candidateSource = ModelObject 11, point = Vector3 0 10 0, candidatePhase = 0,
        direction = Vector3 1 0 0\<rparr>]"
  by (simp add: selectedCanopyCandidates_def canopyEdgeCandidates_def highestEdgeY_def canopyBand_def
      downsampleEvenly_def maxEdgeEmitters_def)

lemma fallbackRigOf_maps:
  assumes "fallbackRigOf md c rig"
  shows "map sourceObject rig = [candidateSource c, candidateSource c, candidateSource c]"
    and "map (\<lambda>e. vy (lightPosition (light e))) rig
         = [vy (point c) + max (md * 0.015) 0.8, vy (point c) + max (md * 0.015) 0.8,
            vy (point c) + max (md * 0.015) 0.8]"
proof -
  from assms have "length rig = 3" by (simp add: fallbackRigOf_def)
  then obtain e1 e2 e3 where rig: "rig = [e1, e2, e3]"
    by (auto simp: numeral_3_eq_3 length_Suc_conv)
  from assms show "map sourceObject rig = [candidateSource c, candidateSource c, candidateSource c]"
    unfolding rig fallbackRigOf_def by simp
  from assms show "map (\<lambda>e. vy (lightPosition (light e))) rig
         = [vy (point c) + max (md * 0.015) 0.8, vy (point c) + max (md * 0.015) 0.8,
            vy (point c) + max (md * 0.015) 0.8]"
    unfolding rig fallbackRigOf_def by simp
qed

text \<open>
  Six candidates at heights 10, 9, 8, 2, 7, 6 in a model of size 20 (band 5): the one at
  height 2 is dropped by the band, and the remaining five are thinned to four. In the
  scene of two meshes at heights 10 and 0 the synthesis makes one rig: its three emitters
  have the upper mesh as their source and sit at height 10.8; the lower mesh gets none.
\<close>

theorem canopy_band_selection_witness:
  "selectedCanopyCandidates 20 (map exampleCandidate [10, 9, 8, 2, 7, 6])
     = map exampleCandidate [10, 9, 7, 6]
   \<and> length (selectedCanopyCandidates 20 (map exampleCandidate [10, 9, 8, 2, 7, 6])) \<le> nat maxEdgeEmitters
   \<and> exampleCandidate 2 \<in> set (map exampleCandidate [10, 9, 8, 2, 7, 6])
   \<and> exampleCandidate 2 \<notin> set (selectedCanopyCandidates 20 (map exampleCandidate [10, 9, 8, 2, 7, 6]))
   \<and> highestEdgeY (map exampleCandidate [10, 9, 8, 2, 7, 6]) = Some 10
   \<and> canopyBand 20 = 5
   \<and> exampleCandidate 6 \<in> set (selectedCanopyCandidates 20 (map exampleCandidate [10, 9, 8, 2, 7, 6]))
   \<and> 10 - vy (point (exampleCandidate 6)) \<le> canopyBand 20
   \<and> edgeGuideRigsOf (edgeUvSamplesOf (edgeLedMeshes twoLevelGeometry))
         (emitterGuideObjects twoLevelGeometry) = []
   \<and> map (\<lambda>c. (candidateSource c, point c))
        (edgeCandidatesOf 20 (edgeUvSamplesOf (edgeLedMeshes twoLevelGeometry))
           (edgeLedMeshes twoLevelGeometry))
     = [(ModelObject 11, Vector3 0 10 0), (ModelObject 12, Vector3 5 0 0)]
   \<and> edgeRigCount (synthesizeEmitters 20 0 twoLevelGeometry) = 1
   \<and> map sourceObject
        (filter (\<lambda>e. layerType e = EdgeLed)
           (emissiveEmitterLights (synthesizeEmitters 20 0 twoLevelGeometry)))
     = [ModelObject 11, ModelObject 11, ModelObject 11]
   \<and> map (\<lambda>e. vy (lightPosition (light e)))
        (filter (\<lambda>e. layerType e = EdgeLed)
           (emissiveEmitterLights (synthesizeEmitters 20 0 twoLevelGeometry)))
     = [54 / 5, 54 / 5, 54 / 5]"
proof -
  let ?cs = "map exampleCandidate [10, 9, 8, 2, 7, 6]"
  let ?high = "\<lparr>candidateSource = ModelObject 11, point = Vector3 0 10 0, candidatePhase = 0,
        direction = Vector3 1 0 0\<rparr>"
  have h: "highestEdgeY ?cs = Some 10"
    by (simp add: highestEdgeY_def exampleCandidate_def)
  have b: "canopyBand 20 = 5" by (simp add: canopyBand_def)
  have low: "exampleCandidate 2 \<in> set ?cs" "canopyBand 20 < 10 - vy (point (exampleCandidate 2))"
    by (simp_all add: exampleCandidate_def canopyBand_def)
  have mem: "exampleCandidate 6 \<in> set (selectedCanopyCandidates 20 ?cs)"
    unfolding example_selected by simp
  from canopy_band_selection [of 20 ?cs twoLevelGeometry 0]
  have len: "length (selectedCanopyCandidates 20 ?cs) \<le> nat maxEdgeEmitters"
    and sel: "\<forall>c \<in> set (selectedCanopyCandidates 20 ?cs).
         c \<in> set ?cs
         \<and> (\<exists>h. highestEdgeY ?cs = Some h
                \<and> (\<forall>c' \<in> set ?cs. vy (point c') \<le> h)
                \<and> (\<exists>c' \<in> set ?cs. vy (point c') = h)
                \<and> h - vy (point c) \<le> canopyBand 20)"
    and excl: "\<forall>c \<in> set ?cs. \<forall>h. highestEdgeY ?cs = Some h \<and> canopyBand 20 < h - vy (point c)
         \<longrightarrow> c \<notin> set (selectedCanopyCandidates 20 ?cs)"
    and syn: "edgeGuideRigsOf (edgeUvSamplesOf (edgeLedMeshes twoLevelGeometry))
                (emitterGuideObjects twoLevelGeometry) = [] \<longrightarrow>
        (let edgeCandidates = edgeCandidatesOf 20 (edgeUvSamplesOf (edgeLedMeshes twoLevelGeometry))
                                (edgeLedMeshes twoLevelGeometry);
             selected = selectedCanopyCandidates 20 edgeCandidates;
             emitters = emissiveEmitterLights (synthesizeEmitters 20 0 twoLevelGeometry)
         in edgeRigCount (synthesizeEmitters 20 0 twoLevelGeometry) = length selected
            \<and> (\<exists>rigs. filter (\<lambda>e. layerType e = EdgeLed) emitters = concat rigs
                      \<and> list_all2 (fallbackRigOf 20) selected rigs)
            \<and> (\<forall>e \<in> set emitters. layerType e = EdgeLed \<longrightarrow>
                  (\<exists>c \<in> set edgeCandidates. \<exists>h.
                      highestEdgeY edgeCandidates = Some h
                      \<and> h - vy (point c) \<le> canopyBand 20
                      \<and> sourceObject e = candidateSource c
                      \<and> vy (lightPosition (light e)) = vy (point c) + max (20 * 0.015) 0.8)))"
    by blast+
  from excl low h have out: "exampleCandidate 2 \<notin> set (selectedCanopyCandidates 20 ?cs)"
    by blast
  from sel mem have "\<exists>h. highestEdgeY ?cs = Some h \<and> h - vy (point (exampleCandidate 6)) \<le> canopyBand 20"
    by blast
  with h have band: "10 - vy (point (exampleCandidate 6)) \<le> canopyBand 20" by simp
  from syn twoLevel_guides
  have cnt: "edgeRigCount (synthesizeEmitters 20 0 twoLevelGeometry) = length [?high]"
    and "\<exists>rigs. filter (\<lambda>e. layerType e = EdgeLed)
                  (emissiveEmitterLights (synthesizeEmitters 20 0 twoLevelGeometry)) = concat rigs
                \<and> list_all2 (fallbackRigOf 20) [?high] rigs"
    unfolding Let_def twoLevel_candidates twoLevel_selected by blast+
  then obtain rig where rig: "filter (\<lambda>e. layerType e = EdgeLed)
                  (emissiveEmitterLights (synthesizeEmitters 20 0 twoLevelGeometry)) = rig"
    "fallbackRigOf 20 ?high rig"
    by (auto simp: list_all2_Cons1)
  have src: "map sourceObject (filter (\<lambda>e. layerType e = EdgeLed)
                  (emissiveEmitterLights (synthesizeEmitters 20 0 twoLevelGeometry)))
             = [ModelObject 11, ModelObject 11, ModelObject 11]"
    unfolding rig(1) using fallbackRigOf_maps(1) [OF rig(2)] by simp
  have hts: "map (\<lambda>e. vy (lightPosition (light e))) (filter (\<lambda>e. layerType e = EdgeLed)
                  (emissiveEmitterLights (synthesizeEmitters 20 0 twoLevelGeometry)))
             = [54 / 5, 54 / 5, 54 / 5]"
    unfolding rig(1) using fallbackRigOf_maps(2) [OF rig(2)] by simp
  have cs: "map (\<lambda>c. (candidateSource c, point c))
        (edgeCandidatesOf 20 (edgeUvSamplesOf (edgeLedMeshes twoLevelGeometry))
           (edgeLedMeshes twoLevelGeometry))
     = [(ModelObject 11, Vector3 0 10 0), (ModelObject 12, Vector3 5 0 0)]"
    unfolding twoLevel_candidates by simp
  from cnt have cnt1: "edgeRigCount (synthesizeEmitters 20 0 twoLevelGeometry) = 1" by simp
  from example_selected len low(1) out h b mem band twoLevel_guides cs cnt1 src hts
  show ?thesis by blast
qed

section \<open>Nearest UV phase\<close>

lemma nearestSampleLoop_mem:
  "nearestSampleLoop p s d rest \<in> set (s # rest)"
proof (induction rest arbitrary: s d)
  case Nil
  then show ?case by simp
next
  case (Cons r rest)
  have "nearestSampleLoop p r d' rest \<in> set (r # rest)" for d' by (rule Cons)
  moreover have "nearestSampleLoop p s d rest \<in> set (s # rest)" by (rule Cons)
  ultimately show ?case by (auto simp: Let_def)
qed

lemma nearestSampleLoop_min:
  "distanceToSquared p (position (nearestSampleLoop p s d rest)) \<le> max d (distanceToSquared p (position s))
   \<and> (\<forall>r \<in> set rest. distanceToSquared p (position (nearestSampleLoop p s d rest))
                         \<le> distanceToSquared p (position r))"
  if "d = distanceToSquared p (position s)"
  using that
proof (induction rest arbitrary: s d)
  case Nil
  then show ?case by simp
next
  case (Cons r rest)
  define dr where "dr = distanceToSquared p (position r)"
  show ?case
  proof (cases "dr < d")
    case True
    have step: "nearestSampleLoop p s d (r # rest) = nearestSampleLoop p r dr rest"
      using True by (simp add: Let_def dr_def)
    from Cons.IH [of dr r] have
      a: "distanceToSquared p (position (nearestSampleLoop p r dr rest)) \<le> dr"
      and b: "\<forall>x \<in> set rest. distanceToSquared p (position (nearestSampleLoop p r dr rest))
                               \<le> distanceToSquared p (position x)"
      by (simp_all add: dr_def)
    from a True Cons.prems have "distanceToSquared p (position (nearestSampleLoop p r dr rest))
        \<le> max d (distanceToSquared p (position s))" by simp
    with a b show ?thesis unfolding step by (simp add: dr_def)
  next
    case False
    have step: "nearestSampleLoop p s d (r # rest) = nearestSampleLoop p s d rest"
      using False by (simp add: Let_def dr_def)
    from Cons.IH [OF Cons.prems] have
      a: "distanceToSquared p (position (nearestSampleLoop p s d rest)) \<le> d"
      and b: "\<forall>x \<in> set rest. distanceToSquared p (position (nearestSampleLoop p s d rest))
                               \<le> distanceToSquared p (position x)"
      using Cons.prems by simp_all
    from a False have "distanceToSquared p (position (nearestSampleLoop p s d rest)) \<le> dr" by simp
    with a b Cons.prems show ?thesis unfolding step by (simp add: dr_def)
  qed
qed

lemma getNearestUvPhase_nearest:
  assumes "samples \<noteq> []"
  shows "\<exists>s \<in> set samples. getNearestUvPhase p samples = Some (u s)
           \<and> (\<forall>r \<in> set samples. distanceToSquared p (position s) \<le> distanceToSquared p (position r))"
proof -
  obtain s0 rest where samples: "samples = s0 # rest" using assms by (cases samples) auto
  define n where "n = nearestSampleLoop p s0 (distanceToSquared p (position s0)) rest"
  have mem: "n \<in> set samples" unfolding n_def samples by (rule nearestSampleLoop_mem)
  have "distanceToSquared p (position n) \<le> distanceToSquared p (position s0)"
       "\<forall>r \<in> set rest. distanceToSquared p (position n) \<le> distanceToSquared p (position r)"
    unfolding n_def using nearestSampleLoop_min [OF refl, of p s0 rest] by simp_all
  then have "\<forall>r \<in> set samples. distanceToSquared p (position n) \<le> distanceToSquared p (position r)"
    unfolding samples by simp
  moreover have "getNearestUvPhase p samples = Some (u n)"
    by (simp add: getNearestUvPhase_def samples n_def)
  ultimately show ?thesis using mem by blast
qed

lemma wrapped_u_range: "0 \<le> js_mod (js_mod x 1 + 1) 1 \<and> js_mod (js_mod x 1 + 1) 1 < 1"
  using euclideanModulo_1 [of x] frac_ge_0 [of x] frac_lt_1 [of x]
  by (simp add: euclideanModulo_def)

lemma sampleMeshUvWorldPoints_range:
  assumes "s \<in> set (sampleMeshUvWorldPoints mesh n)"
  shows "0 \<le> u s \<and> u s < 1"
proof -
  from assms obtain x where "u s = js_mod (js_mod x 1 + 1) 1"
    by (auto simp: sampleMeshUvWorldPoints_def Let_def split: if_splits option.splits)
  then show ?thesis using wrapped_u_range [of x] by simp
qed


lemma edgeUvSamplesOf_range:
  assumes "s \<in> set (edgeUvSamplesOf meshes)"
  shows "0 \<le> u s \<and> u s < 1"
proof -
  have "set (edgeUvSamplesOf meshes)
        \<subseteq> set (concat (map (\<lambda>mesh. sampleMeshUvWorldPoints mesh 320) meshes))"
    unfolding edgeUvSamplesOf_def by (rule set_downsampleEvenly)
  with assms have "s \<in> set (concat (map (\<lambda>mesh. sampleMeshUvWorldPoints mesh 320) meshes))"
    by (rule_tac subsetD)
  then obtain mesh where "s \<in> set (sampleMeshUvWorldPoints mesh 320)" by auto
  then show ?thesis by (rule sampleMeshUvWorldPoints_range)
qed

text \<open>
  Claim C8. \<open>getNearestUvPhase\<close> answers \<open>null\<close> (\<open>None\<close>) on the empty sample list, and
  on a non-empty list the \<open>u\<close> of a sample whose squared distance to the query point is
  least; it is a total function, with no failing branch. Every sample that
  \<open>sampleMeshUvWorldPoints\<close> produces, and so every sample of the list the load callback
  searches, has \<open>u\<close> in [0, 1); on a non-empty list of such samples the answer lies in [0, 1).
\<close>

theorem getNearestUvPhase_spec:
  "getNearestUvPhase p [] = None
   \<and> (samples \<noteq> [] \<longrightarrow>
        (\<exists>s \<in> set samples. getNearestUvPhase p samples = Some (u s)
           \<and> (\<forall>r \<in> set samples. distanceToSquared p (position s) \<le> distanceToSquared p (position r))))
   \<and> (\<forall>s \<in> set (sampleMeshUvWorldPoints mesh n). 0 \<le> u s \<and> u s < 1)
   \<and> (\<forall>s \<in> set (edgeUvSamplesOf meshes). 0 \<le> u s \<and> u s < 1)
   \<and> (samples \<noteq> [] \<and> (set samples \<subseteq> set (sampleMeshUvWorldPoints mesh n)
                          \<or> set samples \<subseteq> set (edgeUvSamplesOf meshes)) \<longrightarrow>
        (\<exists>v. getNearestUvPhase p samples = Some v \<and> 0 \<le> v \<and> v < 1))"
proof -
  have a: "getNearestUvPhase p [] = None" by (simp add: getNearestUvPhase_def)
  have b: "\<exists>s \<in> set samples. getNearestUvPhase p samples = Some (u s)
           \<and> (\<forall>r \<in> set samples. distanceToSquared p (position s) \<le> distanceToSquared p (position r))"
    if "samples \<noteq> []"
    using that by (rule getNearestUvPhase_nearest)
  have c: "\<forall>s \<in> set (sampleMeshUvWorldPoints mesh n). 0 \<le> u s \<and> u s < 1"
    using sampleMeshUvWorldPoints_range by blast
  have d: "\<forall>s \<in> set (edgeUvSamplesOf meshes). 0 \<le> u s \<and> u s < 1"
    using edgeUvSamplesOf_range by blast
  have e: "\<exists>v. getNearestUvPhase p samples = Some v \<and> 0 \<le> v \<and> v < 1"
    if ne: "samples \<noteq> []"
      and sub: "set samples \<subseteq> set (sampleMeshUvWorldPoints mesh n)
                \<or> set samples \<subseteq> set (edgeUvSamplesOf meshes)"
  proof -
    from b [OF ne] obtain s where s: "s \<in> set samples" "getNearestUvPhase p samples = Some (u s)"
      by blast
    from sub s(1) have "s \<in> set (sampleMeshUvWorldPoints mesh n) \<or> s \<in> set (edgeUvSamplesOf meshes)"
      by (elim disjE) (simp_all add: subset_iff)
    then have "0 \<le> u s \<and> u s < 1" using c d by blast
    with s(2) show ?thesis by simp
  qed
  from a b c d e show ?thesis by (intro conjI impI) simp_all
qed

lemma example_uv_samples:
  "sampleMeshUvWorldPoints exampleMesh 320
   = [\<lparr>position = Vector3 8 2 0, u = 1 / 4\<rparr>, \<lparr>position = Vector3 0 10 0, u = 0\<rparr>,
      \<lparr>position = Vector3 4 9 0, u = 1 / 2\<rparr>]"
  by (simp add: sampleMeshUvWorldPoints_def exampleMesh_def Let_def js_mod_def js_trunc_def)

text \<open>
  The three samples of the example mesh (u = 5/4 wraps to 1/4) and the query point
  (3, 9, 0): the third sample is nearest, and the answer is its u, 1/2.
\<close>

theorem getNearestUvPhase_spec_witness:
  "sampleMeshUvWorldPoints exampleMesh 320 \<noteq> []
   \<and> getNearestUvPhase (Vector3 3 9 0) [] = None
   \<and> getNearestUvPhase (Vector3 3 9 0) (sampleMeshUvWorldPoints exampleMesh 320) = Some (1 / 2)
   \<and> (\<exists>s \<in> set (sampleMeshUvWorldPoints exampleMesh 320).
         getNearestUvPhase (Vector3 3 9 0) (sampleMeshUvWorldPoints exampleMesh 320) = Some (u s)
         \<and> (\<forall>r \<in> set (sampleMeshUvWorldPoints exampleMesh 320).
               distanceToSquared (Vector3 3 9 0) (position s)
               \<le> distanceToSquared (Vector3 3 9 0) (position r)))
   \<and> u (sampleMeshUvWorldPoints exampleMesh 320 ! 0) = 1 / 4
   \<and> 0 \<le> u (sampleMeshUvWorldPoints exampleMesh 320 ! 0)
   \<and> u (sampleMeshUvWorldPoints exampleMesh 320 ! 0) < 1"
proof -
  let ?S = "sampleMeshUvWorldPoints exampleMesh 320"
  have ne: "?S \<noteq> []" by (simp add: example_uv_samples)
  have v: "getNearestUvPhase (Vector3 3 9 0) ?S = Some (1 / 2)"
    by (simp add: example_uv_samples getNearestUvPhase_def distanceToSquared_def Let_def)
  have mem: "?S ! 0 \<in> set ?S" using ne by simp
  have u0: "u (?S ! 0) = 1 / 4" by (simp add: example_uv_samples)
  from getNearestUvPhase_spec [of "Vector3 3 9 0" ?S exampleMesh 320 "[]"]
  have a: "getNearestUvPhase (Vector3 3 9 0) [] = None"
    and b: "?S \<noteq> [] \<longrightarrow>
        (\<exists>s \<in> set ?S. getNearestUvPhase (Vector3 3 9 0) ?S = Some (u s)
           \<and> (\<forall>r \<in> set ?S. distanceToSquared (Vector3 3 9 0) (position s)
                             \<le> distanceToSquared (Vector3 3 9 0) (position r)))"
    and c: "\<forall>s \<in> set ?S. 0 \<le> u s \<and> u s < 1"
    by blast+
  from c mem have r: "0 \<le> u (?S ! 0)" "u (?S ! 0) < 1" by blast+
  from b ne have n: "\<exists>s \<in> set ?S. getNearestUvPhase (Vector3 3 9 0) ?S = Some (u s)
           \<and> (\<forall>r \<in> set ?S. distanceToSquared (Vector3 3 9 0) (position s)
                             \<le> distanceToSquared (Vector3 3 9 0) (position r))" by blast
  from ne a v n u0 r show ?thesis by blast
qed

section \<open>Sampling the vertices of a mesh\<close>

lemma strideFrom_one: "strideFrom 1 xs = xs"
  by (induction xs) simp_all

lemma strideFrom_Nil_iff: "strideFrom step xs = [] \<longleftrightarrow> xs = []"
  by (cases xs) simp_all

lemma length_strideFrom_two: "length (strideFrom 2 xs) = (length xs + 1) div 2"
proof (induction "2::nat" xs rule: strideFrom.induct)
  case 1
  then show ?case by simp
next
  case (2 x xs)
  then have "length (strideFrom 2 (drop 1 xs)) = (length (drop 1 xs) + 1) div 2" by simp
  then show ?case by (cases xs) simp_all
qed

lemma length_strideFrom_le: "length (strideFrom step xs) \<le> length xs"
proof (induction step xs rule: strideFrom.induct)
  case (1 step)
  then show ?case by simp
next
  case (2 step x xs)
  have "length (drop (step - 1) xs) \<le> length xs" by simp
  with 2 show ?case by simp
qed

lemma evenRank_one: "0 < len \<Longrightarrow> evenRank len 1 0 = len div 2"
proof -
  assume "0 < len"
  then have "real (len - 1) * (5 / 10) + 1 / 2 = real len / real (2::nat)"
    by (simp add: of_nat_diff field_simps)
  then have "\<lfloor>real (len - 1) * (5 / 10) + 1 / 2\<rfloor> = int (len div 2)"
    by (simp only: floor_divide_of_nat_eq)
  then show ?thesis by (simp add: evenRank_def js_round_def Let_def)
qed

lemma evenRank_full: "i < len \<Longrightarrow> evenRank len len i = i"
proof (cases "len = 1")
  case True
  assume "i < len"
  with True show ?thesis by (simp add: evenRank_def js_round_def Let_def)
next
  case False
  assume i: "i < len"
  with False have "real (len - 1) \<noteq> 0" by simp
  then have "real (len - 1) * (real i / real (len - 1)) + 1 / 2 = real i + 1 / 2" by simp
  moreover have "\<lfloor>real i + 1 / 2\<rfloor> = int i" by linarith
  ultimately show ?thesis using False by (simp add: evenRank_def js_round_def Let_def)
qed

lemma sampleMeshWorldPoints_unfold:
  assumes "geometry mesh = Some g" and "positionAttribute g = Some ps" and "ps \<noteq> []" and "0 < n"
  shows "sampleMeshWorldPoints mesh n
         = map (\<lambda>i. localToWorld mesh
                        (sortedVerticesOf ps
                           ! evenRank (length (sortedVerticesOf ps))
                               (min (nat n) (length (sortedVerticesOf ps))) i))
             [0..<min (nat n) (length (sortedVerticesOf ps))]"
  using assms
  by (simp add: sampleMeshWorldPoints_def Let_def sortedVerticesOf_def sampledVerticesOf_def
      strideFrom_Nil_iff)


lemma bigMesh_sampled: "length (sampledVerticesOf bigMeshVertices) = 2048"
proof -
  have len: "length bigMeshVertices = 4096" by (simp add: bigMeshVertices_def)
  then have "max 1 (length bigMeshVertices div 2048) = 2" by simp
  then have "sampledVerticesOf bigMeshVertices = strideFrom 2 bigMeshVertices"
    by (simp only: sampledVerticesOf_def)
  then show ?thesis by (simp add: length_strideFrom_two len)
qed

lemma bigMesh_distinct: "distinct bigMeshVertices"
  by (simp add: bigMeshVertices_def distinct_map inj_on_def)

text \<open>
  Claim C7 as stated fails on a large mesh. \<open>sampleMeshWorldPoints\<close> reads every
  \<open>step\<close>-th vertex only, \<open>step = max(1, floor(vertexCount / 2048))\<close>: of the 4096
  different vertices of the big mesh, a call with \<open>n = 4096\<close> returns 2048 points, so not
  every vertex is among them.
\<close>

theorem sampleMeshWorldPoints_all_vertices_counterexample:
  "length bigMeshVertices = 4096
   \<and> distinct bigMeshVertices
   \<and> geometry bigMesh = Some \<lparr>positionAttribute = Some bigMeshVertices, uvAttribute = None\<rparr>
   \<and> length (sampleMeshWorldPoints bigMesh 4096) = 2048
   \<and> \<not> set bigMeshVertices \<subseteq> set (sampleMeshWorldPoints bigMesh 4096)"
proof -
  have len: "length bigMeshVertices = 4096" by (simp add: bigMeshVertices_def)
  then have ne: "bigMeshVertices \<noteq> []" by auto
  have g: "geometry bigMesh = Some \<lparr>positionAttribute = Some bigMeshVertices, uvAttribute = None\<rparr>"
    by (simp add: bigMesh_def)
  have sorted_len: "length (sortedVerticesOf bigMeshVertices) = 2048"
    by (simp add: sortedVerticesOf_def bigMesh_sampled)
  have "length (sampleMeshWorldPoints bigMesh 4096) = min (nat 4096) (length (sortedVerticesOf bigMeshVertices))"
    by (subst sampleMeshWorldPoints_unfold [OF g _ ne]) simp_all
  then have res: "length (sampleMeshWorldPoints bigMesh 4096) = 2048"
    by (simp add: sorted_len)
  have "card (set (sampleMeshWorldPoints bigMesh 4096)) \<le> 2048"
    using card_length [of "sampleMeshWorldPoints bigMesh 4096"] res by simp
  moreover have "card (set bigMeshVertices) = 4096"
    using distinct_card [OF bigMesh_distinct] len by simp
  ultimately have "\<not> set bigMeshVertices \<subseteq> set (sampleMeshWorldPoints bigMesh 4096)"
    using card_mono [of "set (sampleMeshWorldPoints bigMesh 4096)" "set bigMeshVertices"]
    by auto
  with len bigMesh_distinct g res show ?thesis by blast
qed

text \<open>
  Claim C7, amended. \<open>sampleMeshWorldPoints\<close> is a function of the mesh and \<open>n\<close> alone.
  For a mesh with at least one vertex, let the sampled vertices be every \<open>step\<close>-th vertex
  and the sorted vertices be these in ascending order along the dominant axis of the
  bounding box, a stable rearrangement of the sampled ones. For \<open>n = 1\<close> the result is the
  sorted vertex of rank \<open>length div 2\<close>, the median rank, moved to world space. For \<open>n\<close>
  at least the number of sampled vertices the result is all of them, each once, in sorted
  order. When the mesh has fewer than 4096 vertices the sampled vertices are all its
  vertices.
\<close>

theorem sampleMeshWorldPoints_ranks:
  assumes "geometry mesh = Some g" and "positionAttribute g = Some ps" and "ps \<noteq> []"
  shows "sampleMeshWorldPoints mesh 1
           = [localToWorld mesh (sortedVerticesOf ps ! (length (sortedVerticesOf ps) div 2))]
       \<and> length (sortedVerticesOf ps) div 2 < length (sortedVerticesOf ps)
       \<and> (int (length (sortedVerticesOf ps)) \<le> n \<longrightarrow>
            sampleMeshWorldPoints mesh n = map (localToWorld mesh) (sortedVerticesOf ps))
       \<and> mset (sortedVerticesOf ps) = mset (sampledVerticesOf ps)
       \<and> sorted (map (axisValue (getLargestAxisName (boundingBoxSize ps))) (sortedVerticesOf ps))
       \<and> (length ps < 4096 \<longrightarrow> sampledVerticesOf ps = ps)"
proof -
  let ?S = "sortedVerticesOf ps"
  have "length ?S = length (sampledVerticesOf ps)"
    by (simp add: sortedVerticesOf_def)
  moreover have "sampledVerticesOf ps \<noteq> []"
    using assms(3) by (simp add: sampledVerticesOf_def strideFrom_Nil_iff)
  ultimately have pos: "0 < length ?S" by simp
  have one: "sampleMeshWorldPoints mesh 1 = [localToWorld mesh (?S ! (length ?S div 2))]"
  proof -
    from pos have "1 \<le> length ?S" by linarith
    then have "min (nat 1) (length ?S) = 1" by (simp add: min_def)
    then show ?thesis
      using sampleMeshWorldPoints_unfold [OF assms, of 1] evenRank_one [OF pos] by simp
  qed
  have all: "sampleMeshWorldPoints mesh n = map (localToWorld mesh) ?S" if n: "int (length ?S) \<le> n"
  proof -
    from n pos have n0: "0 < n" by linarith
    from n have m: "min (nat n) (length ?S) = length ?S" by linarith
    have "sampleMeshWorldPoints mesh n
          = map (\<lambda>i. localToWorld mesh (?S ! evenRank (length ?S) (length ?S) i)) [0..<length ?S]"
      using sampleMeshWorldPoints_unfold [OF assms n0] unfolding m .
    also have "\<dots> = map (\<lambda>i. localToWorld mesh (?S ! i)) [0..<length ?S]"
      by (rule map_cong) (simp_all add: evenRank_full)
    also have "\<dots> = map (localToWorld mesh) (map (\<lambda>i. ?S ! i) [0..<length ?S])"
      by simp
    also have "\<dots> = map (localToWorld mesh) ?S"
      by (simp only: map_nth)
    finally show ?thesis .
  qed
  have perm: "mset ?S = mset (sampledVerticesOf ps)"
    by (simp add: sortedVerticesOf_def)
  have srt: "sorted (map (axisValue (getLargestAxisName (boundingBoxSize ps))) ?S)"
    by (simp add: sortedVerticesOf_def)
  have small: "sampledVerticesOf ps = ps" if "length ps < 4096"
  proof -
    from that have "length ps div 2048 \<le> 1" by simp
    then have "max 1 (length ps div 2048) = 1" by simp
    then show ?thesis by (simp only: sampledVerticesOf_def strideFrom_one)
  qed
  have mid: "length ?S div 2 < length ?S" using pos by simp
  from one mid all perm srt small show ?thesis by blast
qed

lemma exampleMesh_sorted:
  "sortedVerticesOf [Vector3 8 2 0, Vector3 0 10 0, Vector3 4 9 0]
   = [Vector3 8 2 0, Vector3 4 9 0, Vector3 0 10 0]"
  by (simp add: sortedVerticesOf_def sampledVerticesOf_def boundingBoxSize_def getLargestAxisName_def)

text \<open>
  The example mesh, three vertices, dominant axis y: the median by height for \<open>n = 1\<close>,
  all three by height for \<open>n = 5\<close>.
\<close>

theorem sampleMeshWorldPoints_ranks_witness:
  "geometry exampleMesh
     = Some \<lparr>positionAttribute = Some [Vector3 8 2 0, Vector3 0 10 0, Vector3 4 9 0],
             uvAttribute = Some [(5 / 4, 0), (0, 0), (1 / 2, 0)]\<rparr>
   \<and> sampleMeshWorldPoints exampleMesh 1 = [Vector3 4 9 0]
   \<and> int (length (sortedVerticesOf [Vector3 8 2 0, Vector3 0 10 0, Vector3 4 9 0])) \<le> 5
   \<and> sampleMeshWorldPoints exampleMesh 5 = [Vector3 8 2 0, Vector3 4 9 0, Vector3 0 10 0]
   \<and> length [Vector3 8 2 0, Vector3 0 10 0, Vector3 4 9 0] < (4096::nat)
   \<and> sampledVerticesOf [Vector3 8 2 0, Vector3 0 10 0, Vector3 4 9 0]
       = [Vector3 8 2 0, Vector3 0 10 0, Vector3 4 9 0]"
proof -
  let ?ps = "[Vector3 8 2 0, Vector3 0 10 0, Vector3 4 9 0]"
  let ?g = "\<lparr>positionAttribute = Some ?ps, uvAttribute = Some [(5 / 4, 0), (0, 0), (1 / 2, 0)]\<rparr>"
  have g: "geometry exampleMesh = Some ?g" by (simp add: exampleMesh_def)
  have p: "positionAttribute ?g = Some ?ps" by simp
  have ne: "?ps \<noteq> []" by simp
  have l2w: "localToWorld exampleMesh = (\<lambda>p. p)" by (simp add: exampleMesh_def)
  have len: "int (length (sortedVerticesOf ?ps)) \<le> 5" "length ?ps < (4096::nat)"
    by (simp_all add: exampleMesh_sorted)
  from sampleMeshWorldPoints_ranks [OF g p ne, of 5]
  have one: "sampleMeshWorldPoints exampleMesh 1
           = [localToWorld exampleMesh (sortedVerticesOf ?ps ! (length (sortedVerticesOf ?ps) div 2))]"
    and all: "int (length (sortedVerticesOf ?ps)) \<le> 5 \<longrightarrow>
            sampleMeshWorldPoints exampleMesh 5 = map (localToWorld exampleMesh) (sortedVerticesOf ?ps)"
    and small: "length ?ps < 4096 \<longrightarrow> sampledVerticesOf ?ps = ?ps"
    by blast+
  from one have one': "sampleMeshWorldPoints exampleMesh 1 = [Vector3 4 9 0]"
    by (simp add: exampleMesh_sorted l2w)
  from all len(1) have all': "sampleMeshWorldPoints exampleMesh 5 = [Vector3 8 2 0, Vector3 4 9 0, Vector3 0 10 0]"
    by (simp add: exampleMesh_sorted l2w)
  from small len(2) have small': "sampledVerticesOf ?ps = ?ps" by blast
  from g one' len all' small' show ?thesis by blast
qed

end
